theory Spec2Isabelle
  imports Complex_Main "HOL-Library.Log_Nat"
begin

chapter \<open>The embedding\<close>

section \<open>Errors and expense statuses\<close>

text \<open>
  The error classes of \<open>server/graphql/errors\<close> that the request handlers throw, with
  their message (\<open>new Forbidden()\<close> has the empty message). \<open>Error\<close> is the plain
  JavaScript \<open>Error\<close>; \<open>TypeError\<close> is what a property read on \<open>null\<close> or
  \<open>undefined\<close> raises.
\<close>

datatype error =
    Unauthorized string
  | Forbidden string
  | ValidationFailed string
  | BadRequest string
  | NotFound string
  | FeatureNotAllowedForUser
  | FeatureNotSupportedForCollective string
  | Error string
  | TypeError

text \<open>\<open>server/constants/expense_status.js\<close>\<close>

datatype expense_status =
    DRAFT | UNVERIFIED | PENDING | APPROVED | REJECTED | PROCESSING
  | ERROR | PAID | SCHEDULED_FOR_PAYMENT | SPAM | CANCELED

section \<open>FX rate matching\<close>



text \<open>
  The Wise transfer or quote stored in \<open>expense.data\<close>: a transfer names its currencies
  \<open>sourceCurrency\<close>/\<open>targetCurrency\<close> and its date \<open>created\<close>, a quote \<open>source\<close>/
  \<open>target\<close> and \<open>createdTime\<close>.
\<close>

record wise_info =
  rate :: "rat option"
  sourceCurrency :: "string option"
  source :: "string option"
  targetCurrency :: "string option"
  target :: "string option"
  created :: "string option"
  createdTime :: "string option"





section \<open>Virtual card mutations\<close>

text \<open>
  \<open>server/graphql/v2/mutation/VirtualCardMutations.ts\<close>. What the resolvers read from
  outside (the account references, the host of an account, the user's rights, the card
  provider) is a field of the environment \<open>vc_env\<close>; what they write (the cards and the
  activities) is the state \<open>vc_db\<close>.
\<close>

definition MAXIMUM_MONTHLY_LIMIT :: int where
  "MAXIMUM_MONTHLY_LIMIT = 2000"

datatype card_provider = STRIPE | PRIVACY

datatype limit_interval = MONTHLY | OtherInterval string

text \<open>An \<open>AmountInput\<close>; \<open>valueInCents\<close> may be left out.\<close>

record amount_input =
  valueInCents :: "int option"

record vc_host =
  hostId :: nat
  hostCurrency :: string

record vc_account =
  accountId :: nat
  getHostCollective :: "vc_host option"
  getUser :: "nat option"

record virtual_card =
  cardId :: nat
  cardHostCollectiveId :: nat
  cardName :: string
  cardUserId :: nat
  spendingLimitAmount :: "int option"
  spendingLimitInterval :: limit_interval
  provider :: card_provider
  cardCurrency :: string

record vc_remote_user =
  vcUserId :: nat
  isAdminOfHost :: "vc_host option \<Rightarrow> bool"
  isAdminOfId :: "nat \<Rightarrow> bool"

text \<open>
  \<open>fetchAccountWithReference ref throwIfMissing\<close> is not among the sources: it either
  throws or returns the account, or \<open>null\<close>. \<open>stripeCreateVirtualCard\<close> and
  \<open>stripeUpdateVirtualCardMonthlyLimit\<close> are the provider calls, which may throw.
  \<open>activityCreateFails\<close> says whether \<open>models.Activity.create\<close> rejects (the resolver
  catches and logs that).
\<close>

record vc_env =
  vcRemoteUser :: "vc_remote_user option"
  fetchAccountWithReference :: "nat \<Rightarrow> bool \<Rightarrow> error + vc_account option"
  stripeCreateVirtualCard ::
    "vc_host option \<Rightarrow> vc_account \<Rightarrow> nat \<Rightarrow> string \<Rightarrow> int option \<Rightarrow> error + virtual_card"
  stripeUpdateVirtualCardMonthlyLimit :: "virtual_card \<Rightarrow> int option \<Rightarrow> error option"
  activityCreateFails :: bool

record vc_activity =
  activityUserId :: nat
  activityCollectiveId :: nat

record vc_db =
  cards :: "virtual_card list"
  stripeLimitUpdates :: "(nat \<times> int option) list"
  vcActivities :: "vc_activity list"

record create_card_args =
  createName :: string
  createMonthlyLimit :: amount_input
  createAccount :: nat
  createAssignee :: nat

text \<open>\<open>monthlyLimitInCents > MAXIMUM_MONTHLY_LIMIT * 100\<close>; false for \<open>undefined\<close>.\<close>

definition exceedsMonthlyLimit :: "int option \<Rightarrow> bool" where
  "exceedsMonthlyLimit monthlyLimitInCents =
     (case monthlyLimitInCents of None \<Rightarrow> False | Some v \<Rightarrow> v > MAXIMUM_MONTHLY_LIMIT * 100)"

definition monthlyLimitMessage :: "string \<Rightarrow> string" where
  "monthlyLimitMessage cur = ''Monthly limit should not exceed 2000 '' @ cur"

definition createVirtualCard ::
  "vc_env \<Rightarrow> create_card_args \<Rightarrow> vc_db \<Rightarrow> (error + virtual_card) \<times> vc_db" where
  "createVirtualCard env args db =
     (case vcRemoteUser env of
        None \<Rightarrow> (Inl (Unauthorized ''You need to be logged in to create a virtual card''), db)
      | Some remoteUser \<Rightarrow>
         (case fetchAccountWithReference env (createAccount args) True of
            Inl e \<Rightarrow> (Inl e, db)
          | Inr None \<Rightarrow> (Inl TypeError, db)
          | Inr (Some collective) \<Rightarrow>
             (let host = getHostCollective collective;
                  monthlyLimitInCents = valueInCents (createMonthlyLimit args)
              in if exceedsMonthlyLimit monthlyLimitInCents then
                   (case host of
                      None \<Rightarrow> (Inl TypeError, db)
                    | Some h \<Rightarrow> (Inl (BadRequest (monthlyLimitMessage (hostCurrency h))), db))
                 else if \<not> isAdminOfHost remoteUser host then
                   (Inl (Unauthorized ''You don't have permission to edit this collective''), db)
                 else
                   (case fetchAccountWithReference env (createAssignee args) True of
                      Inl e \<Rightarrow> (Inl e, db)
                    | Inr None \<Rightarrow> (Inl TypeError, db)
                    | Inr (Some assignee) \<Rightarrow>
                       (case getUser assignee of
                          None \<Rightarrow> (Inl (BadRequest ''Could not find the assigned user''), db)
                        | Some userId \<Rightarrow>
                           (case stripeCreateVirtualCard env host collective userId
                                   (createName args) monthlyLimitInCents of
                              Inl e \<Rightarrow> (Inl e, db)
                            | Inr virtualCard \<Rightarrow>
                               (Inr virtualCard,
                                db \<lparr> cards := cards db @ [virtualCard],
                                     vcActivities :=
                                       (if activityCreateFails env then vcActivities db
                                        else vcActivities db @
                                          [\<lparr> activityUserId = vcUserId remoteUser,
                                             activityCollectiveId = accountId collective \<rparr>]) \<rparr>)))))))"

record edit_card_args =
  editVirtualCardId :: nat
  editName :: "string option"
  editAssignee :: "nat option"
  editMonthlyLimit :: "amount_input option"

text \<open>\<open>models.VirtualCard.findOne({ where: { id } })\<close>\<close>

definition findCard :: "vc_db \<Rightarrow> nat \<Rightarrow> virtual_card option" where
  "findCard db i = find (\<lambda>c. cardId c = i) (cards db)"

text \<open>\<open>virtualCard.update(updateAttributes)\<close>: the row with that id is replaced.\<close>

definition updateCard :: "virtual_card \<Rightarrow> vc_db \<Rightarrow> vc_db" where
  "updateCard c db = db \<lparr> cards := map (\<lambda>x. if cardId x = cardId c then c else x) (cards db) \<rparr>"

text \<open>
  The three optional parts of \<open>editVirtualCard\<close>, each working on the attributes to
  update (here: the card with the attributes already applied).
\<close>

definition editAssigneePart ::
  "vc_env \<Rightarrow> edit_card_args \<Rightarrow> virtual_card \<Rightarrow> error + virtual_card" where
  "editAssigneePart env args c =
     (case editAssignee args of
        None \<Rightarrow> Inr c
      | Some ref \<Rightarrow>
         (case fetchAccountWithReference env ref False of
            Inl e \<Rightarrow> Inl e
          | Inr None \<Rightarrow> Inl TypeError
          | Inr (Some userCollective) \<Rightarrow>
             (case getUser userCollective of
                None \<Rightarrow> Inl (BadRequest ''Could not find the assigned user'')
              | Some userId \<Rightarrow> Inr (c \<lparr> cardUserId := userId \<rparr>))))"

definition editNamePart :: "edit_card_args \<Rightarrow> virtual_card \<Rightarrow> virtual_card" where
  "editNamePart args c =
     (case editName args of
        None \<Rightarrow> c
      | Some n \<Rightarrow> if n = [] then c else c \<lparr> cardName := n \<rparr>)"

definition editVirtualCard ::
  "vc_env \<Rightarrow> edit_card_args \<Rightarrow> vc_db \<Rightarrow> (error + virtual_card) \<times> vc_db" where
  "editVirtualCard env args db =
     (case vcRemoteUser env of
        None \<Rightarrow> (Inl (Unauthorized ''You need to be logged in to assign a virtual card''), db)
      | Some remoteUser \<Rightarrow>
         (case findCard db (editVirtualCardId args) of
            None \<Rightarrow> (Inl (NotFound ''Could not find Virtual Card''), db)
          | Some virtualCard \<Rightarrow>
             if \<not> isAdminOfId remoteUser (cardHostCollectiveId virtualCard) then
               (Inl (Unauthorized ''You don't have permission to update this Virtual Card''), db)
             else
               (case editAssigneePart env args virtualCard of
                  Inl e \<Rightarrow> (Inl e, db)
                | Inr c1 \<Rightarrow>
                   (let c2 = editNamePart args c1 in
                    case editMonthlyLimit args of
                      None \<Rightarrow> (Inr c2, updateCard c2 db)
                    | Some monthlyLimit \<Rightarrow>
                       if spendingLimitInterval virtualCard = MONTHLY
                          \<and> provider virtualCard = STRIPE then
                         (let monthlyLimitInCents = valueInCents monthlyLimit in
                          if exceedsMonthlyLimit monthlyLimitInCents then
                            (Inl (BadRequest (monthlyLimitMessage (cardCurrency virtualCard))), db)
                          else
                            (let c3 = c2 \<lparr> spendingLimitAmount := monthlyLimitInCents \<rparr>;
                                 db1 = db \<lparr> stripeLimitUpdates := stripeLimitUpdates db @
                                              [(cardId virtualCard, monthlyLimitInCents)] \<rparr>
                             in case stripeUpdateVirtualCardMonthlyLimit env virtualCard
                                       monthlyLimitInCents of
                                  Some e \<Rightarrow> (Inl e, db)
                                | None \<Rightarrow> (Inr c3, updateCard c3 db1)))
                       else (Inr c2, updateCard c2 db)))))"

section \<open>Expenses: data and permissions\<close>

text \<open>
  \<open>server/graphql/common/expenses.ts\<close>. A \<open>collective\<close> carries what the permission
  checks read from it; \<open>authorCannotApprove\<close> is
  \<open>hasPolicy(POLICIES.EXPENSE_AUTHOR_CANNOT_APPROVE)\<close>.
\<close>

datatype collective_type =
    COLLECTIVE | EVENT | FUND | PROJECT | ORGANIZATION | OtherCollectiveType string

record collective =
  collectiveId :: nat
  collectiveType :: collective_type
  HostCollectiveId :: "nat option"
  isActive :: bool
  collectiveCurrency :: string
  authorCannotApprove :: bool

text \<open>
  An expense instance: the columns the handlers read or write, \<open>data.isLocked\<close>, and the
  \<open>collective\<close> association, which is loaded on demand and kept on the instance.
\<close>

record expense =
  expenseId :: nat
  status :: expense_status
  UserId :: nat
  CollectiveId :: nat
  lastEditedById :: "nat option"
  amount :: int
  currency :: string
  feesPayer :: string
  legacyPayoutMethod :: string
  isLocked :: bool
  collective :: "collective option"

record remote_user =
  remoteUserId :: nat
  isAdminOfCollective :: "collective option \<Rightarrow> bool"
  isAdmin :: "nat option \<Rightarrow> bool"

record host =
  hostCollectiveId :: nat
  hostCur :: string

text \<open>
  What a handler reads from outside: the logged-in user, the answer of
  \<open>canUseFeature(req.remoteUser, FEATURE.USE_EXPENSES)\<close> (\<open>lib/user-permissions\<close> is
  not among the sources), the collective loader, and the model getters.
\<close>

record request =
  remoteUser :: "remote_user option"
  canUseExpenses :: bool
  loadCollective :: "nat \<Rightarrow> collective option"
  getSubmitterUser :: "expense \<Rightarrow> nat option"
  getRecurringExpense :: "expense \<Rightarrow> nat option"
  getHostOfCollective :: "collective \<Rightarrow> host option"
  hasMultiCurrencyFeature :: "collective \<Rightarrow> host option \<Rightarrow> bool"

text \<open>\<open>if (!expense.collective) expense.collective = await load(expense.CollectiveId)\<close>\<close>

definition withCollective :: "request \<Rightarrow> expense \<Rightarrow> expense" where
  "withCollective req e =
     (case collective e of
        Some c \<Rightarrow> e
      | None \<Rightarrow> e \<lparr> collective := loadCollective req (CollectiveId e) \<rparr>)"

definition isCollectiveAdmin :: "request \<Rightarrow> expense \<Rightarrow> bool \<times> expense" where
  "isCollectiveAdmin req e =
     (case remoteUser req of
        None \<Rightarrow> (False, e)
      | Some u \<Rightarrow>
          (let e' = withCollective req e in (isAdminOfCollective u (collective e'), e')))"

definition isHostAdmin :: "request \<Rightarrow> expense \<Rightarrow> bool \<times> expense" where
  "isHostAdmin req e =
     (case remoteUser req of
        None \<Rightarrow> (False, e)
      | Some u \<Rightarrow>
          (let e' = withCollective req e in
           case collective e' of
             None \<Rightarrow> (False, e')
           | Some c \<Rightarrow> (isAdmin u (HostCollectiveId c) \<and> isActive c, e')))"

text \<open>The loop of \<open>remoteUserMeetsOneCondition\<close>: the first condition that holds wins.\<close>

fun anyCondition ::
  "request \<Rightarrow> expense \<Rightarrow> (request \<Rightarrow> expense \<Rightarrow> bool \<times> expense) list \<Rightarrow> bool \<times> expense" where
  "anyCondition req e [] = (False, e)"
| "anyCondition req e (condition # conditions) =
     (case condition req e of
        (True, e') \<Rightarrow> (True, e')
      | (False, e') \<Rightarrow> anyCondition req e' conditions)"

text \<open>
  A permission evaluator returns \<open>true\<close> or \<open>false\<close>, or throws when \<open>options.throw\<close> is
  set (the last argument); the instance comes back with its association loaded.
\<close>

definition deny :: "bool \<Rightarrow> error \<Rightarrow> expense \<Rightarrow> (error + bool) \<times> expense" where
  "deny throw err e = (if throw then Inl err else Inr False, e)"

definition remoteUserMeetsOneCondition ::
  "request \<Rightarrow> expense \<Rightarrow> (request \<Rightarrow> expense \<Rightarrow> bool \<times> expense) list \<Rightarrow> bool
     \<Rightarrow> (error + bool) \<times> expense" where
  "remoteUserMeetsOneCondition req e conditions throw =
     (case remoteUser req of
        None \<Rightarrow> deny throw (Unauthorized ''User is required'') e
      | Some u \<Rightarrow>
          (case anyCondition req e conditions of
             (True, e') \<Rightarrow> (Inr True, e')
           | (False, e') \<Rightarrow> deny throw (Unauthorized ''User does not meet minimal condition'') e'))"

definition canPayExpense :: "request \<Rightarrow> expense \<Rightarrow> bool \<Rightarrow> (error + bool) \<times> expense" where
  "canPayExpense req e throw =
     (if status e \<noteq> APPROVED \<and> status e \<noteq> ERROR then
        deny throw (Forbidden ''Can not pay expense in current status'') e
      else if \<not> canUseExpenses req then
        deny throw (Forbidden ''User cannot pay expenses'') e
      else remoteUserMeetsOneCondition req e [isHostAdmin] throw)"

definition canApprove :: "request \<Rightarrow> expense \<Rightarrow> bool \<Rightarrow> (error + bool) \<times> expense" where
  "canApprove req e throw =
     (if status e \<noteq> PENDING \<and> status e \<noteq> REJECTED then
        deny throw (Forbidden ''Can not approve expense in current status'') e
      else if \<not> canUseExpenses req then
        deny throw (Forbidden ''User cannot approve expenses'') e
      else
        (let e' = withCollective req e in
         case collective e' of
           None \<Rightarrow> (Inl TypeError, e')
         | Some c \<Rightarrow>
             if authorCannotApprove c then
               (case remoteUser req of
                  None \<Rightarrow> (Inl TypeError, e')
                | Some u \<Rightarrow>
                    if remoteUserId u = UserId e' then
                      deny throw (Forbidden ''User cannot approve their own expenses'') e'
                    else remoteUserMeetsOneCondition req e' [isCollectiveAdmin, isHostAdmin] throw)
             else remoteUserMeetsOneCondition req e' [isCollectiveAdmin, isHostAdmin] throw))"

definition canReject :: "request \<Rightarrow> expense \<Rightarrow> bool \<Rightarrow> (error + bool) \<times> expense" where
  "canReject req e throw =
     (if status e \<noteq> PENDING \<and> status e \<noteq> UNVERIFIED then
        deny throw (Forbidden ''Can not reject expense in current status'') e
      else if \<not> canUseExpenses req then
        deny throw (Forbidden ''User cannot reject expenses'') e
      else remoteUserMeetsOneCondition req e [isCollectiveAdmin, isHostAdmin] throw)"

definition canMarkAsSpam :: "request \<Rightarrow> expense \<Rightarrow> bool \<Rightarrow> (error + bool) \<times> expense" where
  "canMarkAsSpam req e throw =
     (if status e \<noteq> REJECTED then
        deny throw (Forbidden ''Can not mark expense as spam in current status'') e
      else if \<not> canUseExpenses req then
        deny throw (Forbidden ''User cannot mark expenses as spam'') e
      else remoteUserMeetsOneCondition req e [isCollectiveAdmin, isHostAdmin] throw)"

definition canUnapprove :: "request \<Rightarrow> expense \<Rightarrow> bool \<Rightarrow> (error + bool) \<times> expense" where
  "canUnapprove req e throw =
     (if status e \<noteq> APPROVED \<and> status e \<noteq> ERROR then
        deny throw (Forbidden ''Can not unapprove expense in current status'') e
      else if \<not> canUseExpenses req then
        deny throw (Forbidden ''User cannot unapprove expenses'') e
      else remoteUserMeetsOneCondition req e [isCollectiveAdmin, isHostAdmin] throw)"

section \<open>Expenses: the stored state and the status actions\<close>

datatype activity_type =
    COLLECTIVE_EXPENSE_CREATED
  | COLLECTIVE_EXPENSE_APPROVED
  | COLLECTIVE_EXPENSE_UNAPPROVED
  | COLLECTIVE_EXPENSE_REJECTED
  | COLLECTIVE_EXPENSE_MARKED_AS_SPAM
  | COLLECTIVE_EXPENSE_PAID
  | COLLECTIVE_EXPENSE_PROCESSING

record activity =
  activityType :: activity_type
  activityExpenseId :: nat
  activityByUserId :: nat

text \<open>
  The rows the expense handlers write: the expenses, the activities, the users limited
  with \<open>limitFeature(FEATURE.USE_EXPENSES)\<close>, the recurring expenses destroyed and the
  spam notifications sent.
\<close>

record expense_db =
  expenses :: "expense list"
  activities :: "activity list"
  limitedUsers :: "nat list"
  destroyedRecurringExpenses :: "nat list"
  spamNotifications :: "activity list"

text \<open>\<open>models.Expense.findByPk(id)\<close>\<close>

definition findByPk :: "expense_db \<Rightarrow> nat \<Rightarrow> expense option" where
  "findByPk db i = find (\<lambda>r. expenseId r = i) (expenses db)"

text \<open>
  \<open>expense.update(values)\<close>: the values are set on the instance and on its row; the
  instance is returned.
\<close>

definition updateExpense ::
  "(expense \<Rightarrow> expense) \<Rightarrow> expense \<Rightarrow> expense_db \<Rightarrow> expense \<times> expense_db" where
  "updateExpense values e db =
     (values e,
      db \<lparr> expenses := map (\<lambda>r. if expenseId r = expenseId e then values r else r) (expenses db) \<rparr>)"

definition createActivity ::
  "activity_type \<Rightarrow> expense \<Rightarrow> remote_user \<Rightarrow> expense_db \<Rightarrow> activity \<times> expense_db" where
  "createActivity ty e u db =
     (let a = \<lparr> activityType = ty, activityExpenseId = expenseId e,
                 activityByUserId = remoteUserId u \<rparr>
      in (a, db \<lparr> activities := activities db @ [a] \<rparr>))"

text \<open>
  The four status actions. Each returns the expense when it already has the target
  status, throws \<open>Forbidden\<close> when the evaluator says no, and only then updates the row
  and creates the activity. \<open>req.remoteUser.id\<close> raises on a missing user.
\<close>

definition approveExpense ::
  "request \<Rightarrow> expense \<Rightarrow> expense_db \<Rightarrow> (error + expense) \<times> expense_db" where
  "approveExpense req e db =
     (if status e = APPROVED then (Inr e, db)
      else
        (case canApprove req e False of
           (Inl err, e') \<Rightarrow> (Inl err, db)
         | (Inr False, e') \<Rightarrow> (Inl (Forbidden []), db)
         | (Inr True, e') \<Rightarrow>
            (case remoteUser req of
               None \<Rightarrow> (Inl TypeError, db)
             | Some u \<Rightarrow>
                (let (updatedExpense, db1) =
                       updateExpense (\<lambda>r. r \<lparr> status := APPROVED,
                                             lastEditedById := Some (remoteUserId u) \<rparr>) e' db;
                     (a, db2) = createActivity COLLECTIVE_EXPENSE_APPROVED updatedExpense u db1
                 in (Inr updatedExpense, db2)))))"

definition unapproveExpense ::
  "request \<Rightarrow> expense \<Rightarrow> expense_db \<Rightarrow> (error + expense) \<times> expense_db" where
  "unapproveExpense req e db =
     (if status e = PENDING then (Inr e, db)
      else
        (case canUnapprove req e False of
           (Inl err, e') \<Rightarrow> (Inl err, db)
         | (Inr False, e') \<Rightarrow> (Inl (Forbidden []), db)
         | (Inr True, e') \<Rightarrow>
            (case remoteUser req of
               None \<Rightarrow> (Inl TypeError, db)
             | Some u \<Rightarrow>
                (let (updatedExpense, db1) =
                       updateExpense (\<lambda>r. r \<lparr> status := PENDING,
                                             lastEditedById := Some (remoteUserId u) \<rparr>) e' db;
                     (a, db2) = createActivity COLLECTIVE_EXPENSE_UNAPPROVED updatedExpense u db1
                 in (Inr updatedExpense, db2)))))"

definition rejectExpense ::
  "request \<Rightarrow> expense \<Rightarrow> expense_db \<Rightarrow> (error + expense) \<times> expense_db" where
  "rejectExpense req e db =
     (if status e = REJECTED then (Inr e, db)
      else
        (case canReject req e False of
           (Inl err, e') \<Rightarrow> (Inl err, db)
         | (Inr False, e') \<Rightarrow> (Inl (Forbidden []), db)
         | (Inr True, e') \<Rightarrow>
            (case remoteUser req of
               None \<Rightarrow> (Inl TypeError, db)
             | Some u \<Rightarrow>
                (let (updatedExpense, db1) =
                       updateExpense (\<lambda>r. r \<lparr> status := REJECTED,
                                             lastEditedById := Some (remoteUserId u) \<rparr>) e' db;
                     (a, db2) = createActivity COLLECTIVE_EXPENSE_REJECTED updatedExpense u db1
                 in (Inr updatedExpense, db2)))))"

definition markExpenseAsSpam ::
  "request \<Rightarrow> expense \<Rightarrow> expense_db \<Rightarrow> (error + expense) \<times> expense_db" where
  "markExpenseAsSpam req e db =
     (if status e = SPAM then (Inr e, db)
      else
        (case canMarkAsSpam req e False of
           (Inl err, e') \<Rightarrow> (Inl err, db)
         | (Inr False, e') \<Rightarrow> (Inl (Forbidden []), db)
         | (Inr True, e') \<Rightarrow>
            (case remoteUser req of
               None \<Rightarrow> (Inl TypeError, db)
             | Some u \<Rightarrow>
                (let (updatedExpense, db1) =
                       updateExpense (\<lambda>r. r \<lparr> status := SPAM,
                                             lastEditedById := Some (remoteUserId u) \<rparr>) e' db
                 in case getSubmitterUser req updatedExpense of
                      None \<Rightarrow> (Inl TypeError, db1)
                    | Some submittedByUser \<Rightarrow>
                       (let db2 = db1 \<lparr> limitedUsers := limitedUsers db1 @ [submittedByUser] \<rparr>;
                            db3 = (case getRecurringExpense req updatedExpense of
                                     None \<Rightarrow> db2
                                   | Some recurringExpense \<Rightarrow>
                                       db2 \<lparr> destroyedRecurringExpenses :=
                                               destroyedRecurringExpenses db2 @ [recurringExpense] \<rparr>);
                            (a, db4) = createActivity COLLECTIVE_EXPENSE_MARKED_AS_SPAM
                                         updatedExpense u db3
                        in (Inr updatedExpense,
                            db4 \<lparr> spamNotifications := spamNotifications db4 @ [a] \<rparr>))))))"

section \<open>Expenses: paying an expense\<close>

record pay_args =
  payId :: nat
  argForceManual :: bool
  argFeesPayer :: "string option"

text \<open>
  What the payout stage of \<open>payExpense\<close> ends with: the expense is marked as paid
  (manual payouts, PayPal, the payee's balance), or, for a Wise transfer, it is set to
  processing and the webhook marks it as paid later.
\<close>

datatype payout_outcome = MarkAsPaid | SetProcessing

text \<open>
  \<open>executePayout\<close> stands for the stage of \<open>payExpense\<close> between the update of
  \<open>feesPayer\<close> and the final status change: the payout method, the balance check, the
  two-factor check and the call of the payment provider, each of which may throw. The
  ledger transactions that stage creates are not part of \<open>expense_db\<close>.
\<close>

record payment_providers =
  executePayout :: "expense \<Rightarrow> host option \<Rightarrow> pay_args \<Rightarrow> error + payout_outcome"

definition statusName :: "expense_status \<Rightarrow> string" where
  "statusName s =
     (case s of
        DRAFT \<Rightarrow> ''DRAFT'' | UNVERIFIED \<Rightarrow> ''UNVERIFIED'' | PENDING \<Rightarrow> ''PENDING''
      | APPROVED \<Rightarrow> ''APPROVED'' | REJECTED \<Rightarrow> ''REJECTED'' | PROCESSING \<Rightarrow> ''PROCESSING''
      | ERROR \<Rightarrow> ''ERROR'' | PAID \<Rightarrow> ''PAID''
      | SCHEDULED_FOR_PAYMENT \<Rightarrow> ''SCHEDULED_FOR_PAYMENT'' | SPAM \<Rightarrow> ''SPAM''
      | CANCELED \<Rightarrow> ''CANCELED'')"

text \<open>
  \<open>hasMultiCurrency\<close>; its first argument answers
  \<open>hasFeature(collective, MULTI_CURRENCY_EXPENSES) || hasFeature(host, MULTI_CURRENCY_EXPENSES)\<close>.
\<close>

definition hasMultiCurrency ::
  "(collective \<Rightarrow> host option \<Rightarrow> bool) \<Rightarrow> collective \<Rightarrow> host option \<Rightarrow> bool" where
  "hasMultiCurrency hasFeature c h =
     (if Some (collectiveCurrency c) \<noteq> map_option hostCur h then False
      else hasFeature c h)"

text \<open>
  \<open>models.Expense.findByPk(id, { include: [collective, fromCollective] })\<close>: the row
  with its collective loaded.
\<close>

definition findByPkWithCollective :: "request \<Rightarrow> expense_db \<Rightarrow> nat \<Rightarrow> expense option" where
  "findByPkWithCollective req db i =
     map_option (\<lambda>r. r \<lparr> collective := loadCollective req (CollectiveId r) \<rparr>) (findByPk db i)"

text \<open>
  Modelled from the spec: \<open>Expense.setPaid\<close> is a method of the Expense model, which is
  not among the sources; by its name and its use it sets the status to PAID and records
  the editor.
\<close>

definition setPaid :: "nat \<Rightarrow> expense \<Rightarrow> expense_db \<Rightarrow> expense \<times> expense_db" where
  "setPaid editedById e db =
     updateExpense (\<lambda>r. r \<lparr> status := PAID, lastEditedById := Some editedById \<rparr>) e db"

text \<open>
  Modelled from the spec: \<open>Expense.setProcessing\<close>, of the same model, sets the status
  to PROCESSING and records the editor.
\<close>

definition setProcessing :: "nat \<Rightarrow> expense \<Rightarrow> expense_db \<Rightarrow> expense \<times> expense_db" where
  "setProcessing editedById e db =
     updateExpense (\<lambda>r. r \<lparr> status := PROCESSING, lastEditedById := Some editedById \<rparr>) e db"

definition markExpenseAsPaid ::
  "expense \<Rightarrow> remote_user \<Rightarrow> expense_db \<Rightarrow> (error + expense) \<times> expense_db" where
  "markExpenseAsPaid e u db =
     (let (e1, db1) = setPaid (remoteUserId u) e db;
          (a, db2) = createActivity COLLECTIVE_EXPENSE_PAID e1 u db1
      in (Inr e1, db2))"

text \<open>The end of \<open>createTransferWiseTransactionsAndUpdateExpense\<close>.\<close>

definition markExpenseAsProcessing ::
  "expense \<Rightarrow> remote_user \<Rightarrow> expense_db \<Rightarrow> (error + expense) \<times> expense_db" where
  "markExpenseAsProcessing e u db =
     (let (a, db1) = createActivity COLLECTIVE_EXPENSE_PROCESSING e u db;
          (e1, db2) = setProcessing (remoteUserId u) e db1
      in (Inr e1, db2))"

text \<open>
  \<open>lockExpense\<close>: the soft lock is the flag \<open>data.isLocked\<close>; it is set before the
  callback runs and cleared in the \<open>finally\<close> block, whatever the callback did.
\<close>

definition lockExpense ::
  "nat \<Rightarrow> (expense_db \<Rightarrow> (error + expense) \<times> expense_db) \<Rightarrow> expense_db
     \<Rightarrow> (error + expense) \<times> expense_db" where
  "lockExpense i callback db =
     (case findByPk db i of
        None \<Rightarrow> (Inl (Unauthorized ''Expense not found''), db)
      | Some e \<Rightarrow>
          if isLocked e then
            (Inl (Error ''This expense is already been processed, please try again later''), db)
          else
            (let (locked, db1) = updateExpense (\<lambda>r. r \<lparr> isLocked := True \<rparr>) e db;
                 (res, db2) = callback db1
             in case findByPk db2 i of
                  None \<Rightarrow> (Inl TypeError, db2)
                | Some e2 \<Rightarrow> (res, snd (updateExpense (\<lambda>r. r \<lparr> isLocked := False \<rparr>) e2 db2))))"

text \<open>The callback that \<open>payExpense\<close> runs under the lock.\<close>

definition payExpenseLocked ::
  "request \<Rightarrow> payment_providers \<Rightarrow> pay_args \<Rightarrow> remote_user \<Rightarrow> expense_db
     \<Rightarrow> (error + expense) \<times> expense_db" where
  "payExpenseLocked req providers args u db =
     (case findByPkWithCollective req db (payId args) of
        None \<Rightarrow> (Inl (Unauthorized ''Expense not found''), db)
      | Some e \<Rightarrow>
          if status e = PAID then
            (Inl (Unauthorized ''Expense has already been paid''), db)
          else if status e = PROCESSING then
            (Inl (Unauthorized ''Expense is currently being processed, this means someone already started the payment process''), db)
          else if status e \<noteq> APPROVED \<and> \<not> (status e = ERROR) then
            (Inl (Unauthorized (''Expense needs to be approved. Current status of the expense: ''
                                  @ statusName (status e) @ ''.'')), db)
          else
            (case canPayExpense req e False of
               (Inl err, e1) \<Rightarrow> (Inl err, db)
             | (Inr False, e1) \<Rightarrow>
                 (Inl (Unauthorized ''You don't have permission to pay this expense''), db)
             | (Inr True, e1) \<Rightarrow>
                (case collective e1 of
                   None \<Rightarrow> (Inl TypeError, db)
                 | Some c \<Rightarrow>
                    (let h = getHostOfCollective req c in
                     if currency e1 \<noteq> collectiveCurrency c \<and> \<not> hasMultiCurrency (hasMultiCurrencyFeature req) c h then
                       (Inl (Unauthorized ''Multi-currency expenses are not enabled for this collective''), db)
                     else if legacyPayoutMethod e1 = ''donation'' then
                       (Inl (Error ''\"In kind\" donations are not supported anymore''), db)
                     else
                       (let (e2, db1) =
                              (case argFeesPayer args of
                                 None \<Rightarrow> (e1, db)
                               | Some fp \<Rightarrow>
                                   if fp \<noteq> [] \<and> fp \<noteq> feesPayer e1
                                   then updateExpense (\<lambda>r. r \<lparr> feesPayer := fp \<rparr>) e1 db
                                   else (e1, db))
                        in case executePayout providers e2 h args of
                             Inl err \<Rightarrow> (Inl err, db1)
                           | Inr MarkAsPaid \<Rightarrow> markExpenseAsPaid e2 u db1
                           | Inr SetProcessing \<Rightarrow> markExpenseAsProcessing e2 u db1)))))"

definition payExpense ::
  "request \<Rightarrow> payment_providers \<Rightarrow> pay_args \<Rightarrow> expense_db \<Rightarrow> (error + expense) \<times> expense_db" where
  "payExpense req providers args db =
     (case remoteUser req of
        None \<Rightarrow> (Inl (Unauthorized ''You need to be logged in to pay an expense''), db)
      | Some u \<Rightarrow>
          if \<not> canUseExpenses req then (Inl FeatureNotAllowedForUser, db)
          else lockExpense (payId args) (payExpenseLocked req providers args u) db)"

section \<open>JavaScript numbers\<close>

text \<open>
  The amounts, rates and fees of \<open>server/graphql/common/expenses.ts\<close> are JavaScript
  numbers: IEEE 754 binary64 values. A \<open>number\<close> is a finite value (a rational; \<open>Num 0\<close>
  is \<open>+0\<close>), \<open>-0\<close>, an infinity or \<open>NaN\<close>. The operations below compute the exact result
  and round it to the nearest binary64 value, ties to the even significand, as the
  language does; the operands they are given are binary64 values.
\<close>

datatype number = Num rat | NegZero | PosInfinity | NegInfinity | NaN

text \<open>The power of two with an integer exponent \<open>e\<close>.\<close>

definition pow2 :: "int \<Rightarrow> rat" where
  "pow2 e = (if 0 \<le> e then 2 ^ nat e else 1 / 2 ^ nat (- e))"

text \<open>
  The exponent of the binade of a positive rational \<open>x\<close>: the \<open>k\<close> with
  \<open>pow2 k \<le> x < pow2 (k + 1)\<close>, from the bit lengths of its numerator and denominator.
\<close>

definition floorLog2 :: "rat \<Rightarrow> int" where
  "floorLog2 x =
     (let d = bitlen (fst (quotient_of x)) - bitlen (snd (quotient_of x))
      in if pow2 d \<le> x then d else d - 1)"

text \<open>The nearest integer to a rational, a tie going to the even one.\<close>

definition roundHalfEven :: "rat \<Rightarrow> int" where
  "roundHalfEven y =
     (let n = \<lfloor>y\<rfloor>; r = y - of_int n
      in if r < 1 / 2 then n else if 1 / 2 < r then n + 1 else if even n then n else n + 1)"

text \<open>The largest finite binary64 value.\<close>

definition maxDouble :: rat where
  "maxDouble = (2 ^ 53 - 1) * 2 ^ 971"

text \<open>
  Rounding an exact result to binary64: a significand of 53 bits, the exponent of the
  last place not below \<open>-1074\<close> (subnormal values), an infinity beyond the largest finite
  value, and a zero that keeps the sign of a result too small to be represented.
\<close>

definition fl :: "rat \<Rightarrow> number" where
  "fl x =
     (if x = 0 then Num 0
      else
       (let a = \<bar>x\<bar>;
            e = max (floorLog2 a - 52) (- 1074);
            m = roundHalfEven (a / pow2 e);
            v = of_int m * pow2 e
        in if maxDouble < v then (if x < 0 then NegInfinity else PosInfinity)
           else if m = 0 then (if x < 0 then NegZero else Num 0)
           else Num (if x < 0 then - v else v)))"

definition isZero :: "number \<Rightarrow> bool" where
  "isZero n = (n = Num 0 \<or> n = NegZero)"

definition isInfinite :: "number \<Rightarrow> bool" where
  "isInfinite n = (n = PosInfinity \<or> n = NegInfinity)"

definition signBit :: "number \<Rightarrow> bool" where
  "signBit n =
     (case n of Num x \<Rightarrow> x < 0 | NegZero \<Rightarrow> True | PosInfinity \<Rightarrow> False
              | NegInfinity \<Rightarrow> True | NaN \<Rightarrow> False)"

definition valueOf :: "number \<Rightarrow> rat" where
  "valueOf n = (case n of Num x \<Rightarrow> x | _ \<Rightarrow> 0)"

definition signedZero :: "bool \<Rightarrow> number" where
  "signedZero negative = (if negative then NegZero else Num 0)"

definition signedInfinity :: "bool \<Rightarrow> number" where
  "signedInfinity negative = (if negative then NegInfinity else PosInfinity)"

text \<open>\<open>a * b\<close>\<close>

definition mulNumber :: "number \<Rightarrow> number \<Rightarrow> number" where
  "mulNumber a b =
     (if a = NaN \<or> b = NaN then NaN
      else if isInfinite a \<or> isInfinite b then
        (if isZero a \<or> isZero b then NaN else signedInfinity (signBit a \<noteq> signBit b))
      else if isZero a \<or> isZero b then signedZero (signBit a \<noteq> signBit b)
      else fl (valueOf a * valueOf b))"

text \<open>\<open>a / b\<close>: a division by zero does not throw.\<close>

definition divNumber :: "number \<Rightarrow> number \<Rightarrow> number" where
  "divNumber a b =
     (if a = NaN \<or> b = NaN then NaN
      else if isInfinite a then
        (if isInfinite b then NaN else signedInfinity (signBit a \<noteq> signBit b))
      else if isInfinite b then signedZero (signBit a \<noteq> signBit b)
      else if isZero b then
        (if isZero a then NaN else signedInfinity (signBit a \<noteq> signBit b))
      else if isZero a then signedZero (signBit a \<noteq> signBit b)
      else fl (valueOf a / valueOf b))"

text \<open>\<open>a + b\<close>\<close>

definition addNumber :: "number \<Rightarrow> number \<Rightarrow> number" where
  "addNumber a b =
     (if a = NaN \<or> b = NaN then NaN
      else if isInfinite a then (if isInfinite b \<and> a \<noteq> b then NaN else a)
      else if isInfinite b then b
      else if a = NegZero \<and> b = NegZero then NegZero
      else fl (valueOf a + valueOf b))"

text \<open>\<open>a < b\<close>: false as soon as one side is \<open>NaN\<close>.\<close>

definition lessNumber :: "number \<Rightarrow> number \<Rightarrow> bool" where
  "lessNumber a b =
     (if a = NaN \<or> b = NaN then False
      else if a = PosInfinity \<or> b = NegInfinity then False
      else if a = NegInfinity \<or> b = PosInfinity then True
      else valueOf a < valueOf b)"

text \<open>
  \<open>Math.round(x)\<close>: the integer nearest to \<open>x\<close>, a tie going up; \<open>NaN\<close>, the infinities
  and the zeros are returned as they are, and a negative \<open>x\<close> not below \<open>-0.5\<close> gives \<open>-0\<close>.
\<close>

definition Math_round :: "number \<Rightarrow> number" where
  "Math_round n =
     (case n of
        Num x \<Rightarrow> if x < 0 \<and> - (1 / 2) \<le> x then NegZero else Num (of_int \<lfloor>x + 1 / 2\<rfloor>)
      | _ \<Rightarrow> n)"

text \<open>The truth value of a number: \<open>0\<close>, \<open>-0\<close> and \<open>NaN\<close> are falsy.\<close>

definition truthy :: "number \<Rightarrow> bool" where
  "truthy n = (n \<noteq> Num 0 \<and> n \<noteq> NegZero \<and> n \<noteq> NaN)"

text \<open>\<open>x || 0\<close> on a number that may be missing.\<close>

definition orZero :: "number option \<Rightarrow> number" where
  "orZero x = (case x of None \<Rightarrow> Num 0 | Some v \<Rightarrow> if truthy v then v else Num 0)"

text \<open>\<open>!x\<close> on a number that may be missing.\<close>

definition falsy :: "number option \<Rightarrow> bool" where
  "falsy x = (case x of None \<Rightarrow> True | Some v \<Rightarrow> \<not> truthy v)"

text \<open>An integer amount (cents) as a number.\<close>

definition numberOfInt :: "int \<Rightarrow> number" where
  "numberOfInt a = fl (of_int a)"

text \<open>
  \<open>sumBy(array, iteratee)\<close> of lodash on an iteratee that returns numbers: \<open>0\<close> for an
  empty array, otherwise the values added one by one from the left, starting from the
  first one.
\<close>

fun sumBy :: "('a \<Rightarrow> number) \<Rightarrow> 'a list \<Rightarrow> number" where
  "sumBy iteratee [] = Num 0"
| "sumBy iteratee (x # xs) = foldl (\<lambda>result y. addNumber result (iteratee y)) (iteratee x) xs"

section \<open>Expenses: creating an expense\<close>

datatype tax_type = VAT | GST | OtherTax string

record tax_definition =
  taxType :: tax_type
  taxRate :: number
  idNumber :: string

datatype expense_type = RECEIPT | INVOICE | CHARGE | OtherExpenseType string

record item_data =
  itemAmount :: int
  itemUrl :: "string option"

record file_data =
  fileUrl :: string

text \<open>
  The \<open>ExpenseData\<close> that \<open>createExpense\<close> reads. \<open>dataCollectiveId\<close> is
  \<open>expenseData.collective.id\<close>, \<open>disablePublicExpenseSubmission\<close> the setting of that
  name in \<open>expenseData.collective.settings\<close>.
\<close>

record expense_data =
  dataCollectiveId :: "nat option"
  disablePublicExpenseSubmission :: bool
  dataItems :: "item_data list option"
  dataAttachedFiles :: "file_data list option"
  dataTax :: "tax_definition list option"
  dataType :: "expense_type option"
  dataCurrency :: "string option"

text \<open>
  \<open>computeTotalAmountForExpense\<close>: the amount of an item is an integer (cents) and the
  rate of a tax a number. Every product and every sum is a binary64 operation, made in
  the order of the source: the taxes of an item, the item plus its taxes, the items from
  the left; the total is rounded once, by \<open>Math.round\<close>.
\<close>

definition computeTotalAmountForExpense :: "item_data list \<Rightarrow> tax_definition list \<Rightarrow> number" where
  "computeTotalAmountForExpense items taxes =
     Math_round
       (sumBy (\<lambda>item.
                 (let totalTaxes =
                        sumBy (\<lambda>tax. mulNumber (numberOfInt (itemAmount item)) (taxRate tax)) taxes
                  in addNumber (numberOfInt (itemAmount item)) totalTaxes)) items)"

definition taxTypeName :: "tax_type \<Rightarrow> string" where
  "taxTypeName t = (case t of VAT \<Rightarrow> ''VAT'' | GST \<Rightarrow> ''GST'' | OtherTax n \<Rightarrow> n)"

text \<open>
  \<open>checkTaxes\<close>: \<open>None\<close> when nothing is thrown. \<open>hasVAT\<close> and \<open>hasGST\<close> are the
  answers of \<open>LibTaxes.accountHasVAT(account)\<close> and \<open>LibTaxes.accountHasGST(host)\<close>.
\<close>

fun checkEachTax :: "bool \<Rightarrow> bool \<Rightarrow> tax_definition list \<Rightarrow> error option" where
  "checkEachTax hasVAT hasGST [] = None"
| "checkEachTax hasVAT hasGST (tax # taxes) =
     (if lessNumber (taxRate tax) (Num 0) \<or> lessNumber (Num 1) (taxRate tax) then
        Some (ValidationFailed (''Tax rate for '' @ taxTypeName (taxType tax)
                                  @ '' must be between 0% and 100%''))
      else if taxType tax = VAT \<and> \<not> hasVAT then
        Some (ValidationFailed ''This account does not have VAT enabled'')
      else if taxType tax = GST \<and> \<not> hasGST then
        Some (ValidationFailed ''This host does not have GST enabled'')
      else checkEachTax hasVAT hasGST taxes)"

definition checkTaxes ::
  "bool \<Rightarrow> bool \<Rightarrow> expense_type option \<Rightarrow> tax_definition list \<Rightarrow> error option" where
  "checkTaxes hasVAT hasGST expenseType taxes =
     (if taxes = [] then None
      else if length taxes > 1 then Some (ValidationFailed ''Only one tax is allowed per expense'')
      else if expenseType \<noteq> Some INVOICE then Some (ValidationFailed ''Only invoices can have taxes'')
      else checkEachTax hasVAT hasGST taxes)"

text \<open>
  \<open>checkExpenseItems\<close>: \<open>None\<close> when nothing is thrown. \<open>!sumItems\<close> holds for a total of
  \<open>0\<close>, \<open>-0\<close> or \<open>NaN\<close>, and \<open>!a.url\<close> for a missing or empty url.
\<close>

definition checkExpenseItems ::
  "expense_data \<Rightarrow> item_data list option \<Rightarrow> tax_definition list \<Rightarrow> error option" where
  "checkExpenseItems expenseData items taxes =
     (case items of
        None \<Rightarrow> Some (ValidationFailed ''Your expense needs to have at least one item'')
      | Some its \<Rightarrow>
          if length its = 0 then
            Some (ValidationFailed ''Your expense needs to have at least one item'')
          else if length its > 300 then
            Some (ValidationFailed ''Expenses cannot have more than 300 items'')
          else if \<not> truthy (computeTotalAmountForExpense its taxes) then
            Some (ValidationFailed ''The sum of all items must be above 0'')
          else if dataType expenseData = Some RECEIPT
                  \<and> list_ex (\<lambda>a. itemUrl a = None \<or> itemUrl a = Some []) its then
            Some (ValidationFailed ''Some items are missing a file'')
          else None)"

text \<open>The items and attached files of the expenses, as stored.\<close>

record stored_item =
  itemExpenseId :: nat
  itemData :: item_data
  itemCreatedBy :: nat

record stored_file =
  fileExpenseId :: nat
  fileData :: file_data
  fileCreatedBy :: nat

text \<open>
  The state \<open>createExpense\<close> works on: the expenses and activities, the items, the
  attached files, and \<open>payeeTables\<close>, the rows of the payee (its location, its payout
  method), which are written before the database transaction opens.
\<close>

record 'p create_db =
  edb :: expense_db
  expenseItems :: "stored_item list"
  expenseAttachedFiles :: "stored_file list"
  payeeTables :: 'p

text \<open>What the payee stage hands to the creation of the expense.\<close>

record payee_info =
  fromCollectiveId :: nat
  payoutMethodId :: "nat option"
  legacyPayoutMethodType :: string

text \<open>
  What \<open>createExpense\<close> reads from outside. \<open>preparePayee\<close> stands for the stage that
  loads the payee profile, updates its location, gets or creates the payout method and
  validates the Wise recipient: it may throw and writes the payee's rows only, outside
  the database transaction. The three \<open>...CreateError\<close> fields say whether
  \<open>models.Expense.create\<close>, \<open>ExpenseItem.createFromData\<close> and
  \<open>ExpenseAttachedFile.createFromData\<close> reject; \<open>amountColumnError\<close> is the error of
  \<open>models.Expense.create\<close> for an amount that its integer column cannot hold, and
  \<open>activityCreateError\<close> says whether \<open>expense.createActivity\<close> rejects.
\<close>

record 'p create_env =
  canUseFeature :: "remote_user \<Rightarrow> bool"
  findCollective :: "nat \<Rightarrow> collective option"
  collectiveHost :: "collective \<Rightarrow> host option"
  isMember :: "remote_user \<Rightarrow> collective \<Rightarrow> bool"
  isAdminOfCollectiveOrHost :: "remote_user \<Rightarrow> collective \<Rightarrow> bool"
  isRoot :: "remote_user \<Rightarrow> bool"
  accountHasVAT :: "collective \<Rightarrow> bool"
  accountHasGST :: "host option \<Rightarrow> bool"
  hasFeatureMultiCurrency :: "collective \<Rightarrow> host option \<Rightarrow> bool"
  preparePayee :: "remote_user \<Rightarrow> expense_data \<Rightarrow> collective \<Rightarrow> 'p \<Rightarrow> (error + payee_info) \<times> 'p"
  nextExpenseId :: "expense_db \<Rightarrow> nat"
  defaultFeesPayer :: string
  amountColumnError :: "number \<Rightarrow> error"
  expenseCreateError :: "expense \<Rightarrow> error option"
  itemCreateError :: "item_data \<Rightarrow> error option"
  fileCreateError :: "file_data \<Rightarrow> error option"
  activityCreateError :: "expense \<Rightarrow> error option"

text \<open>
  \<open>sequelize.transaction(callback)\<close>: a managed transaction commits what the callback
  wrote when it returns and rolls it back when it throws.
\<close>

definition sequelize_transaction ::
  "('s \<Rightarrow> (error + 'a) \<times> 's) \<Rightarrow> 's \<Rightarrow> (error + 'a) \<times> 's" where
  "sequelize_transaction callback db =
     (case callback db of
        (Inl err, db') \<Rightarrow> (Inl err, db)
      | (Inr v, db') \<Rightarrow> (Inr v, db'))"

text \<open>\<open>Promise.all(itemsData.map(createFromData))\<close>: stops at the first rejection.\<close>

fun createItems ::
  "'p create_env \<Rightarrow> remote_user \<Rightarrow> expense \<Rightarrow> item_data list \<Rightarrow> 'p create_db
     \<Rightarrow> (error + stored_item list) \<times> 'p create_db" where
  "createItems env u e [] db = (Inr [], db)"
| "createItems env u e (attachmentData # rest) db =
     (case itemCreateError env attachmentData of
        Some err \<Rightarrow> (Inl err, db)
      | None \<Rightarrow>
         (let it = \<lparr> itemExpenseId = expenseId e, itemData = attachmentData,
                      itemCreatedBy = remoteUserId u \<rparr>;
              db1 = db \<lparr> expenseItems := expenseItems db @ [it] \<rparr>
          in case createItems env u e rest db1 of
               (Inl err, db2) \<Rightarrow> (Inl err, db2)
             | (Inr its, db2) \<Rightarrow> (Inr (it # its), db2)))"

fun createAttachedFiles ::
  "'p create_env \<Rightarrow> remote_user \<Rightarrow> expense \<Rightarrow> file_data list \<Rightarrow> 'p create_db
     \<Rightarrow> (error + stored_file list) \<times> 'p create_db" where
  "createAttachedFiles env u e [] db = (Inr [], db)"
| "createAttachedFiles env u e (attachedFile # rest) db =
     (case fileCreateError env attachedFile of
        Some err \<Rightarrow> (Inl err, db)
      | None \<Rightarrow>
         (let f = \<lparr> fileExpenseId = expenseId e, fileData = attachedFile,
                     fileCreatedBy = remoteUserId u \<rparr>;
              db1 = db \<lparr> expenseAttachedFiles := expenseAttachedFiles db @ [f] \<rparr>
          in case createAttachedFiles env u e rest db1 of
               (Inl err, db2) \<Rightarrow> (Inl err, db2)
             | (Inr fs, db2) \<Rightarrow> (Inr (f # fs), db2)))"

text \<open>\<open>size(x)\<close> and \<open>x || []\<close> of an optional list.\<close>

definition orEmpty :: "'a list option \<Rightarrow> 'a list" where
  "orEmpty xs = (case xs of None \<Rightarrow> [] | Some l \<Rightarrow> l)"

text \<open>
  The value that the integer column \<open>amount\<close> of an expense holds for a number: the
  integers only (\<open>-0\<close> is \<open>0\<close>).
\<close>

definition integerColumn :: "number \<Rightarrow> int option" where
  "integerColumn n =
     (case n of
        Num x \<Rightarrow> if of_int \<lfloor>x\<rfloor> = x then Some \<lfloor>x\<rfloor> else None
      | NegZero \<Rightarrow> Some 0
      | _ \<Rightarrow> None)"

text \<open>
  The callback of the transaction in \<open>createExpense\<close>: the expense row, then the items,
  then the attached files.
\<close>

definition createExpenseRows ::
  "'p create_env \<Rightarrow> remote_user \<Rightarrow> expense_data \<Rightarrow> collective \<Rightarrow> string \<Rightarrow> payee_info
     \<Rightarrow> item_data list \<Rightarrow> tax_definition list \<Rightarrow> 'p create_db \<Rightarrow> (error + expense) \<times> 'p create_db" where
  "createExpenseRows env u expenseData c cur payee itemsData taxes db =
     (case integerColumn (computeTotalAmountForExpense itemsData taxes) of
        None \<Rightarrow> (Inl (amountColumnError env (computeTotalAmountForExpense itemsData taxes)), db)
      | Some cents \<Rightarrow>
     (let createdExpense =
            \<lparr> expenseId = nextExpenseId env (edb db), status = PENDING,
              UserId = remoteUserId u, CollectiveId = collectiveId c,
              lastEditedById = Some (remoteUserId u),
              amount = cents,
              currency = cur, feesPayer = defaultFeesPayer env,
              legacyPayoutMethod = legacyPayoutMethodType payee,
              isLocked = False, collective = None \<rparr>
      in case expenseCreateError env createdExpense of
           Some err \<Rightarrow> (Inl err, db)
         | None \<Rightarrow>
            (let db1 = db \<lparr> edb := (edb db) \<lparr> expenses := expenses (edb db) @ [createdExpense] \<rparr> \<rparr>
             in case createItems env u createdExpense itemsData db1 of
                  (Inl err, db2) \<Rightarrow> (Inl err, db2)
                | (Inr its, db2) \<Rightarrow>
                   (case createAttachedFiles env u createdExpense
                           (orEmpty (dataAttachedFiles expenseData)) db2 of
                      (Inl err, db3) \<Rightarrow> (Inl err, db3)
                    | (Inr fs, db3) \<Rightarrow> (Inr createdExpense, db3)))))"

text \<open>
  \<open>createExpense\<close>, first part: the checks made before anything is loaded for the payee
  or written, in the order of the source. They yield the user, the collective and the
  currency of the expense.
\<close>

definition createExpenseChecks ::
  "'p create_env \<Rightarrow> remote_user option \<Rightarrow> expense_data
     \<Rightarrow> error + (remote_user \<times> collective \<times> string)" where
  "createExpenseChecks env user expenseData =
     (case user of
        None \<Rightarrow> Inl (Unauthorized ''You need to be logged in to create an expense'')
      | Some u \<Rightarrow>
         if \<not> canUseFeature env u then Inl FeatureNotAllowedForUser
         else if dataCollectiveId expenseData = None \<or> dataCollectiveId expenseData = Some 0 then
           Inl (Unauthorized ''Missing expense.collective.id'')
         else
          (case findCollective env (the (dataCollectiveId expenseData)) of
             None \<Rightarrow> Inl (ValidationFailed ''Collective not found'')
           | Some c \<Rightarrow>
              if disablePublicExpenseSubmission expenseData \<and> \<not> isMember env u c
                 \<and> \<not> isAdminOfCollectiveOrHost env u c \<and> \<not> isRoot env u then
                Inl (Error ''You must be a member of the collective to create new expense'')
              else
               (let itemsData = dataItems expenseData;
                    taxes = orEmpty (dataTax expenseData)
                in case checkTaxes (accountHasVAT env c) (accountHasGST env (collectiveHost env c))
                          (dataType expenseData) taxes of
                     Some err \<Rightarrow> Inl err
                   | None \<Rightarrow>
                  (case checkExpenseItems expenseData itemsData taxes of
                     Some err \<Rightarrow> Inl err
                   | None \<Rightarrow>
                      if length (orEmpty (dataAttachedFiles expenseData)) > 15 then
                        Inl (ValidationFailed ''The number of files that you can attach to an expense is limited to 15'')
                      else if \<not> (collectiveType c = COLLECTIVE \<or> collectiveType c = EVENT
                                  \<or> collectiveType c = FUND \<or> collectiveType c = PROJECT)
                              \<and> \<not> (collectiveType c = ORGANIZATION \<and> isActive c) then
                        Inl (ValidationFailed ''Expenses can only be submitted to Collectives, Events, Funds, Projects and active Hosts.'')
                      else if dataCurrency expenseData \<noteq> None \<and> dataCurrency expenseData \<noteq> Some []
                              \<and> dataCurrency expenseData \<noteq> Some (collectiveCurrency c) then
                        (if \<not> hasMultiCurrency (hasFeatureMultiCurrency env) c (collectiveHost env c) then
                           Inl (FeatureNotSupportedForCollective ''Multi-currency expenses are not enabled for this account'')
                         else Inr (u, c, the (dataCurrency expenseData)))
                      else Inr (u, c, collectiveCurrency c)))))"

text \<open>
  \<open>createExpense\<close>, second part: the payee stage, the transaction that creates the
  expense with its items and attached files, and, once the transaction is committed,
  the activity, whose rejection is thrown like any other.
\<close>

definition createExpense ::
  "'p create_env \<Rightarrow> remote_user option \<Rightarrow> expense_data \<Rightarrow> 'p create_db
     \<Rightarrow> (error + expense) \<times> 'p create_db" where
  "createExpense env user expenseData db =
     (case createExpenseChecks env user expenseData of
        Inl err \<Rightarrow> (Inl err, db)
      | Inr (u, c, cur) \<Rightarrow>
         (case preparePayee env u expenseData c (payeeTables db) of
            (Inl err, p1) \<Rightarrow> (Inl err, db \<lparr> payeeTables := p1 \<rparr>)
          | (Inr payee, p1) \<Rightarrow>
             (case sequelize_transaction
                     (createExpenseRows env u expenseData c cur payee
                        (orEmpty (dataItems expenseData)) (orEmpty (dataTax expenseData)))
                     (db \<lparr> payeeTables := p1 \<rparr>) of
                (Inl err, db1) \<Rightarrow> (Inl err, db1)
              | (Inr e, db1) \<Rightarrow>
                 (let e1 = e \<lparr> collective := Some c \<rparr>
                  in case activityCreateError env e1 of
                       Some err \<Rightarrow> (Inl err, db1)
                     | None \<Rightarrow>
                        (let (a, edb2) = createActivity COLLECTIVE_EXPENSE_CREATED e1 u (edb db1)
                         in (Inr e1, db1 \<lparr> edb := edb2 \<rparr>))))))"

section \<open>Expenses: estimating the fees\<close>

text \<open>
  The fees in the collective's currency that \<open>getExpenseFees\<close> receives and returns
  (\<open>FeesArgs\<close>): each is a number and may be left out.
\<close>

record fees_args =
  paymentProcessorFeeInCollectiveCurrency :: "number option"
  hostFeeInCollectiveCurrency :: "number option"
  platformFeeInCollectiveCurrency :: "number option"

record fees_in_host_currency =
  paymentProcessorFeeInHostCurrency :: number
  hostFeeInHostCurrency :: number
  platformFeeInHostCurrency :: number

record fees_in_expense_currency =
  paymentProcessorFee :: "number option"
  hostFee :: "number option"
  platformFee :: "number option"

record expense_fees =
  feesInCollectiveCurrency :: fees_args
  feesInHostCurrency :: fees_in_host_currency
  feesInExpenseCurrency :: fees_in_expense_currency

datatype payout_method_type = BANK_ACCOUNT | PAYPAL | ACCOUNT_BALANCE | OTHER

text \<open>
  What \<open>getExpenseFees\<close> reads from outside: \<open>getFxRate\<close> of \<open>lib/currency\<close>, the
  collective by its key, the payout method type of a legacy expense, whether the host
  has a Wise account, the total fee of the Wise payment option (an error when the quote
  cannot be had, \<open>None\<close> when no payment option fits), \<open>floatAmountToCents\<close> of
  \<open>lib/math\<close>, and the PayPal fee estimate.
\<close>

record fees_env =
  getFxRate :: "string \<Rightarrow> string \<Rightarrow> error + number"
  collectiveByPk :: "nat \<Rightarrow> collective option"
  getPayoutMethodTypeFromLegacy :: "expense \<Rightarrow> payout_method_type"
  hasTransferwiseAccount :: "host \<Rightarrow> bool"
  wisePaymentOptionFeeTotal :: "expense \<Rightarrow> bool \<Rightarrow> error + number option"
  floatAmountToCents :: "number \<Rightarrow> number"
  paypalAdaptiveFees :: "int \<Rightarrow> string \<Rightarrow> host \<Rightarrow> error + number option"

text \<open>
  \<open>payoutMethod ? payoutMethod.type : expense.getPayoutMethodTypeFromLegacy()\<close>
\<close>

definition payoutMethodTypeOf ::
  "fees_env \<Rightarrow> expense \<Rightarrow> payout_method_type option \<Rightarrow> payout_method_type" where
  "payoutMethodTypeOf env e payoutMethod =
     (case payoutMethod of Some t \<Rightarrow> t | None \<Rightarrow> getPayoutMethodTypeFromLegacy env e)"

text \<open>
  \<open>if (!expense.collective) expense.collective = await models.Collective.findByPk(...)\<close>
\<close>

definition collectiveOf :: "fees_env \<Rightarrow> expense \<Rightarrow> collective option" where
  "collectiveOf env e =
     (case collective e of Some c \<Rightarrow> Some c | None \<Rightarrow> collectiveByPk env (CollectiveId e))"

text \<open>
  The first half of \<open>getExpenseFees\<close>: the payment processor fee in the collective's
  currency, estimated for Wise and PayPal unless the payout is manual. The Wise fee is
  divided by the rate whatever the rate is.
\<close>

definition estimatePaymentProcessorFee ::
  "fees_env \<Rightarrow> expense \<Rightarrow> collective \<Rightarrow> host \<Rightarrow> number \<Rightarrow> fees_args \<Rightarrow> payout_method_type option
     \<Rightarrow> bool \<Rightarrow> bool \<Rightarrow> error + fees_args" where
  "estimatePaymentProcessorFee env e c h collectiveToHostFxRate fees payoutMethod forceManual
       useExistingWiseData =
     (let payoutMethodType = payoutMethodTypeOf env e payoutMethod
      in if payoutMethodType = BANK_ACCOUNT \<and> \<not> forceManual then
           (if \<not> hasTransferwiseAccount env h then
              Inl (Error ''Host is not connected to Transferwise'')
            else
              (case wisePaymentOptionFeeTotal env e useExistingWiseData of
                 Inl err \<Rightarrow> Inl err
               | Inr None \<Rightarrow>
                   Inl (BadRequest ''Could not find available payment option for this transaction.'')
               | Inr (Some feeTotal) \<Rightarrow>
                   Inr (fees \<lparr> paymentProcessorFeeInCollectiveCurrency :=
                                  Some (floatAmountToCents env
                                          (divNumber feeTotal collectiveToHostFxRate)) \<rparr>)))
         else if payoutMethodType = PAYPAL \<and> \<not> forceManual then
           (case paypalAdaptiveFees env (amount e) (collectiveCurrency c) h of
              Inl err \<Rightarrow> Inl err
            | Inr fee \<Rightarrow> Inr (fees \<lparr> paymentProcessorFeeInCollectiveCurrency := fee \<rparr>))
         else Inr fees)"

text \<open>
  \<open>getExpenseFees\<close>: the fees in host currency are built from the estimated payment
  processor fee, from the host fee as given and from the platform fee; a payment
  processor fee that is missing or falsy is then set to \<open>0\<close>.
\<close>

definition getExpenseFees ::
  "fees_env \<Rightarrow> expense \<Rightarrow> host \<Rightarrow> fees_args \<Rightarrow> payout_method_type option \<Rightarrow> bool \<Rightarrow> bool
     \<Rightarrow> error + expense_fees" where
  "getExpenseFees env e h fees payoutMethod forceManual useExistingWiseData =
     (case collectiveOf env e of
        None \<Rightarrow> Inl TypeError
      | Some c \<Rightarrow>
         (case getFxRate env (collectiveCurrency c) (hostCur h) of
            Inl err \<Rightarrow> Inl err
          | Inr collectiveToHostFxRate \<Rightarrow>
             (case estimatePaymentProcessorFee env e c h collectiveToHostFxRate fees payoutMethod
                     forceManual useExistingWiseData of
                Inl err \<Rightarrow> Inl err
              | Inr resultFees0 \<Rightarrow>
                 (let inHost =
                        \<lparr> paymentProcessorFeeInHostCurrency =
                            Math_round (mulNumber collectiveToHostFxRate
                               (orZero (paymentProcessorFeeInCollectiveCurrency resultFees0))),
                          hostFeeInHostCurrency =
                            Math_round (mulNumber collectiveToHostFxRate
                               (orZero (hostFeeInCollectiveCurrency fees))),
                          platformFeeInHostCurrency =
                            Math_round (mulNumber collectiveToHostFxRate
                               (orZero (platformFeeInCollectiveCurrency resultFees0))) \<rparr>;
                      resultFees =
                        (if falsy (paymentProcessorFeeInCollectiveCurrency resultFees0)
                         then resultFees0 \<lparr> paymentProcessorFeeInCollectiveCurrency := Some (Num 0) \<rparr>
                         else resultFees0)
                  in if currency e = collectiveCurrency c then
                       Inr \<lparr> feesInCollectiveCurrency = resultFees,
                             feesInHostCurrency = inHost,
                             feesInExpenseCurrency =
                               \<lparr> paymentProcessorFee = paymentProcessorFeeInCollectiveCurrency resultFees,
                                 hostFee = hostFeeInCollectiveCurrency resultFees,
                                 platformFee = platformFeeInCollectiveCurrency resultFees \<rparr> \<rparr>
                     else
                       (case getFxRate env (collectiveCurrency c) (currency e) of
                          Inl err \<Rightarrow> Inl err
                        | Inr collectiveToExpenseFxRate \<Rightarrow>
                           (let applyCollectiveToExpenseFxRate =
                                  (\<lambda>a. Some (Math_round (mulNumber (orZero a) collectiveToExpenseFxRate)))
                            in Inr \<lparr> feesInCollectiveCurrency = resultFees,
                                     feesInHostCurrency = inHost,
                                     feesInExpenseCurrency =
                                       \<lparr> paymentProcessorFee = applyCollectiveToExpenseFxRate
                                            (paymentProcessorFeeInCollectiveCurrency resultFees),
                                         hostFee = applyCollectiveToExpenseFxRate
                                            (hostFeeInCollectiveCurrency resultFees),
                                         platformFee = applyCollectiveToExpenseFxRate
                                            (platformFeeInCollectiveCurrency resultFees) \<rparr> \<rparr>))))))"

section \<open>Account holder name and legal name\<close>

text \<open>
  \<open>s.replace(/501\(c\)\(3\)/g, '')\<close>: every occurrence of \<open>501(c)(3)\<close> is removed,
  from left to right.
\<close>

fun remove501 :: "string \<Rightarrow> string" where
  "remove501 [] = []"
| "remove501 (c # cs) =
     (if take 9 (c # cs) = ''501(c)(3)'' then remove501 (drop 8 cs) else c # remove501 cs)"

text \<open>
  \<open>s.trim()\<close> on ASCII strings: the white space is the space, the tab, the line feed,
  the vertical tab, the form feed and the carriage return.
\<close>

definition isWhiteSpace :: "char \<Rightarrow> bool" where
  "isWhiteSpace c = (c \<in> set [CHR '' '', CHR 0x09, CHR 0x0A, CHR 0x0B, CHR 0x0C, CHR 0x0D])"

definition trim :: "string \<Rightarrow> string" where
  "trim s = rev (dropWhile isWhiteSpace (rev (dropWhile isWhiteSpace s)))"

text \<open>\<open>s.split(' ')\<close>: the empty string splits into one empty word.\<close>

fun splitOnSpace :: "string \<Rightarrow> string list" where
  "splitOnSpace [] = [[]]"
| "splitOnSpace (c # cs) =
     (if c = CHR '' '' then [] # splitOnSpace cs
      else (case splitOnSpace cs of
              [] \<Rightarrow> [[c]]
            | w # ws \<Rightarrow> (c # w) # ws))"

text \<open>
  \<open>a.localeCompare(b, undefined, { sensitivity: 'base', ignorePunctuation: true })\<close>
  taken as a truth value: it is truthy when the two strings differ under that collation.
  The collation is a parameter, given by its sort key: two strings compare equal exactly
  when their keys are equal. An argument that is \<open>undefined\<close> is converted to the
  string \<open>undefined\<close>, as \<open>ToString\<close> does.
\<close>

definition localeCompare :: "(string \<Rightarrow> 'k) \<Rightarrow> string \<Rightarrow> string option \<Rightarrow> bool" where
  "localeCompare collationKey a b =
     (collationKey a \<noteq> collationKey (case b of None \<Rightarrow> ''undefined'' | Some s \<Rightarrow> s))"

definition isAccountHolderNameAndLegalNameMatch ::
  "(string \<Rightarrow> 'k) \<Rightarrow> string \<Rightarrow> string \<Rightarrow> bool" where
  "isAccountHolderNameAndLegalNameMatch collationKey accountHolderName0 legalName0 =
     (let legalName = remove501 legalName0;
          accountHolderName = remove501 accountHolderName0;
          namesArray = splitOnSpace (trim legalName);
          legalNameReversed =
            (if length namesArray = 2
             then Some (namesArray ! 1 @ '' '' @ namesArray ! 0)
             else None)
      in \<not> (localeCompare collationKey accountHolderName (Some legalName)
             \<and> localeCompare collationKey accountHolderName legalNameReversed))"

section \<open>Sample data\<close>

text \<open>
  A collective hosted by collective 9, an expense of user 7 on it, a user who is an admin
  of nothing or of everything, and a database holding the expense.
\<close>

definition exCollective :: collective where
  "exCollective = \<lparr> collectiveId = 3, collectiveType = COLLECTIVE,
                    HostCollectiveId = Some 9, isActive = True,
                    collectiveCurrency = ''USD'', authorCannotApprove = False \<rparr>"

definition exExpense :: "expense_status \<Rightarrow> expense" where
  "exExpense st = \<lparr> expenseId = 1, status = st, UserId = 7, CollectiveId = 3,
                     lastEditedById = None, amount = 5000, currency = ''USD'',
                     feesPayer = ''COLLECTIVE'', legacyPayoutMethod = ''other'',
                     isLocked = False, collective = None \<rparr>"

definition exUser :: "bool \<Rightarrow> remote_user" where
  "exUser admin = \<lparr> remoteUserId = 42, isAdminOfCollective = (\<lambda>c. admin),
                     isAdmin = (\<lambda>i. admin) \<rparr>"

definition exRequest :: "bool \<Rightarrow> request" where
  "exRequest admin = \<lparr> remoteUser = Some (exUser admin), canUseExpenses = True,
                        loadCollective = (\<lambda>i. if i = 3 then Some exCollective else None),
                        getSubmitterUser = (\<lambda>e. Some (UserId e)),
                        getRecurringExpense = (\<lambda>e. None),
                        getHostOfCollective = (\<lambda>c. Some \<lparr> hostCollectiveId = 9, hostCur = ''USD'' \<rparr>),
                        hasMultiCurrencyFeature = (\<lambda>c h. False) \<rparr>"

definition exDb :: "expense_status \<Rightarrow> expense_db" where
  "exDb st = \<lparr> expenses = [exExpense st], activities = [], limitedUsers = [],
                destroyedRecurringExpenses = [], spamNotifications = [] \<rparr>"

text \<open>
  A host in USD with one hosted account, an admin of that host, one monthly Stripe card,
  and requests for a monthly limit of 2000.01.
\<close>

definition exVcAccount :: vc_account where
  "exVcAccount = \<lparr> accountId = 3,
                    getHostCollective = Some \<lparr> hostId = 9, hostCurrency = ''USD'' \<rparr>,
                    getUser = Some 42 \<rparr>"

definition exCard :: virtual_card where
  "exCard = \<lparr> cardId = 5, cardHostCollectiveId = 9, cardName = ''Card'', cardUserId = 42,
               spendingLimitAmount = Some 100000, spendingLimitInterval = MONTHLY,
               provider = STRIPE, cardCurrency = ''USD'' \<rparr>"

definition exVcEnv :: vc_env where
  "exVcEnv = \<lparr> vcRemoteUser = Some \<lparr> vcUserId = 42, isAdminOfHost = (\<lambda>h. True),
                                       isAdminOfId = (\<lambda>i. True) \<rparr>,
                fetchAccountWithReference = (\<lambda>r t. Inr (Some exVcAccount)),
                stripeCreateVirtualCard = (\<lambda>h c u n l. Inr (exCard \<lparr> cardId := 6, cardName := n,
                                                                  spendingLimitAmount := l \<rparr>)),
                stripeUpdateVirtualCardMonthlyLimit = (\<lambda>c l. None),
                activityCreateFails = False \<rparr>"

definition exVcDb :: vc_db where
  "exVcDb = \<lparr> cards = [exCard], stripeLimitUpdates = [], vcActivities = [] \<rparr>"

definition exCreateArgs :: "int \<Rightarrow> create_card_args" where
  "exCreateArgs v = \<lparr> createName = ''New card'',
                       createMonthlyLimit = \<lparr> valueInCents = Some v \<rparr>,
                       createAccount = 3, createAssignee = 4 \<rparr>"

definition exEditArgs :: "int \<Rightarrow> edit_card_args" where
  "exEditArgs v = \<lparr> editVirtualCardId = 5, editName = None, editAssignee = None,
                     editMonthlyLimit = Some \<lparr> valueInCents = Some v \<rparr> \<rparr>"

text \<open>A payout stage that succeeds with a manual payout, and a request to pay expense 1.\<close>

definition exProviders :: payment_providers where
  "exProviders = \<lparr> executePayout = (\<lambda>e h a. Inr MarkAsPaid) \<rparr>"

definition exPayArgs :: pay_args where
  "exPayArgs = \<lparr> payId = 1, argForceManual = True, argFeesPayer = None \<rparr>"

text \<open>
  An environment for \<open>createExpense\<close> in which every check passes and the payee stage
  writes nothing; its arguments say which items the database refuses and whether the
  creation of the activity fails. An invoice with 21% of VAT (the rate is the binary64
  value of the literal \<open>0.21\<close>), and an empty database.
\<close>

definition exCreateEnv :: "(item_data \<Rightarrow> error option) \<Rightarrow> bool \<Rightarrow> unit create_env" where
  "exCreateEnv refuse activityFails =
     \<lparr> canUseFeature = (\<lambda>u. True),
       findCollective = (\<lambda>i. if i = 3 then Some exCollective else None),
       collectiveHost = (\<lambda>c. Some \<lparr> hostCollectiveId = 9, hostCur = ''USD'' \<rparr>),
       isMember = (\<lambda>u c. False),
       isAdminOfCollectiveOrHost = (\<lambda>u c. False),
       isRoot = (\<lambda>u. False),
       accountHasVAT = (\<lambda>c. True),
       accountHasGST = (\<lambda>h. False),
       hasFeatureMultiCurrency = (\<lambda>c h. False),
       preparePayee = (\<lambda>u d c p. (Inr \<lparr> fromCollectiveId = 8, payoutMethodId = None,
                                         legacyPayoutMethodType = ''other'' \<rparr>, p)),
       nextExpenseId = (\<lambda>d. Suc (length (expenses d))),
       defaultFeesPayer = ''COLLECTIVE'',
       amountColumnError = (\<lambda>n. Error ''invalid input syntax for type integer''),
       expenseCreateError = (\<lambda>e. None),
       itemCreateError = refuse,
       fileCreateError = (\<lambda>f. None),
       activityCreateError =
         (\<lambda>e. if activityFails then Some (Error ''activity not created'') else None) \<rparr>"

definition exItem :: "int \<Rightarrow> item_data" where
  "exItem a = \<lparr> itemAmount = a, itemUrl = Some ''https://files.example/receipt.pdf'' \<rparr>"

definition exData :: "item_data list option \<Rightarrow> nat \<Rightarrow> expense_data" where
  "exData its nfiles =
     \<lparr> dataCollectiveId = Some 3, disablePublicExpenseSubmission = False,
       dataItems = its,
       dataAttachedFiles = Some (replicate nfiles \<lparr> fileUrl = ''https://files.example/a.pdf'' \<rparr>),
       dataTax = Some [\<lparr> taxType = VAT, taxRate = fl (21 / 100), idNumber = ''FR123'' \<rparr>],
       dataType = Some INVOICE, dataCurrency = None \<rparr>"

definition exCreateDb :: "unit create_db" where
  "exCreateDb = \<lparr> edb = \<lparr> expenses = [], activities = [], limitedUsers = [],
                          destroyedRecurringExpenses = [], spamNotifications = [] \<rparr>,
                  expenseItems = [], expenseAttachedFiles = [], payeeTables = () \<rparr>"

text \<open>
  A legacy expense, with a host fee of 0.10 and a platform fee of 0.50 and no payment
  processor fee given, on a collective in EUR at a host in USD, at a rate of 1.15 (the
  binary64 value of the literal). The host has a Wise account whose payment option
  costs 5.75, and \<open>floatAmountToCents\<close> is \<open>Math.round(x * 100)\<close>.
\<close>

definition exFeesEnv :: fees_env where
  "exFeesEnv = \<lparr> getFxRate = (\<lambda>a b. if a = b then Inr (Num 1) else Inr (fl (115 / 100))),
                  collectiveByPk = (\<lambda>i. Some (exCollective \<lparr> collectiveCurrency := ''EUR'' \<rparr>)),
                  getPayoutMethodTypeFromLegacy = (\<lambda>e. OTHER),
                  hasTransferwiseAccount = (\<lambda>h. True),
                  wisePaymentOptionFeeTotal = (\<lambda>e b. Inr (Some (Num (23 / 4)))),
                  floatAmountToCents = (\<lambda>x. Math_round (mulNumber x (Num 100))),
                  paypalAdaptiveFees = (\<lambda>a c h. Inr None) \<rparr>"

definition exFees :: fees_args where
  "exFees = \<lparr> paymentProcessorFeeInCollectiveCurrency = None,
               hostFeeInCollectiveCurrency = Some (Num 10),
               platformFeeInCollectiveCurrency = Some (Num 50) \<rparr>"

text \<open>
  A sort key for ASCII strings in the spirit of the options used: letters and digits
  only, letters in lower case.
\<close>

definition asciiBaseKey :: "string \<Rightarrow> nat list" where
  "asciiBaseKey s =
     map (\<lambda>n. if 65 \<le> n \<and> n \<le> 90 then n + 32 else n)
       (filter (\<lambda>n. (48 \<le> n \<and> n \<le> 57) \<or> (65 \<le> n \<and> n \<le> 90) \<or> (97 \<le> n \<and> n \<le> 122))
          (map of_char s))"

chapter \<open>Properties\<close>

section \<open>FX rate matching\<close>




section \<open>Virtual card mutations\<close>

text \<open>
  C8. For every \<open>createVirtualCard\<close> request whose \<open>monthlyLimit\<close> value in cents
  exceeds 200000 (2000 in the host currency), the mutation fails and no card is created
  (the state is the one before the call); for a logged-in user and an account that
  resolves to a hosted collective, so that the limit check is reached, the error is
  \<open>BadRequest\<close>. \<open>editVirtualCard\<close> enforces the same limit when the card's
  spending-limit interval is MONTHLY and its provider is STRIPE: the call fails with the
  state unchanged, and with \<open>BadRequest\<close> once the card is found, the user is an admin of
  its host and the assignee (if any) resolves to a user.
\<close>

theorem virtual_card_monthly_limit:
  assumes "valueInCents mlimit = Some v" and "v > 200000"
  shows "(createMonthlyLimit args = mlimit \<longrightarrow>
            (\<exists>e. createVirtualCard env args db = (Inl e, db))
            \<and> (vcRemoteUser env \<noteq> None
                 \<and> fetchAccountWithReference env (createAccount args) True = Inr (Some acct)
                 \<and> getHostCollective acct = Some h
               \<longrightarrow> createVirtualCard env args db
                     = (Inl (BadRequest (monthlyLimitMessage (hostCurrency h))), db)))
       \<and> (editMonthlyLimit eargs = Some mlimit
            \<and> findCard db (editVirtualCardId eargs) = Some vcard
            \<and> spendingLimitInterval vcard = MONTHLY \<and> provider vcard = STRIPE \<longrightarrow>
            (\<exists>e. editVirtualCard env eargs db = (Inl e, db))
            \<and> (vcRemoteUser env = Some u \<and> isAdminOfId u (cardHostCollectiveId vcard)
                 \<and> editAssigneePart env eargs vcard = Inr c1
               \<longrightarrow> editVirtualCard env eargs db
                     = (Inl (BadRequest (monthlyLimitMessage (cardCurrency vcard))), db)))"
proof -
  have ex: "exceedsMonthlyLimit (valueInCents mlimit)"
    using assms by (simp add: exceedsMonthlyLimit_def MAXIMUM_MONTHLY_LIMIT_def)
  have create: "createMonthlyLimit args = mlimit \<Longrightarrow>
      (\<exists>e. createVirtualCard env args db = (Inl e, db))"
    using ex by (auto simp: createVirtualCard_def Let_def split: option.splits sum.splits)
  have create_bad: "createMonthlyLimit args = mlimit \<Longrightarrow> vcRemoteUser env \<noteq> None \<Longrightarrow>
      fetchAccountWithReference env (createAccount args) True = Inr (Some acct) \<Longrightarrow>
      getHostCollective acct = Some h \<Longrightarrow>
      createVirtualCard env args db = (Inl (BadRequest (monthlyLimitMessage (hostCurrency h))), db)"
    using ex by (auto simp: createVirtualCard_def Let_def split: option.splits sum.splits)
  have edit: "editMonthlyLimit eargs = Some mlimit \<Longrightarrow>
      findCard db (editVirtualCardId eargs) = Some vcard \<Longrightarrow>
      spendingLimitInterval vcard = MONTHLY \<Longrightarrow> provider vcard = STRIPE \<Longrightarrow>
      (\<exists>e. editVirtualCard env eargs db = (Inl e, db))"
    using ex by (auto simp: editVirtualCard_def Let_def split: option.splits sum.splits)
  have edit_bad: "editMonthlyLimit eargs = Some mlimit \<Longrightarrow>
      findCard db (editVirtualCardId eargs) = Some vcard \<Longrightarrow>
      spendingLimitInterval vcard = MONTHLY \<Longrightarrow> provider vcard = STRIPE \<Longrightarrow>
      vcRemoteUser env = Some u \<Longrightarrow> isAdminOfId u (cardHostCollectiveId vcard) \<Longrightarrow>
      editAssigneePart env eargs vcard = Inr c1 \<Longrightarrow>
      editVirtualCard env eargs db = (Inl (BadRequest (monthlyLimitMessage (cardCurrency vcard))), db)"
    using ex by (auto simp: editVirtualCard_def Let_def split: option.splits sum.splits)
  show ?thesis using create create_bad edit edit_bad by blast
qed

text \<open>
  A limit of 200001 cents is refused by both mutations, on a host in USD; a limit of
  200000 cents creates the card.
\<close>

theorem virtual_card_monthly_limit_witness:
  "createVirtualCard exVcEnv (exCreateArgs 200001) exVcDb
     = (Inl (BadRequest ''Monthly limit should not exceed 2000 USD''), exVcDb)
   \<and> editVirtualCard exVcEnv (exEditArgs 200001) exVcDb
     = (Inl (BadRequest ''Monthly limit should not exceed 2000 USD''), exVcDb)
   \<and> length (cards (snd (createVirtualCard exVcEnv (exCreateArgs 200000) exVcDb))) = 2"
proof -
  have ok: "length (cards (snd (createVirtualCard exVcEnv (exCreateArgs 200000) exVcDb))) = 2"
    by (simp add: createVirtualCard_def exVcEnv_def exCreateArgs_def exVcDb_def exVcAccount_def
                  exceedsMonthlyLimit_def MAXIMUM_MONTHLY_LIMIT_def Let_def)
  have h: "valueInCents \<lparr> valueInCents = Some 200001 \<rparr> = Some 200001" "(200001::int) > 200000"
    by simp_all
  show ?thesis
    using virtual_card_monthly_limit [OF h, of "exCreateArgs 200001" exVcEnv exVcDb exVcAccount
            "\<lparr> hostId = 9, hostCurrency = ''USD'' \<rparr>" "exEditArgs 200001" exCard
            "\<lparr> vcUserId = 42, isAdminOfHost = (\<lambda>h. True), isAdminOfId = (\<lambda>i. True) \<rparr>" exCard]
          ok
    by (simp add: exCreateArgs_def exEditArgs_def exVcEnv_def exVcDb_def exVcAccount_def
                  exCard_def findCard_def editAssigneePart_def monthlyLimitMessage_def)
qed

section \<open>Expense status actions\<close>

lemmas evaluator_defs =
  canApprove_def canUnapprove_def canReject_def canMarkAsSpam_def canPayExpense_def
  remoteUserMeetsOneCondition_def deny_def isCollectiveAdmin_def isHostAdmin_def
  withCollective_def

lemmas sample_defs = exCollective_def exExpense_def exUser_def exRequest_def exDb_def

lemma approveExpense_check:
  "(status e = APPROVED \<longrightarrow> approveExpense req e db = (Inr e, db))
   \<and> (status e \<noteq> APPROVED \<and> fst (canApprove req e False) = Inr False
        \<longrightarrow> approveExpense req e db = (Inl (Forbidden []), db))
   \<and> (snd (approveExpense req e db) \<noteq> db \<longrightarrow> fst (canApprove req e False) = Inr True)"
  by (cases "canApprove req e False"; cases "fst (canApprove req e False)")
     (auto simp: approveExpense_def split: option.splits bool.splits)

lemma unapproveExpense_check:
  "(status e = PENDING \<longrightarrow> unapproveExpense req e db = (Inr e, db))
   \<and> (status e \<noteq> PENDING \<and> fst (canUnapprove req e False) = Inr False
        \<longrightarrow> unapproveExpense req e db = (Inl (Forbidden []), db))
   \<and> (snd (unapproveExpense req e db) \<noteq> db \<longrightarrow> fst (canUnapprove req e False) = Inr True)"
  by (cases "canUnapprove req e False"; cases "fst (canUnapprove req e False)")
     (auto simp: unapproveExpense_def split: option.splits bool.splits)

lemma rejectExpense_check:
  "(status e = REJECTED \<longrightarrow> rejectExpense req e db = (Inr e, db))
   \<and> (status e \<noteq> REJECTED \<and> fst (canReject req e False) = Inr False
        \<longrightarrow> rejectExpense req e db = (Inl (Forbidden []), db))
   \<and> (snd (rejectExpense req e db) \<noteq> db \<longrightarrow> fst (canReject req e False) = Inr True)"
  by (cases "canReject req e False"; cases "fst (canReject req e False)")
     (auto simp: rejectExpense_def split: option.splits bool.splits)

lemma markExpenseAsSpam_check:
  "(status e = SPAM \<longrightarrow> markExpenseAsSpam req e db = (Inr e, db))
   \<and> (status e \<noteq> SPAM \<and> fst (canMarkAsSpam req e False) = Inr False
        \<longrightarrow> markExpenseAsSpam req e db = (Inl (Forbidden []), db))
   \<and> (snd (markExpenseAsSpam req e db) \<noteq> db \<longrightarrow> fst (canMarkAsSpam req e False) = Inr True)"
  by (cases "canMarkAsSpam req e False"; cases "fst (canMarkAsSpam req e False)")
     (auto simp: markExpenseAsSpam_def split: option.splits bool.splits)

text \<open>
  C5. For every expense-status action (\<open>approveExpense\<close>, \<open>unapproveExpense\<close>,
  \<open>rejectExpense\<close>, \<open>markExpenseAsSpam\<close>) the permission check runs before any model
  write: when the expense is already in the target status the action returns the expense
  unchanged, with no update and no activity; otherwise, when the permission evaluator
  denies the request, the action throws \<open>Forbidden\<close> and the stored rows are unchanged;
  and whenever an action changes the stored rows, its evaluator has accepted the request.
\<close>

theorem status_actions_check_before_write:
  "((status e = APPROVED \<longrightarrow> approveExpense req e db = (Inr e, db))
    \<and> (status e \<noteq> APPROVED \<and> fst (canApprove req e False) = Inr False
         \<longrightarrow> approveExpense req e db = (Inl (Forbidden []), db))
    \<and> (snd (approveExpense req e db) \<noteq> db \<longrightarrow> fst (canApprove req e False) = Inr True))
   \<and> ((status e = PENDING \<longrightarrow> unapproveExpense req e db = (Inr e, db))
    \<and> (status e \<noteq> PENDING \<and> fst (canUnapprove req e False) = Inr False
         \<longrightarrow> unapproveExpense req e db = (Inl (Forbidden []), db))
    \<and> (snd (unapproveExpense req e db) \<noteq> db \<longrightarrow> fst (canUnapprove req e False) = Inr True))
   \<and> ((status e = REJECTED \<longrightarrow> rejectExpense req e db = (Inr e, db))
    \<and> (status e \<noteq> REJECTED \<and> fst (canReject req e False) = Inr False
         \<longrightarrow> rejectExpense req e db = (Inl (Forbidden []), db))
    \<and> (snd (rejectExpense req e db) \<noteq> db \<longrightarrow> fst (canReject req e False) = Inr True))
   \<and> ((status e = SPAM \<longrightarrow> markExpenseAsSpam req e db = (Inr e, db))
    \<and> (status e \<noteq> SPAM \<and> fst (canMarkAsSpam req e False) = Inr False
         \<longrightarrow> markExpenseAsSpam req e db = (Inl (Forbidden []), db))
    \<and> (snd (markExpenseAsSpam req e db) \<noteq> db \<longrightarrow> fst (canMarkAsSpam req e False) = Inr True))"
  using approveExpense_check [of e req db] unapproveExpense_check [of e req db]
        rejectExpense_check [of e req db] markExpenseAsSpam_check [of e req db]
  by blast

text \<open>
  A user who is no admin is refused on a pending, an approved and a rejected expense, and
  gets the expense back when it already has the target status.
\<close>

theorem status_actions_check_before_write_witness:
  "approveExpense (exRequest False) (exExpense PENDING) (exDb PENDING)
     = (Inl (Forbidden []), exDb PENDING)
   \<and> rejectExpense (exRequest False) (exExpense PENDING) (exDb PENDING)
     = (Inl (Forbidden []), exDb PENDING)
   \<and> unapproveExpense (exRequest False) (exExpense APPROVED) (exDb APPROVED)
     = (Inl (Forbidden []), exDb APPROVED)
   \<and> markExpenseAsSpam (exRequest False) (exExpense REJECTED) (exDb REJECTED)
     = (Inl (Forbidden []), exDb REJECTED)
   \<and> approveExpense (exRequest False) (exExpense APPROVED) (exDb APPROVED)
     = (Inr (exExpense APPROVED), exDb APPROVED)
   \<and> unapproveExpense (exRequest False) (exExpense PENDING) (exDb PENDING)
     = (Inr (exExpense PENDING), exDb PENDING)
   \<and> rejectExpense (exRequest False) (exExpense REJECTED) (exDb REJECTED)
     = (Inr (exExpense REJECTED), exDb REJECTED)
   \<and> markExpenseAsSpam (exRequest False) (exExpense SPAM) (exDb SPAM)
     = (Inr (exExpense SPAM), exDb SPAM)
   \<and> snd (approveExpense (exRequest True) (exExpense PENDING) (exDb PENDING)) \<noteq> exDb PENDING
   \<and> fst (canApprove (exRequest True) (exExpense PENDING) False) = Inr True"
proof -
  have w: "snd (approveExpense (exRequest True) (exExpense PENDING) (exDb PENDING)) \<noteq> exDb PENDING"
    by (simp add: approveExpense_def evaluator_defs sample_defs updateExpense_def Let_def
                  createActivity_def)
  have p: "status (exExpense st) = st" for st by (simp add: exExpense_def)
  have d: "fst (canApprove (exRequest False) (exExpense PENDING) False) = Inr False"
          "fst (canReject (exRequest False) (exExpense PENDING) False) = Inr False"
          "fst (canUnapprove (exRequest False) (exExpense APPROVED) False) = Inr False"
          "fst (canMarkAsSpam (exRequest False) (exExpense REJECTED) False) = Inr False"
    by (simp_all add: evaluator_defs sample_defs)
  show ?thesis
    using status_actions_check_before_write [of "exExpense PENDING" "exRequest False" "exDb PENDING"]
          status_actions_check_before_write [of "exExpense APPROVED" "exRequest False" "exDb APPROVED"]
          status_actions_check_before_write [of "exExpense REJECTED" "exRequest False" "exDb REJECTED"]
          status_actions_check_before_write [of "exExpense SPAM" "exRequest False" "exDb SPAM"]
          status_actions_check_before_write [of "exExpense PENDING" "exRequest True" "exDb PENDING"]
          d w
    by (simp add: p)
qed

section \<open>Paying an expense\<close>

lemma findByPk_id: "findByPk db i = Some e \<Longrightarrow> expenseId e = i"
  by (auto simp: findByPk_def find_Some_iff)

lemma find_map_id:
  assumes "\<And>r. expenseId (g r) = expenseId r"
  shows "find (\<lambda>r. expenseId r = i) (map g rs) = map_option g (find (\<lambda>r. expenseId r = i) rs)"
  using assms by (induction rs) auto

lemma findByPk_updateExpense:
  assumes "\<And>r. expenseId (f r) = expenseId r"
  shows "findByPk (snd (updateExpense f e db)) i
           = map_option (\<lambda>r. if expenseId r = expenseId e then f r else r) (findByPk db i)"
proof -
  have "\<And>r. expenseId (if expenseId r = expenseId e then f r else r) = expenseId r"
    using assms by simp
  then show ?thesis
    by (simp add: findByPk_def updateExpense_def find_map_id)
qed

lemma statuses_updateExpense:
  assumes "\<And>r. status (f r) = status r"
  shows "map status (expenses (snd (updateExpense f e db))) = map status (expenses db)"
  using assms by (simp add: updateExpense_def)

lemma activities_updateExpense:
  "activities (snd (updateExpense f e db)) = activities db"
  by (simp add: updateExpense_def)

text \<open>The callback refuses every status but APPROVED and ERROR, and writes nothing.\<close>

lemma payExpenseLocked_refuses:
  assumes "findByPk db (payId args) = Some e"
  shows "status e = PAID \<Longrightarrow>
           payExpenseLocked req providers args u db
             = (Inl (Unauthorized ''Expense has already been paid''), db)"
    and "status e = PROCESSING \<Longrightarrow>
           payExpenseLocked req providers args u db
             = (Inl (Unauthorized ''Expense is currently being processed, this means someone already started the payment process''), db)"
    and "status e \<noteq> PAID \<Longrightarrow> status e \<noteq> PROCESSING \<Longrightarrow> status e \<noteq> APPROVED \<Longrightarrow>
         status e \<noteq> ERROR \<Longrightarrow>
           payExpenseLocked req providers args u db
             = (Inl (Unauthorized (''Expense needs to be approved. Current status of the expense: ''
                                     @ statusName (status e) @ ''.'')), db)"
  using assms by (simp_all add: payExpenseLocked_def findByPkWithCollective_def)

lemma payExpenseLocked_refuses_any:
  assumes "findByPk db (payId args) = Some e" "status e \<noteq> APPROVED" "status e \<noteq> ERROR"
  shows "\<exists>m. payExpenseLocked req providers args u db = (Inl (Unauthorized m), db)"
  using payExpenseLocked_refuses [OF assms(1), of req providers u] assms(2,3)
  by (cases "status e = PAID"; cases "status e = PROCESSING") auto

lemma payExpenseLocked_success:
  assumes "fst (payExpenseLocked req providers args u db) = Inr x"
  shows "\<exists>e. findByPk db (payId args) = Some e \<and> (status e = APPROVED \<or> status e = ERROR)"
proof (cases "findByPk db (payId args)")
  case None
  then show ?thesis using assms
    by (simp add: payExpenseLocked_def findByPkWithCollective_def)
next
  case (Some e)
  show ?thesis
  proof (rule ccontr)
    assume "\<not> ?thesis"
    then have "status e \<noteq> APPROVED" "status e \<noteq> ERROR" using Some by auto
    from payExpenseLocked_refuses_any [OF Some this, of req providers u]
    show False using assms by auto
  qed
qed

text \<open>What \<open>lockExpense\<close> does once the lock is taken.\<close>

lemma lockExpense_taken:
  assumes "findByPk db i = Some e" "\<not> isLocked e"
  shows "\<exists>db1 e1. findByPk db1 i = Some e1 \<and> status e1 = status e
            \<and> map status (expenses db1) = map status (expenses db)
            \<and> activities db1 = activities db
            \<and> (fst (lockExpense i callback db) = fst (callback db1)
                 \<or> fst (lockExpense i callback db) = Inl TypeError)
            \<and> (callback db1 = (fst (callback db1), db1) \<longrightarrow>
                  fst (lockExpense i callback db) = fst (callback db1)
                  \<and> map status (expenses (snd (lockExpense i callback db))) = map status (expenses db)
                  \<and> activities (snd (lockExpense i callback db)) = activities db)"
proof -
  define db1 where "db1 = snd (updateExpense (\<lambda>r. r \<lparr> isLocked := True \<rparr>) e db)"
  have id: "expenseId e = i" using assms(1) by (rule findByPk_id)
  have f1: "findByPk db1 i = Some (e \<lparr> isLocked := True \<rparr>)"
    unfolding db1_def using assms(1) id by (simp add: findByPk_updateExpense)
  have s1: "map status (expenses db1) = map status (expenses db)"
    unfolding db1_def by (simp add: statuses_updateExpense)
  have a1: "activities db1 = activities db"
    unfolding db1_def by (simp add: activities_updateExpense)
  have lock: "lockExpense i callback db =
      (case findByPk (snd (callback db1)) i of
         None \<Rightarrow> (Inl TypeError, snd (callback db1))
       | Some e2 \<Rightarrow> (fst (callback db1),
                     snd (updateExpense (\<lambda>r. r \<lparr> isLocked := False \<rparr>) e2 (snd (callback db1)))))"
    unfolding db1_def using assms by (simp add: lockExpense_def case_prod_beta Let_def)
  have r: "fst (lockExpense i callback db) = fst (callback db1)
           \<or> fst (lockExpense i callback db) = Inl TypeError"
    by (simp add: lock split: option.splits)
  have u: "callback db1 = (fst (callback db1), db1) \<longrightarrow>
             fst (lockExpense i callback db) = fst (callback db1)
             \<and> map status (expenses (snd (lockExpense i callback db))) = map status (expenses db)
             \<and> activities (snd (lockExpense i callback db)) = activities db"
  proof
    assume c: "callback db1 = (fst (callback db1), db1)"
    then have sc: "snd (callback db1) = db1" by (metis snd_conv)
    show "fst (lockExpense i callback db) = fst (callback db1)
            \<and> map status (expenses (snd (lockExpense i callback db))) = map status (expenses db)
            \<and> activities (snd (lockExpense i callback db)) = activities db"
      by (simp add: lock sc f1 statuses_updateExpense activities_updateExpense s1 a1)
  qed
  show ?thesis using f1 s1 a1 r u by (intro exI [of _ db1] exI [of _ "e \<lparr> isLocked := True \<rparr>"]) simp
qed

lemma payExpense_not_reached:
  assumes "remoteUser req = None \<or> \<not> canUseExpenses req \<or> findByPk db (payId args) = None
           \<or> (\<exists>e. findByPk db (payId args) = Some e \<and> isLocked e)"
  shows "\<exists>err. payExpense req providers args db = (Inl err, db)"
  using assms by (auto simp: payExpense_def lockExpense_def split: option.splits)

lemma payExpense_reached:
  assumes "remoteUser req = Some u" "canUseExpenses req"
          "findByPk db (payId args) = Some e" "\<not> isLocked e"
  shows "fst (payExpense req providers args db) = Inr x \<Longrightarrow> status e = APPROVED \<or> status e = ERROR"
    and "status e \<noteq> APPROVED \<Longrightarrow> status e \<noteq> ERROR \<Longrightarrow>
           (\<exists>m. fst (payExpense req providers args db) = Inl (Unauthorized m))
           \<and> map status (expenses (snd (payExpense req providers args db))) = map status (expenses db)
           \<and> activities (snd (payExpense req providers args db)) = activities db"
    and "status e = PAID \<Longrightarrow>
           fst (payExpense req providers args db) = Inl (Unauthorized ''Expense has already been paid'')"
    and "status e = PROCESSING \<Longrightarrow>
           fst (payExpense req providers args db)
             = Inl (Unauthorized ''Expense is currently being processed, this means someone already started the payment process'')"
proof -
  let ?cb = "payExpenseLocked req providers args u"
  have pay: "payExpense req providers args db = lockExpense (payId args) ?cb db"
    using assms(1,2) by (simp add: payExpense_def)
  from lockExpense_taken [OF assms(3,4), of ?cb]
  obtain db1 e1 where f1: "findByPk db1 (payId args) = Some e1"
    and st: "status e1 = status e"
    and r: "fst (lockExpense (payId args) ?cb db) = fst (?cb db1)
            \<or> fst (lockExpense (payId args) ?cb db) = Inl TypeError"
    and same: "?cb db1 = (fst (?cb db1), db1) \<Longrightarrow>
            fst (lockExpense (payId args) ?cb db) = fst (?cb db1)
            \<and> map status (expenses (snd (lockExpense (payId args) ?cb db))) = map status (expenses db)
            \<and> activities (snd (lockExpense (payId args) ?cb db)) = activities db"
    by blast
  show "status e = APPROVED \<or> status e = ERROR"
    if "fst (payExpense req providers args db) = Inr x"
  proof -
    from that r pay have "fst (?cb db1) = Inr x" by auto
    from payExpenseLocked_success [OF this] f1 st show ?thesis by auto
  qed
  show "(\<exists>m. fst (payExpense req providers args db) = Inl (Unauthorized m))
           \<and> map status (expenses (snd (payExpense req providers args db))) = map status (expenses db)
           \<and> activities (snd (payExpense req providers args db)) = activities db"
    if "status e \<noteq> APPROVED" "status e \<noteq> ERROR"
  proof -
    from payExpenseLocked_refuses_any [OF f1, of req providers u] that st
    obtain m where m: "?cb db1 = (Inl (Unauthorized m), db1)" by auto
    then have "?cb db1 = (fst (?cb db1), db1)" by simp
    from same [OF this] m show ?thesis by (auto simp: pay)
  qed
  show "fst (payExpense req providers args db) = Inl (Unauthorized ''Expense has already been paid'')"
    if "status e = PAID"
  proof -
    from payExpenseLocked_refuses(1) [OF f1, of req providers u] that st
    have m: "?cb db1 = (Inl (Unauthorized ''Expense has already been paid''), db1)" by simp
    then have "?cb db1 = (fst (?cb db1), db1)" by simp
    from same [OF this] m show ?thesis by (simp add: pay)
  qed
  show "fst (payExpense req providers args db)
          = Inl (Unauthorized ''Expense is currently being processed, this means someone already started the payment process'')"
    if "status e = PROCESSING"
  proof -
    from payExpenseLocked_refuses(2) [OF f1, of req providers u] that st
    have m: "?cb db1 = (Inl (Unauthorized ''Expense is currently being processed, this means someone already started the payment process''), db1)"
      by simp
    then have "?cb db1 = (fst (?cb db1), db1)" by simp
    from same [OF this] m show ?thesis by (simp add: pay)
  qed
qed

text \<open>
  C3. For every expense, \<open>payExpense\<close> succeeds only when the expense status is APPROVED
  or ERROR. Whenever the status is anything else the call throws and no expense changes
  its status (and no activity is recorded), so that an expense never becomes PAID through
  \<open>payExpense\<close> from another status. Once the request reaches the status checks (a
  logged-in user who may use expenses, an expense that exists and is not locked), the
  error is \<open>Unauthorized('Expense has already been paid')\<close> for PAID, \<open>Unauthorized\<close>
  for PROCESSING, and \<open>Unauthorized\<close> for every other status but APPROVED and ERROR.
\<close>

theorem payExpense_status_guard:
  "(fst (payExpense req providers args db) = Inr x \<longrightarrow>
      (\<exists>e. findByPk db (payId args) = Some e \<and> (status e = APPROVED \<or> status e = ERROR)))
   \<and> (findByPk db (payId args) = Some e \<and> status e \<noteq> APPROVED \<and> status e \<noteq> ERROR \<longrightarrow>
        (\<exists>err. fst (payExpense req providers args db) = Inl err)
        \<and> map status (expenses (snd (payExpense req providers args db))) = map status (expenses db)
        \<and> activities (snd (payExpense req providers args db)) = activities db)
   \<and> (remoteUser req \<noteq> None \<and> canUseExpenses req
        \<and> findByPk db (payId args) = Some e \<and> \<not> isLocked e \<longrightarrow>
        (status e = PAID \<longrightarrow>
           fst (payExpense req providers args db)
             = Inl (Unauthorized ''Expense has already been paid''))
        \<and> (status e = PROCESSING \<longrightarrow>
           fst (payExpense req providers args db)
             = Inl (Unauthorized ''Expense is currently being processed, this means someone already started the payment process''))
        \<and> (status e \<noteq> APPROVED \<and> status e \<noteq> ERROR \<longrightarrow>
           (\<exists>m. fst (payExpense req providers args db) = Inl (Unauthorized m))))"
proof (intro conjI impI)
  assume ok: "fst (payExpense req providers args db) = Inr x"
  show "\<exists>e. findByPk db (payId args) = Some e \<and> (status e = APPROVED \<or> status e = ERROR)"
  proof (cases "remoteUser req = None \<or> \<not> canUseExpenses req \<or> findByPk db (payId args) = None
                \<or> (\<exists>e. findByPk db (payId args) = Some e \<and> isLocked e)")
    case True
    from payExpense_not_reached [OF this, of providers] ok show ?thesis by auto
  next
    case False
    then obtain u e0 where h: "remoteUser req = Some u" "canUseExpenses req"
        "findByPk db (payId args) = Some e0" "\<not> isLocked e0" by auto
    from payExpense_reached(1) [OF h ok] h(3) show ?thesis by simp
  qed
next
  assume a: "findByPk db (payId args) = Some e \<and> status e \<noteq> APPROVED \<and> status e \<noteq> ERROR"
  have "(\<exists>err. fst (payExpense req providers args db) = Inl err)
        \<and> map status (expenses (snd (payExpense req providers args db))) = map status (expenses db)
        \<and> activities (snd (payExpense req providers args db)) = activities db"
  proof (cases "remoteUser req = None \<or> \<not> canUseExpenses req \<or> findByPk db (payId args) = None
                \<or> (\<exists>e. findByPk db (payId args) = Some e \<and> isLocked e)")
    case True
    from payExpense_not_reached [OF this, of providers] show ?thesis by auto
  next
    case False
    then obtain u where h: "remoteUser req = Some u" "canUseExpenses req"
        "findByPk db (payId args) = Some e" "\<not> isLocked e" using a by auto
    from payExpense_reached(2) [OF h, of providers] a show ?thesis by auto
  qed
  then show "\<exists>err. fst (payExpense req providers args db) = Inl err"
    and "map status (expenses (snd (payExpense req providers args db))) = map status (expenses db)"
    and "activities (snd (payExpense req providers args db)) = activities db"
    by auto
next
  assume a: "remoteUser req \<noteq> None \<and> canUseExpenses req
        \<and> findByPk db (payId args) = Some e \<and> \<not> isLocked e"
  then obtain u where h: "remoteUser req = Some u" "canUseExpenses req"
        "findByPk db (payId args) = Some e" "\<not> isLocked e" by auto
  show "fst (payExpense req providers args db) = Inl (Unauthorized ''Expense has already been paid'')"
    if "status e = PAID" using payExpense_reached(3) [OF h that] .
  show "fst (payExpense req providers args db)
          = Inl (Unauthorized ''Expense is currently being processed, this means someone already started the payment process'')"
    if "status e = PROCESSING" using payExpense_reached(4) [OF h that] .
  show "\<exists>m. fst (payExpense req providers args db) = Inl (Unauthorized m)"
    if "status e \<noteq> APPROVED \<and> status e \<noteq> ERROR"
    using payExpense_reached(2) [OF h, of providers] that by auto
qed

text \<open>
  A host admin pays an approved expense, which becomes PAID; the same request on a paid,
  a processing and a pending expense is refused and leaves the status as it was.
\<close>

theorem payExpense_status_guard_witness:
  "fst (payExpense (exRequest True) exProviders exPayArgs (exDb PAID))
     = Inl (Unauthorized ''Expense has already been paid'')
   \<and> fst (payExpense (exRequest True) exProviders exPayArgs (exDb PROCESSING))
     = Inl (Unauthorized ''Expense is currently being processed, this means someone already started the payment process'')
   \<and> (\<exists>m. fst (payExpense (exRequest True) exProviders exPayArgs (exDb PENDING))
          = Inl (Unauthorized m))
   \<and> map status (expenses (snd (payExpense (exRequest True) exProviders exPayArgs (exDb PENDING))))
     = [PENDING]
   \<and> map status (expenses (snd (payExpense (exRequest True) exProviders exPayArgs (exDb APPROVED))))
     = [PAID]
   \<and> (\<exists>x. fst (payExpense (exRequest True) exProviders exPayArgs (exDb APPROVED)) = Inr x)"
proof -
  have f: "findByPk (exDb st) (payId exPayArgs) = Some (exExpense st)" for st
    by (simp add: findByPk_def exDb_def exPayArgs_def exExpense_def)
  have g: "remoteUser (exRequest True) \<noteq> None" "canUseExpenses (exRequest True)"
          "\<not> isLocked (exExpense st)" "status (exExpense st) = st" for st
    by (simp_all add: exRequest_def exExpense_def)
  have paid: "payExpense (exRequest True) exProviders exPayArgs (exDb APPROVED)
      = (Inr ((exExpense APPROVED) \<lparr> status := PAID, lastEditedById := Some 42, isLocked := True,
                                     collective := Some exCollective \<rparr>),
         \<lparr> expenses = [(exExpense APPROVED) \<lparr> status := PAID, lastEditedById := Some 42 \<rparr>],
           activities = [\<lparr> activityType = COLLECTIVE_EXPENSE_PAID, activityExpenseId = 1,
                           activityByUserId = 42 \<rparr>],
           limitedUsers = [], destroyedRecurringExpenses = [], spamNotifications = [] \<rparr>)"
    by (simp add: payExpense_def lockExpense_def payExpenseLocked_def findByPkWithCollective_def
                  findByPk_def updateExpense_def canPayExpense_def remoteUserMeetsOneCondition_def
                  isHostAdmin_def withCollective_def markExpenseAsPaid_def setPaid_def
                  createActivity_def hasMultiCurrency_def exProviders_def exPayArgs_def
                  sample_defs Let_def)
  show ?thesis
    using payExpense_status_guard [of "exRequest True" exProviders exPayArgs "exDb PAID" _ "exExpense PAID"]
          payExpense_status_guard [of "exRequest True" exProviders exPayArgs "exDb PROCESSING" _ "exExpense PROCESSING"]
          payExpense_status_guard [of "exRequest True" exProviders exPayArgs "exDb PENDING" _ "exExpense PENDING"]
    by (simp add: f g paid) (simp add: exDb_def exExpense_def)
qed

section \<open>JavaScript numbers\<close>

text \<open>
  The rounding \<open>fl\<close> is characterised without the bit lengths: \<open>floorLog2\<close> finds the
  binade of its argument, a value in the normal range is rounded to 53 significant bits,
  and an integer below \<open>2 ^ 53\<close> in absolute value is a binary64 value. The rules \<open>fl_eqI\<close> and
  \<open>Math_round_eqI\<close> compute \<open>fl\<close> and \<open>Math.round\<close> at a given value from a few comparisons
  of rationals.
\<close>

lemma pow2_powi: "pow2 e = 2 powi e"
  by (simp add: pow2_def power_int_def inverse_eq_divide power_one_over)

lemma pow2_pos [simp]: "0 < pow2 e"
  by (simp add: pow2_powi)

lemma pow2_add: "pow2 (a + b) = pow2 a * pow2 b"
  by (simp add: pow2_powi power_int_add)

lemma pow2_diff: "pow2 (a - b) = pow2 a / pow2 b"
  by (simp add: pow2_powi power_int_diff)

lemma pow2_strict_mono: "a < b \<Longrightarrow> pow2 a < pow2 b"
  using power_int_strict_increasing [of a b "2::rat"] by (simp add: pow2_powi)

lemma pow2_mono: "a \<le> b \<Longrightarrow> pow2 a \<le> pow2 b"
  using power_int_increasing [of a b "2::rat"] by (simp add: pow2_powi)

lemma pow2_less_iff [simp]: "pow2 a < pow2 b \<longleftrightarrow> a < b"
  using pow2_strict_mono [of a b] pow2_mono [of b a] by (cases "a < b") auto

lemma pow2_le_iff [simp]: "pow2 a \<le> pow2 b \<longleftrightarrow> a \<le> b"
  using pow2_strict_mono [of b a] pow2_mono [of a b] by (cases "a \<le> b") (auto simp: not_le)

lemma pow2_nat: "pow2 (int n) = 2 ^ n"
  by (simp add: pow2_def)

lemma bitlen_bounds_rat:
  assumes "0 < p"
  shows "pow2 (bitlen p - 1) \<le> of_int p" and "of_int p < pow2 (bitlen p)"
proof -
  from assms have b: "1 \<le> bitlen p" by (simp add: bitlen_alt_def)
  from bitlen_bounds [OF assms]
  have l: "2 ^ nat (bitlen p - 1) \<le> p" and u: "p < 2 ^ nat (bitlen p)" by simp_all
  have "pow2 (bitlen p - 1) = of_int (2 ^ nat (bitlen p - 1))"
    using b by (simp add: pow2_def)
  also have "\<dots> \<le> of_int p" using l by (simp only: of_int_le_iff)
  finally show "pow2 (bitlen p - 1) \<le> of_int p" .
  have "(of_int p :: rat) < of_int (2 ^ nat (bitlen p))" using u by (simp only: of_int_less_iff)
  also have "\<dots> = pow2 (bitlen p)" using b by (simp add: pow2_def)
  finally show "of_int p < pow2 (bitlen p)" .
qed

lemma floorLog2_bounds:
  assumes "0 < x"
  shows "pow2 (floorLog2 x) \<le> x \<and> x < pow2 (floorLog2 x + 1)"
proof -
  obtain p q where pq: "quotient_of x = (p, q)" by (cases "quotient_of x")
  then have q: "0 < q" and x: "x = of_int p / of_int q"
    by (simp_all add: quotient_of_denom_pos quotient_of_div)
  from assms x q have p: "0 < p" by (simp add: zero_less_divide_iff)
  let ?d = "bitlen p - bitlen q"
  note bp = bitlen_bounds_rat [OF p] and bq = bitlen_bounds_rat [OF q]
  have qpos: "(0::rat) < of_int q" using q by simp
  have "x < pow2 (bitlen p) / of_int q"
    unfolding x using bp(2) qpos by (simp add: divide_strict_right_mono)
  also have "\<dots> \<le> pow2 (bitlen p) / pow2 (bitlen q - 1)"
  proof (rule divide_left_mono)
    show "pow2 (bitlen q - 1) \<le> of_int q" by (rule bq(1))
    show "0 \<le> pow2 (bitlen p)" by (simp add: less_imp_le)
    show "0 < rat_of_int q * pow2 (bitlen q - 1)" using qpos by simp
  qed
  also have "\<dots> = pow2 (?d + 1)" by (simp add: pow2_diff [symmetric] algebra_simps)
  finally have up: "x < pow2 (?d + 1)" .
  have "pow2 (?d - 1) = pow2 (bitlen p - 1) / pow2 (bitlen q)"
    by (simp add: pow2_diff [symmetric] algebra_simps)
  also have "\<dots> \<le> of_int p / pow2 (bitlen q)"
    by (rule divide_right_mono [OF bp(1)]) (simp add: less_imp_le)
  also have "\<dots> < of_int p / of_int q"
    by (rule divide_strict_left_mono [OF bq(2)]) (use p qpos in simp_all)
  finally have lo: "pow2 (?d - 1) < x" by (simp add: x)
  show ?thesis
  proof (cases "pow2 ?d \<le> x")
    case True
    then have "floorLog2 x = ?d" by (simp add: floorLog2_def pq Let_def)
    with True up show ?thesis by simp
  next
    case False
    then have "floorLog2 x = ?d - 1" by (simp add: floorLog2_def pq Let_def)
    with False lo show ?thesis by simp
  qed
qed

lemma floorLog2_unique:
  assumes "pow2 k \<le> x" and "x < pow2 (k + 1)"
  shows "floorLog2 x = k"
proof -
  have "0 < x" using assms(1) pow2_pos [of k] by linarith
  from floorLog2_bounds [OF this]
  have f: "pow2 (floorLog2 x) \<le> x" "x < pow2 (floorLog2 x + 1)" by simp_all
  have "pow2 k < pow2 (floorLog2 x + 1)" using assms(1) f(2) by linarith
  moreover have "pow2 (floorLog2 x) < pow2 (k + 1)" using assms(2) f(1) by linarith
  ultimately show ?thesis by simp
qed

lemma roundHalfEven_cases: "roundHalfEven y = \<lfloor>y\<rfloor> \<or> roundHalfEven y = \<lfloor>y\<rfloor> + 1"
  by (simp add: roundHalfEven_def Let_def)

lemma roundHalfEven_of_int [simp]: "roundHalfEven (of_int n) = n"
  by (simp add: roundHalfEven_def Let_def)

lemma roundHalfEven_ge: "of_int n \<le> y \<Longrightarrow> n \<le> roundHalfEven y"
proof -
  assume "of_int n \<le> y"
  then have "n \<le> \<lfloor>y\<rfloor>" by (simp add: le_floor_iff)
  then show ?thesis using roundHalfEven_cases [of y] by auto
qed

lemma roundHalfEven_eqI:
  assumes "\<bar>y - of_int m\<bar> < 1 / 2 \<or> (\<bar>y - of_int m\<bar> = 1 / 2 \<and> even m)"
  shows "roundHalfEven y = m"
proof -
  let ?n = "\<lfloor>y\<rfloor>"
  have fl: "of_int ?n \<le> y" "y < of_int ?n + 1" by linarith+
  from assms consider (near) "\<bar>y - of_int m\<bar> < 1 / 2"
    | (up) "y - of_int m = 1 / 2" "even m" | (down) "of_int m - y = 1 / 2" "even m"
    by (auto simp: abs_if split: if_splits)
  then show ?thesis
  proof cases
    case near
    then have "of_int m - 1 / 2 < y" "y < of_int m + 1 / 2" by linarith+
    with fl have "of_int ?n < (of_int m :: rat) + 1 / 2" "of_int m - 1 / 2 < (of_int ?n :: rat) + 1"
      by linarith+
    then have "of_int ?n < (of_int (m + 1) :: rat)" "(of_int (m - 1) :: rat) < of_int (?n + 1)"
      by simp_all
    then have "?n < m + 1" "m - 1 < ?n + 1" by (simp_all only: of_int_less_iff)
    then have "?n = m \<or> ?n = m - 1" by linarith
    then show ?thesis
    proof
      assume n: "?n = m"
      with near(1) \<open>y < of_int m + 1 / 2\<close> show ?thesis
        by (simp add: roundHalfEven_def Let_def)
    next
      assume n: "?n = m - 1"
      with \<open>of_int m - 1 / 2 < y\<close> show ?thesis
        by (auto simp: roundHalfEven_def Let_def)
    qed
  next
    case up
    then have y: "y = of_int m + 1 / 2" by simp
    then have "?n = m" by (simp add: floor_unique)
    with y up(2) show ?thesis by (simp add: roundHalfEven_def Let_def)
  next
    case down
    then have y: "y = of_int (m - 1) + 1 / 2" by simp
    then have "?n = m - 1" by (simp add: floor_unique)
    with y down(2) show ?thesis by (simp add: roundHalfEven_def Let_def)
  qed
qed

lemma roundHalfEven_le: "y \<le> of_int n \<Longrightarrow> roundHalfEven y \<le> n"
proof (cases "y = of_int n")
  case True
  then show ?thesis by simp
next
  case False
  assume "y \<le> of_int n"
  with False have "y < of_int n" by simp
  then have "\<lfloor>y\<rfloor> < n" by (simp add: floor_less_iff)
  then show ?thesis using roundHalfEven_cases [of y] by auto
qed

lemma pow2_less_maxDouble: "k \<le> 1023 \<Longrightarrow> pow2 k \<le> maxDouble"
proof -
  assume "k \<le> 1023"
  then have "pow2 k \<le> pow2 1023" by simp
  also have "\<dots> = 2 ^ 52 * 2 ^ 971" by (simp add: pow2_def flip: power_add)
  also have "\<dots> \<le> maxDouble" unfolding maxDouble_def by (intro mult_right_mono) simp_all
  finally show ?thesis .
qed

lemma fl_normal:
  assumes "pow2 k \<le> \<bar>x\<bar>" and "\<bar>x\<bar> < pow2 (k + 1)" and "- 1022 \<le> k" and "k \<le> 1022"
  shows "fl x = Num (sgn x * (of_int (roundHalfEven (\<bar>x\<bar> / pow2 (k - 52))) * pow2 (k - 52)))"
proof -
  let ?m = "roundHalfEven (\<bar>x\<bar> / pow2 (k - 52))"
  have x0: "x \<noteq> 0"
  proof
    assume "x = 0"
    with assms(1) have "pow2 k \<le> 0" by simp
    with pow2_pos [of k] show False by linarith
  qed
  have fk: "floorLog2 \<bar>x\<bar> = k" using assms(1,2) by (rule floorLog2_unique)
  have e: "max (floorLog2 \<bar>x\<bar> - 52) (- 1074) = k - 52" using assms(3) by (simp add: fk)
  have "pow2 52 = pow2 k / pow2 (k - 52)" by (simp add: pow2_diff [symmetric])
  also have "\<dots> \<le> \<bar>x\<bar> / pow2 (k - 52)"
    by (rule divide_right_mono [OF assms(1)]) (simp add: less_imp_le)
  finally have "pow2 52 \<le> \<bar>x\<bar> / pow2 (k - 52)" .
  then have "of_int (2 ^ 52) \<le> \<bar>x\<bar> / pow2 (k - 52)" by (simp add: pow2_def)
  from roundHalfEven_ge [OF this] have lo: "2 ^ 52 \<le> ?m" .
  have "\<bar>x\<bar> / pow2 (k - 52) \<le> pow2 (k + 1) / pow2 (k - 52)"
    by (rule divide_right_mono) (use assms(2) in \<open>simp_all add: less_imp_le\<close>)
  also have "\<dots> = pow2 53" by (simp add: pow2_diff [symmetric])
  finally have "\<bar>x\<bar> / pow2 (k - 52) \<le> pow2 53" .
  then have "\<bar>x\<bar> / pow2 (k - 52) \<le> of_int (2 ^ 53)" by (simp add: pow2_def)
  from roundHalfEven_le [OF this] have hi: "?m \<le> 2 ^ 53" .
  have "of_int ?m * pow2 (k - 52) \<le> of_int (2 ^ 53) * pow2 (k - 52)"
    using hi by (intro mult_right_mono) (simp_all add: less_imp_le)
  also have "\<dots> = pow2 53 * pow2 (k - 52)" by (simp add: pow2_def)
  also have "\<dots> = pow2 (53 + (k - 52))" by (simp only: pow2_add)
  also have "\<dots> = pow2 (k + 1)" by (simp add: algebra_simps)
  also have "\<dots> \<le> maxDouble" using assms(4) by (intro pow2_less_maxDouble) simp
  finally have v: "\<not> maxDouble < of_int ?m * pow2 (k - 52)" by simp
  have m0: "?m \<noteq> 0" using lo by auto
  show ?thesis
    using x0 e v m0 by (cases "x < 0") (simp_all add: fl_def Let_def sgn_if)
qed

lemma fl_eqI:
  assumes "pow2 k \<le> \<bar>x\<bar>" and "\<bar>x\<bar> < pow2 (k + 1)" and "- 1022 \<le> k" and "k \<le> 1022"
    and "\<bar>\<bar>x\<bar> / pow2 (k - 52) - of_int m\<bar> < 1 / 2
         \<or> (\<bar>\<bar>x\<bar> / pow2 (k - 52) - of_int m\<bar> = 1 / 2 \<and> even m)"
  shows "fl x = Num (sgn x * (of_int m * pow2 (k - 52)))"
  using fl_normal [OF assms(1-4)] roundHalfEven_eqI [OF assms(5)] by simp

lemma fl_zero: "fl 0 = Num 0"
  by (simp add: fl_def)

lemma fl_of_int_exact:
  assumes "\<bar>a\<bar> < 2 ^ 53"
  shows "fl (of_int a) = Num (of_int a)"
proof (cases "a = 0")
  case True
  then show ?thesis by (simp add: fl_def)
next
  case False
  let ?x = "of_int a :: rat"
  let ?k = "floorLog2 \<bar>?x\<bar>"
  let ?m = "\<bar>a\<bar> * 2 ^ nat (52 - ?k)"
  from False have pos: "0 < \<bar>?x\<bar>" by simp
  from floorLog2_bounds [OF pos]
  have b: "pow2 ?k \<le> \<bar>?x\<bar>" "\<bar>?x\<bar> < pow2 (?k + 1)" by simp_all
  from False have "1 \<le> \<bar>a\<bar>" by linarith
  then have "(1::rat) \<le> \<bar>?x\<bar>" by (metis of_int_1 of_int_abs of_int_le_iff)
  with b(2) have "pow2 0 < pow2 (?k + 1)" by (simp add: pow2_def)
  then have k0: "0 \<le> ?k" by simp
  have "\<bar>?x\<bar> < of_int (2 ^ 53)" using assms by (metis of_int_abs of_int_less_iff)
  then have "\<bar>?x\<bar> < pow2 53" by (simp add: pow2_def)
  with b(1) have "pow2 ?k < pow2 53" by linarith
  then have k53: "?k < 53" by (simp only: pow2_less_iff)
  have "\<bar>?x\<bar> / pow2 (?k - 52) = \<bar>?x\<bar> * pow2 (52 - ?k)"
    using pow2_diff [of 0 "?k - 52"] by (simp add: pow2_def [of 0] algebra_simps)
  also have "\<dots> = of_int ?m" using k53 by (simp add: pow2_def)
  finally have m: "\<bar>?x\<bar> / pow2 (?k - 52) = of_int ?m" .
  have r: "fl ?x = Num (sgn ?x * (of_int ?m * pow2 (?k - 52)))"
    by (rule fl_eqI [OF b]) (use k0 k53 m in simp_all)
  have ne: "pow2 (?k - 52) \<noteq> 0" using pow2_pos [of "?k - 52"] by linarith
  have "of_int ?m * pow2 (?k - 52) = \<bar>?x\<bar> / pow2 (?k - 52) * pow2 (?k - 52)"
    by (simp only: m)
  also have "\<dots> = \<bar>?x\<bar>" using ne by simp
  finally have eq: "of_int ?m * pow2 (?k - 52) = \<bar>?x\<bar>" .
  show ?thesis by (simp only: r eq mult_sgn_abs)
qed

lemma numberOfInt_exact: "\<bar>a\<bar> < 2 ^ 53 \<Longrightarrow> numberOfInt a = Num (of_int a)"
  unfolding numberOfInt_def by (rule fl_of_int_exact)

lemma Math_round_eqI:
  assumes "of_int n \<le> x + 1 / 2" and "x + 1 / 2 < of_int n + 1" and "n \<noteq> 0 \<or> 0 \<le> x"
  shows "Math_round (Num x) = Num (of_int n)"
proof -
  have f: "\<lfloor>x + 1 / 2\<rfloor> = n" using assms(1,2) by (rule floor_unique)
  have "\<not> (x < 0 \<and> - (1 / 2) \<le> x)"
  proof
    assume a: "x < 0 \<and> - (1 / 2) \<le> x"
    then have "of_int 0 \<le> x + 1 / 2" "x + 1 / 2 < of_int 0 + 1" by simp_all
    then have "\<lfloor>x + 1 / 2\<rfloor> = 0" by (rule floor_unique)
    with f assms(3) a show False by simp
  qed
  then show ?thesis by (simp add: Math_round_def f)
qed

text \<open>
  Two well-known values: \<open>0.1 + 0.2\<close> is \<open>0.30000000000000004\<close>, not the number written
  \<open>0.3\<close>.
\<close>

lemma fl_01: "fl (1 / 10) = Num (3602879701896397 / 36028797018963968)"
  using fl_eqI [of "- 4" "1 / 10" 7205759403792794]
  by (simp add: pow2_def)

lemma fl_02: "fl (1 / 5) = Num (3602879701896397 / 18014398509481984)"
  using fl_eqI [of "- 3" "1 / 5" 7205759403792794]
  by (simp add: pow2_def)

lemma fl_03: "fl (3 / 10) = Num (5404319552844595 / 18014398509481984)"
  using fl_eqI [of "- 2" "3 / 10" 5404319552844595]
  by (simp add: pow2_def)

lemma fl_01_plus_02: "fl (10808639105689191 / 36028797018963968) = Num (1351079888211149 / 4503599627370496)"
  using fl_eqI [of "- 2" "10808639105689191 / 36028797018963968" 5404319552844596]
  by (simp add: pow2_def)

lemma number_example:
  "addNumber (fl (1 / 10)) (fl (1 / 5)) = Num (1351079888211149 / 4503599627370496)
   \<and> fl (3 / 10) = Num (5404319552844595 / 18014398509481984)"
  by (simp add: fl_01 fl_02 fl_03 fl_01_plus_02 addNumber_def isInfinite_def valueOf_def)

section \<open>Creating an expense\<close>

lemma createItems_Cons:
  assumes "itemCreateError env a = None"
  shows "snd (createItems env u e (a # its) db)
           = snd (createItems env u e its
                   (db \<lparr> expenseItems := expenseItems db @
                          [\<lparr> itemExpenseId = expenseId e, itemData = a,
                             itemCreatedBy = remoteUserId u \<rparr>] \<rparr>))"
    and "fst (createItems env u e its
                   (db \<lparr> expenseItems := expenseItems db @
                          [\<lparr> itemExpenseId = expenseId e, itemData = a,
                             itemCreatedBy = remoteUserId u \<rparr>] \<rparr>)) = Inl err
         \<Longrightarrow> fst (createItems env u e (a # its) db) = Inl err"
  using assms by (auto simp: Let_def split: prod.splits sum.splits)

lemma createAttachedFiles_Cons:
  assumes "fileCreateError env a = None"
  shows "snd (createAttachedFiles env u e (a # fs) db)
           = snd (createAttachedFiles env u e fs
                   (db \<lparr> expenseAttachedFiles := expenseAttachedFiles db @
                          [\<lparr> fileExpenseId = expenseId e, fileData = a,
                             fileCreatedBy = remoteUserId u \<rparr>] \<rparr>))"
    and "fst (createAttachedFiles env u e fs
                   (db \<lparr> expenseAttachedFiles := expenseAttachedFiles db @
                          [\<lparr> fileExpenseId = expenseId e, fileData = a,
                             fileCreatedBy = remoteUserId u \<rparr>] \<rparr>)) = Inl err
         \<Longrightarrow> fst (createAttachedFiles env u e (a # fs) db) = Inl err"
  using assms by (auto simp: Let_def split: prod.splits sum.splits)

lemma createItems_fails:
  "\<exists>i \<in> set its. itemCreateError env i \<noteq> None \<Longrightarrow> \<exists>err. fst (createItems env u e its db) = Inl err"
proof (induction its arbitrary: db)
  case Nil
  then show ?case by simp
next
  case (Cons a its)
  show ?case
  proof (cases "itemCreateError env a")
    case (Some err)
    then show ?thesis by simp
  next
    case None
    with Cons.prems have "\<exists>i \<in> set its. itemCreateError env i \<noteq> None" by auto
    from Cons.IH [OF this] createItems_Cons(2) [OF None] show ?thesis by blast
  qed
qed

lemma createAttachedFiles_fails:
  "\<exists>f \<in> set fs. fileCreateError env f \<noteq> None \<Longrightarrow>
     \<exists>err. fst (createAttachedFiles env u e fs db) = Inl err"
proof (induction fs arbitrary: db)
  case Nil
  then show ?case by simp
next
  case (Cons a fs)
  show ?case
  proof (cases "fileCreateError env a")
    case (Some err)
    then show ?thesis by simp
  next
    case None
    with Cons.prems have "\<exists>f \<in> set fs. fileCreateError env f \<noteq> None" by auto
    from Cons.IH [OF this] createAttachedFiles_Cons(2) [OF None] show ?thesis by blast
  qed
qed

lemma createItems_edb:
  "edb (snd (createItems env u e its db)) = edb db
   \<and> expenseAttachedFiles (snd (createItems env u e its db)) = expenseAttachedFiles db
   \<and> payeeTables (snd (createItems env u e its db)) = payeeTables db"
proof (induction its arbitrary: db)
  case Nil
  then show ?case by simp
next
  case (Cons a its)
  show ?case
  proof (cases "itemCreateError env a")
    case (Some err)
    then show ?thesis by simp
  next
    case None
    show ?thesis unfolding createItems_Cons(1) [OF None] using Cons.IH by simp
  qed
qed

lemma createAttachedFiles_edb:
  "edb (snd (createAttachedFiles env u e fs db)) = edb db
   \<and> expenseItems (snd (createAttachedFiles env u e fs db)) = expenseItems db
   \<and> payeeTables (snd (createAttachedFiles env u e fs db)) = payeeTables db"
proof (induction fs arbitrary: db)
  case Nil
  then show ?case by simp
next
  case (Cons a fs)
  show ?case
  proof (cases "fileCreateError env a")
    case (Some err)
    then show ?thesis by simp
  next
    case None
    show ?thesis unfolding createAttachedFiles_Cons(1) [OF None] using Cons.IH by simp
  qed
qed

lemma createItems_success:
  "fst (createItems env u e its db) = Inr r \<Longrightarrow>
     expenseItems (snd (createItems env u e its db))
       = expenseItems db @ map (\<lambda>a. \<lparr> itemExpenseId = expenseId e, itemData = a,
                                       itemCreatedBy = remoteUserId u \<rparr>) its"
proof (induction its arbitrary: db r)
  case Nil
  then show ?case by simp
next
  case (Cons a its)
  show ?case
  proof (cases "itemCreateError env a")
    case (Some err)
    with Cons.prems show ?thesis by simp
  next
    case None
    let ?db1 = "db \<lparr> expenseItems := expenseItems db @
                   [\<lparr> itemExpenseId = expenseId e, itemData = a,
                      itemCreatedBy = remoteUserId u \<rparr>] \<rparr>"
    from Cons.prems None obtain r' where "fst (createItems env u e its ?db1) = Inr r'"
      by (cases "fst (createItems env u e its ?db1)")
         (auto simp: Let_def split: prod.splits sum.splits)
    from Cons.IH [OF this] show ?thesis
      unfolding createItems_Cons(1) [OF None] by simp
  qed
qed

lemma createAttachedFiles_success:
  "fst (createAttachedFiles env u e fs db) = Inr r \<Longrightarrow>
     expenseAttachedFiles (snd (createAttachedFiles env u e fs db))
       = expenseAttachedFiles db @ map (\<lambda>f. \<lparr> fileExpenseId = expenseId e, fileData = f,
                                               fileCreatedBy = remoteUserId u \<rparr>) fs"
proof (induction fs arbitrary: db r)
  case Nil
  then show ?case by simp
next
  case (Cons a fs)
  show ?case
  proof (cases "fileCreateError env a")
    case (Some err)
    with Cons.prems show ?thesis by simp
  next
    case None
    let ?db1 = "db \<lparr> expenseAttachedFiles := expenseAttachedFiles db @
                   [\<lparr> fileExpenseId = expenseId e, fileData = a,
                      fileCreatedBy = remoteUserId u \<rparr>] \<rparr>"
    from Cons.prems None obtain r' where "fst (createAttachedFiles env u e fs ?db1) = Inr r'"
      by (cases "fst (createAttachedFiles env u e fs ?db1)")
         (auto simp: Let_def split: prod.splits sum.splits)
    from Cons.IH [OF this] show ?thesis
      unfolding createAttachedFiles_Cons(1) [OF None] by simp
  qed
qed

lemma createExpenseRows_no_amount:
  "integerColumn (computeTotalAmountForExpense its taxes) = None \<Longrightarrow>
     createExpenseRows env u expenseData c cur payee its taxes db
       = (Inl (amountColumnError env (computeTotalAmountForExpense its taxes)), db)"
  by (simp add: createExpenseRows_def)

lemma createExpenseRows_unfold:
  "integerColumn (computeTotalAmountForExpense its taxes) = Some cents \<Longrightarrow>
   createExpenseRows env u expenseData c cur payee its taxes db =
     (let createdExpense =
            \<lparr> expenseId = nextExpenseId env (edb db), status = PENDING,
              UserId = remoteUserId u, CollectiveId = collectiveId c,
              lastEditedById = Some (remoteUserId u),
              amount = cents,
              currency = cur, feesPayer = defaultFeesPayer env,
              legacyPayoutMethod = legacyPayoutMethodType payee,
              isLocked = False, collective = None \<rparr>;
          db1 = db \<lparr> edb := (edb db) \<lparr> expenses := expenses (edb db) @ [createdExpense] \<rparr> \<rparr>;
          r1 = createItems env u createdExpense its db1;
          r2 = createAttachedFiles env u createdExpense
                 (orEmpty (dataAttachedFiles expenseData)) (snd r1)
      in case expenseCreateError env createdExpense of
           Some err \<Rightarrow> (Inl err, db)
         | None \<Rightarrow>
            (case fst r1 of
               Inl err \<Rightarrow> (Inl err, snd r1)
             | Inr x \<Rightarrow>
                (case fst r2 of
                   Inl err \<Rightarrow> (Inl err, snd r2)
                 | Inr y \<Rightarrow> (Inr createdExpense, snd r2))))"
  by (auto simp: createExpenseRows_def Let_def case_prod_beta split: option.splits sum.splits)

lemma createExpenseRows_fails:
  assumes "(\<exists>i \<in> set its. itemCreateError env i \<noteq> None)
           \<or> (\<exists>f \<in> set (orEmpty (dataAttachedFiles expenseData)). fileCreateError env f \<noteq> None)"
  shows "\<exists>err. fst (createExpenseRows env u expenseData c cur payee its taxes db) = Inl err"
proof (cases "integerColumn (computeTotalAmountForExpense its taxes)")
  case None
  then show ?thesis by (simp add: createExpenseRows_no_amount)
next
  case (Some cents)
  let ?e = "\<lparr> expenseId = nextExpenseId env (edb db), status = PENDING,
              UserId = remoteUserId u, CollectiveId = collectiveId c,
              lastEditedById = Some (remoteUserId u),
              amount = cents,
              currency = cur, feesPayer = defaultFeesPayer env,
              legacyPayoutMethod = legacyPayoutMethodType payee,
              isLocked = False, collective = None \<rparr>"
  let ?db1 = "db \<lparr> edb := (edb db) \<lparr> expenses := expenses (edb db) @ [?e] \<rparr> \<rparr>"
  let ?r1 = "createItems env u ?e its ?db1"
  let ?r2 = "createAttachedFiles env u ?e (orEmpty (dataAttachedFiles expenseData)) (snd ?r1)"
  have "(\<exists>err. fst ?r1 = Inl err) \<or> (\<exists>err. fst ?r2 = Inl err)"
    using assms createItems_fails [of its env u ?e ?db1]
          createAttachedFiles_fails [of "orEmpty (dataAttachedFiles expenseData)" env u ?e "snd ?r1"]
    by blast
  then show ?thesis
    by (auto simp: createExpenseRows_unfold [OF Some] Let_def split: option.splits sum.splits)
qed

lemma createExpenseRows_success:
  assumes "createExpenseRows env u expenseData c cur payee its taxes db = (Inr e, db')"
  shows "status e = PENDING
         \<and> integerColumn (computeTotalAmountForExpense its taxes) = Some (amount e)
         \<and> expenses (edb db') = expenses (edb db) @ [e]
         \<and> activities (edb db') = activities (edb db)
         \<and> expenseItems db'
             = expenseItems db @ map (\<lambda>a. \<lparr> itemExpenseId = expenseId e, itemData = a,
                                             itemCreatedBy = remoteUserId u \<rparr>) its
         \<and> expenseAttachedFiles db'
             = expenseAttachedFiles db
                 @ map (\<lambda>f. \<lparr> fileExpenseId = expenseId e, fileData = f,
                              fileCreatedBy = remoteUserId u \<rparr>)
                     (orEmpty (dataAttachedFiles expenseData))
         \<and> payeeTables db' = payeeTables db"
proof (cases "integerColumn (computeTotalAmountForExpense its taxes)")
  case None
  with assms show ?thesis by (simp add: createExpenseRows_no_amount)
next
  case (Some cents)
  let ?e = "\<lparr> expenseId = nextExpenseId env (edb db), status = PENDING,
              UserId = remoteUserId u, CollectiveId = collectiveId c,
              lastEditedById = Some (remoteUserId u),
              amount = cents,
              currency = cur, feesPayer = defaultFeesPayer env,
              legacyPayoutMethod = legacyPayoutMethodType payee,
              isLocked = False, collective = None \<rparr>"
  let ?db1 = "db \<lparr> edb := (edb db) \<lparr> expenses := expenses (edb db) @ [?e] \<rparr> \<rparr>"
  let ?fs = "orEmpty (dataAttachedFiles expenseData)"
  let ?r1 = "createItems env u ?e its ?db1"
  let ?r2 = "createAttachedFiles env u ?e ?fs (snd ?r1)"
  from assms have e: "e = ?e" and d: "db' = snd ?r2"
    and ok: "\<exists>x. fst ?r1 = Inr x" "\<exists>y. fst ?r2 = Inr y"
    by (auto simp: createExpenseRows_unfold [OF Some] Let_def split: option.splits sum.splits)
  from ok obtain x y where x: "fst ?r1 = Inr x" and y: "fst ?r2 = Inr y" by blast
  have a: "edb (snd ?r2) = edb ?db1" "payeeTables (snd ?r2) = payeeTables db"
    by (simp_all add: createAttachedFiles_edb createItems_edb)
  have i: "expenseItems (snd ?r2) = expenseItems db
             @ map (\<lambda>a. \<lparr> itemExpenseId = expenseId ?e, itemData = a,
                            itemCreatedBy = remoteUserId u \<rparr>) its"
    using createItems_success [OF x] by (simp add: createAttachedFiles_edb)
  have f: "expenseAttachedFiles (snd ?r2) = expenseAttachedFiles db
             @ map (\<lambda>f. \<lparr> fileExpenseId = expenseId ?e, fileData = f,
                            fileCreatedBy = remoteUserId u \<rparr>) ?fs"
    using createAttachedFiles_success [OF y] by (simp add: createItems_edb)
  show ?thesis unfolding e d using a i f Some by simp
qed

lemma sequelize_transaction_rollback:
  "fst (sequelize_transaction callback db) = Inl err \<Longrightarrow> snd (sequelize_transaction callback db) = db"
  by (auto simp: sequelize_transaction_def split: prod.splits sum.splits)

lemma sequelize_transaction_fails:
  "fst (callback db) = Inl err \<Longrightarrow> fst (sequelize_transaction callback db) = Inl err"
  by (auto simp: sequelize_transaction_def split: prod.splits sum.splits)

lemma sequelize_transaction_commit:
  "sequelize_transaction callback db = (Inr v, db') \<Longrightarrow> callback db = (Inr v, db')"
  by (auto simp: sequelize_transaction_def split: prod.splits sum.splits)

lemma integerColumn_truthy:
  "truthy n \<Longrightarrow> integerColumn n = Some cents \<Longrightarrow> n = Num (of_int cents)"
  by (cases n) (auto simp: integerColumn_def truthy_def split: if_splits)

lemma checkExpenseItems_None:
  assumes "checkExpenseItems expenseData items taxes = None"
  shows "\<exists>its. items = Some its \<and> its \<noteq> [] \<and> length its \<le> 300
            \<and> truthy (computeTotalAmountForExpense its taxes)"
  using assms by (auto simp: checkExpenseItems_def split: option.splits if_splits)

lemma createExpenseChecks_pass:
  assumes "createExpenseChecks env user expenseData = Inr (u, c, cur)"
  shows "user = Some u
         \<and> checkExpenseItems expenseData (dataItems expenseData) (orEmpty (dataTax expenseData)) = None
         \<and> length (orEmpty (dataAttachedFiles expenseData)) \<le> 15"
  using assms
  by (simp add: createExpenseChecks_def Let_def split: option.splits if_splits)

text \<open>
  The five ways in which \<open>createExpense\<close> ends: a check fails; the payee stage fails;
  the transaction fails and is rolled back; the transaction is committed and the
  creation of the activity fails; everything succeeds.
\<close>

lemma createExpense_cases:
  obtains
    (checks) err where
      "createExpenseChecks env user expenseData = Inl err"
      "createExpense env user expenseData db = (Inl err, db)"
  | (payee) u c cur err p1 where
      "createExpenseChecks env user expenseData = Inr (u, c, cur)"
      "preparePayee env u expenseData c (payeeTables db) = (Inl err, p1)"
      "createExpense env user expenseData db = (Inl err, db \<lparr> payeeTables := p1 \<rparr>)"
  | (rolled_back) u c cur payee p1 err where
      "createExpenseChecks env user expenseData = Inr (u, c, cur)"
      "preparePayee env u expenseData c (payeeTables db) = (Inr payee, p1)"
      "fst (createExpenseRows env u expenseData c cur payee (orEmpty (dataItems expenseData))
              (orEmpty (dataTax expenseData)) (db \<lparr> payeeTables := p1 \<rparr>)) = Inl err"
      "createExpense env user expenseData db = (Inl err, db \<lparr> payeeTables := p1 \<rparr>)"
  | (no_activity) u c cur payee p1 e db1 err where
      "createExpenseChecks env user expenseData = Inr (u, c, cur)"
      "preparePayee env u expenseData c (payeeTables db) = (Inr payee, p1)"
      "createExpenseRows env u expenseData c cur payee (orEmpty (dataItems expenseData))
         (orEmpty (dataTax expenseData)) (db \<lparr> payeeTables := p1 \<rparr>) = (Inr e, db1)"
      "activityCreateError env (e \<lparr> collective := Some c \<rparr>) = Some err"
      "createExpense env user expenseData db = (Inl err, db1)"
  | (created) u c cur payee p1 e db1 where
      "createExpenseChecks env user expenseData = Inr (u, c, cur)"
      "preparePayee env u expenseData c (payeeTables db) = (Inr payee, p1)"
      "createExpenseRows env u expenseData c cur payee (orEmpty (dataItems expenseData))
         (orEmpty (dataTax expenseData)) (db \<lparr> payeeTables := p1 \<rparr>) = (Inr e, db1)"
      "activityCreateError env (e \<lparr> collective := Some c \<rparr>) = None"
      "createExpense env user expenseData db
         = (Inr (e \<lparr> collective := Some c \<rparr>),
            db1 \<lparr> edb := snd (createActivity COLLECTIVE_EXPENSE_CREATED
                                 (e \<lparr> collective := Some c \<rparr>) u (edb db1)) \<rparr>)"
proof (cases "createExpenseChecks env user expenseData")
  case (Inl err)
  then have "createExpense env user expenseData db = (Inl err, db)"
    by (simp add: createExpense_def)
  with Inl show ?thesis by (rule checks)
next
  case (Inr t)
  obtain u c cur where t: "t = (u, c, cur)" by (cases t) auto
  note chk = Inr [unfolded t]
  obtain pr p1 where pp: "preparePayee env u expenseData c (payeeTables db) = (pr, p1)"
    by (cases "preparePayee env u expenseData c (payeeTables db)")
  show ?thesis
  proof (cases pr)
    case (Inl err)
    have "createExpense env user expenseData db = (Inl err, db \<lparr> payeeTables := p1 \<rparr>)"
      using chk pp Inl by (simp add: createExpense_def)
    with chk pp [unfolded Inl] show ?thesis by (rule payee)
  next
    case pay: (Inr payee)
    let ?db0 = "db \<lparr> payeeTables := p1 \<rparr>"
    let ?cb = "createExpenseRows env u expenseData c cur payee
                 (orEmpty (dataItems expenseData)) (orEmpty (dataTax expenseData))"
    obtain rr db1 where rows: "?cb ?db0 = (rr, db1)" by (cases "?cb ?db0")
    show ?thesis
    proof (cases rr)
      case (Inl err)
      have f: "fst (?cb ?db0) = Inl err" using rows Inl by simp
      have "createExpense env user expenseData db = (Inl err, ?db0)"
        using chk pp pay rows Inl
        by (simp add: createExpense_def sequelize_transaction_def)
      with chk pp [unfolded pay] f show ?thesis by (rule rolled_back)
    next
      case (Inr e)
      note rows' = rows [unfolded Inr]
      show ?thesis
      proof (cases "activityCreateError env (e \<lparr> collective := Some c \<rparr>)")
        case (Some err)
        have "createExpense env user expenseData db = (Inl err, db1)"
          using chk pp pay rows' Some
          by (simp add: createExpense_def sequelize_transaction_def Let_def)
        with chk pp [unfolded pay] rows' Some show ?thesis by (rule no_activity)
      next
        case None
        have "createExpense env user expenseData db
                = (Inr (e \<lparr> collective := Some c \<rparr>),
                   db1 \<lparr> edb := snd (createActivity COLLECTIVE_EXPENSE_CREATED
                                        (e \<lparr> collective := Some c \<rparr>) u (edb db1)) \<rparr>)"
          using chk pp pay rows' None
          by (simp add: createExpense_def sequelize_transaction_def Let_def case_prod_beta)
        with chk pp [unfolded pay] rows' None show ?thesis by (rule created)
      qed
    qed
  qed
qed

lemma createExpense_success:
  assumes "fst (createExpense env user expenseData db) = Inr e"
  shows "user \<noteq> None
         \<and> (\<exists>its. dataItems expenseData = Some its \<and> its \<noteq> [] \<and> length its \<le> 300
               \<and> truthy (computeTotalAmountForExpense its (orEmpty (dataTax expenseData)))
               \<and> computeTotalAmountForExpense its (orEmpty (dataTax expenseData))
                   = Num (of_int (amount e)))
         \<and> length (orEmpty (dataAttachedFiles expenseData)) \<le> 15
         \<and> status e = PENDING
         \<and> (\<exists>row. expenses (edb (snd (createExpense env user expenseData db)))
                     = expenses (edb db) @ [row]
                   \<and> status row = PENDING \<and> amount row = amount e)"
proof (cases rule: createExpense_cases [of env user expenseData db])
  case (checks err)
  with assms show ?thesis by simp
next
  case (payee u c cur err p1)
  with assms show ?thesis by simp
next
  case (rolled_back u c cur payee p1 err)
  with assms show ?thesis by simp
next
  case (no_activity u c cur payee p1 e0 db1 err)
  with assms show ?thesis by simp
next
  case (created u c cur payee p1 e0 db1)
  note chk = createExpenseChecks_pass [OF created(1)]
  from chk have "checkExpenseItems expenseData (dataItems expenseData)
                    (orEmpty (dataTax expenseData)) = None" by simp
  from checkExpenseItems_None [OF this]
  obtain its where its: "dataItems expenseData = Some its" "its \<noteq> []" "length its \<le> 300"
         "truthy (computeTotalAmountForExpense its (orEmpty (dataTax expenseData)))"
    by blast
  have oe: "orEmpty (dataItems expenseData) = its" using its(1) by (simp add: orEmpty_def)
  note r = createExpenseRows_success [OF created(3), unfolded oe]
  have am: "computeTotalAmountForExpense its (orEmpty (dataTax expenseData))
              = Num (of_int (amount e0))"
    using integerColumn_truthy [OF its(4)] r by simp
  have e: "e = e0 \<lparr> collective := Some c \<rparr>" using assms created(5) by simp
  have ex: "expenses (edb (snd (createExpense env user expenseData db)))
              = expenses (edb db) @ [e0]"
    using r by (simp add: created(5) createActivity_def Let_def)
  show ?thesis using chk its am r e ex by simp
qed

text \<open>
  C6. \<open>createExpense\<close> throws \<open>Unauthorized\<close> when no user is logged in. Once the
  checks placed before the items are passed (a user who may use expenses, a collective
  that is found and open to the user, valid taxes), it throws \<open>ValidationFailed\<close> when
  the item list is missing or empty (\<open>Your expense needs to have at least one item\<close>),
  when it has more than 300 items, when the rounded total of items plus taxes is 0
  (or \<open>-0\<close> or \<open>NaN\<close>, which \<open>!sumItems\<close> treats alike), and, the items being valid, when
  more than 15 files are attached. In each of these cases nothing is written. On success
  the created expense has status PENDING and its amount is the rounded sum of the item
  amounts plus the per-item taxes, as \<open>computeTotalAmountForExpense\<close> computes it in
  binary64 arithmetic; so no call succeeds without a user, with a missing or empty item
  list, with more than 300 items, with a total of 0 or with more than 15 files.
\<close>

theorem createExpense_validation:
  "createExpense env None expenseData db
     = (Inl (Unauthorized ''You need to be logged in to create an expense''), db)
   \<and> (user = Some u \<and> canUseFeature env u
        \<and> dataCollectiveId expenseData = Some cid \<and> cid \<noteq> 0 \<and> findCollective env cid = Some c
        \<and> \<not> (disablePublicExpenseSubmission expenseData \<and> \<not> isMember env u c
               \<and> \<not> isAdminOfCollectiveOrHost env u c \<and> \<not> isRoot env u)
        \<and> checkTaxes (accountHasVAT env c) (accountHasGST env (collectiveHost env c))
             (dataType expenseData) (orEmpty (dataTax expenseData)) = None
      \<longrightarrow>
        (dataItems expenseData = None \<or> dataItems expenseData = Some [] \<longrightarrow>
           createExpense env user expenseData db
             = (Inl (ValidationFailed ''Your expense needs to have at least one item''), db))
        \<and> (dataItems expenseData = Some its \<and> length its > 300 \<longrightarrow>
           createExpense env user expenseData db
             = (Inl (ValidationFailed ''Expenses cannot have more than 300 items''), db))
        \<and> (dataItems expenseData = Some its \<and> its \<noteq> [] \<and> length its \<le> 300
             \<and> (computeTotalAmountForExpense its (orEmpty (dataTax expenseData)) = Num 0
                  \<or> computeTotalAmountForExpense its (orEmpty (dataTax expenseData)) = NegZero
                  \<or> computeTotalAmountForExpense its (orEmpty (dataTax expenseData)) = NaN) \<longrightarrow>
           createExpense env user expenseData db
             = (Inl (ValidationFailed ''The sum of all items must be above 0''), db))
        \<and> (checkExpenseItems expenseData (dataItems expenseData)
               (orEmpty (dataTax expenseData)) = None
             \<and> length (orEmpty (dataAttachedFiles expenseData)) > 15 \<longrightarrow>
           createExpense env user expenseData db
             = (Inl (ValidationFailed ''The number of files that you can attach to an expense is limited to 15''), db)))
   \<and> (fst (createExpense env user expenseData db) = Inr e \<longrightarrow>
        user \<noteq> None
        \<and> (\<exists>its. dataItems expenseData = Some its \<and> its \<noteq> [] \<and> length its \<le> 300
              \<and> truthy (computeTotalAmountForExpense its (orEmpty (dataTax expenseData)))
              \<and> computeTotalAmountForExpense its (orEmpty (dataTax expenseData))
                  = Num (of_int (amount e)))
        \<and> length (orEmpty (dataAttachedFiles expenseData)) \<le> 15
        \<and> status e = PENDING
        \<and> (\<exists>row. expenses (edb (snd (createExpense env user expenseData db)))
                    = expenses (edb db) @ [row]
                  \<and> status row = PENDING \<and> amount row = amount e))"
proof (intro conjI impI)
  show "createExpense env None expenseData db
     = (Inl (Unauthorized ''You need to be logged in to create an expense''), db)"
    by (simp add: createExpense_def createExpenseChecks_def)
next
  assume r: "user = Some u \<and> canUseFeature env u
        \<and> dataCollectiveId expenseData = Some cid \<and> cid \<noteq> 0 \<and> findCollective env cid = Some c
        \<and> \<not> (disablePublicExpenseSubmission expenseData \<and> \<not> isMember env u c
               \<and> \<not> isAdminOfCollectiveOrHost env u c \<and> \<not> isRoot env u)
        \<and> checkTaxes (accountHasVAT env c) (accountHasGST env (collectiveHost env c))
             (dataType expenseData) (orEmpty (dataTax expenseData)) = None"
  have reach: "createExpense env user expenseData db = (Inl err, db)"
    if "checkExpenseItems expenseData (dataItems expenseData) (orEmpty (dataTax expenseData)) = Some err"
    for err
    using r that by (auto simp: createExpense_def createExpenseChecks_def Let_def)
  show "createExpense env user expenseData db
          = (Inl (ValidationFailed ''Your expense needs to have at least one item''), db)"
    if "dataItems expenseData = None \<or> dataItems expenseData = Some []"
    using that by (intro reach) (auto simp: checkExpenseItems_def)
  show "createExpense env user expenseData db
          = (Inl (ValidationFailed ''Expenses cannot have more than 300 items''), db)"
    if "dataItems expenseData = Some its \<and> length its > 300"
    using that by (intro reach) (auto simp: checkExpenseItems_def)
  show "createExpense env user expenseData db
          = (Inl (ValidationFailed ''The sum of all items must be above 0''), db)"
    if "dataItems expenseData = Some its \<and> its \<noteq> [] \<and> length its \<le> 300
          \<and> (computeTotalAmountForExpense its (orEmpty (dataTax expenseData)) = Num 0
               \<or> computeTotalAmountForExpense its (orEmpty (dataTax expenseData)) = NegZero
               \<or> computeTotalAmountForExpense its (orEmpty (dataTax expenseData)) = NaN)"
    using that by (intro reach) (auto simp: checkExpenseItems_def truthy_def)
  show "createExpense env user expenseData db
          = (Inl (ValidationFailed ''The number of files that you can attach to an expense is limited to 15''), db)"
    if "checkExpenseItems expenseData (dataItems expenseData)
               (orEmpty (dataTax expenseData)) = None
             \<and> length (orEmpty (dataAttachedFiles expenseData)) > 15"
    using r that by (auto simp: createExpense_def createExpenseChecks_def Let_def)
next
  assume ok: "fst (createExpense env user expenseData db) = Inr e"
  note s = createExpense_success [OF ok]
  show "user \<noteq> None" using s by blast
  show "\<exists>its. dataItems expenseData = Some its \<and> its \<noteq> [] \<and> length its \<le> 300
              \<and> truthy (computeTotalAmountForExpense its (orEmpty (dataTax expenseData)))
              \<and> computeTotalAmountForExpense its (orEmpty (dataTax expenseData))
                  = Num (of_int (amount e))"
    using s by blast
  show "length (orEmpty (dataAttachedFiles expenseData)) \<le> 15" using s by blast
  show "status e = PENDING" using s by blast
  show "\<exists>row. expenses (edb (snd (createExpense env user expenseData db)))
                    = expenses (edb db) @ [row]
                  \<and> status row = PENDING \<and> amount row = amount e"
    using s by blast
qed

text \<open>
  C7. \<open>createExpense\<close> creates the expense row, its items and its attached files inside
  one database transaction. If the creation of any item or attached file fails,
  \<open>createExpense\<close> throws and no expense row, no item, no attached file and no activity
  persist: these tables are the ones from before the call, and so is the whole state
  when the payee stage has written nothing (the location and the payout method of the
  payee are written before the transaction opens and are not part of it). In every
  case the three tables are either the ones from before the call or hold the new
  expense row together with all of its items and all of its attached files: a partial
  expense is never stored, also when the activity, which is created after the commit,
  is refused.
\<close>

theorem createExpense_atomic:
  "((\<exists>i \<in> set (orEmpty (dataItems expenseData)). itemCreateError env i \<noteq> None)
      \<or> (\<exists>f \<in> set (orEmpty (dataAttachedFiles expenseData)). fileCreateError env f \<noteq> None)
     \<longrightarrow> (\<exists>err. fst (createExpense env user expenseData db) = Inl err)
         \<and> edb (snd (createExpense env user expenseData db)) = edb db
         \<and> expenseItems (snd (createExpense env user expenseData db)) = expenseItems db
         \<and> expenseAttachedFiles (snd (createExpense env user expenseData db))
             = expenseAttachedFiles db
         \<and> ((\<forall>u c. snd (preparePayee env u expenseData c (payeeTables db)) = payeeTables db)
              \<longrightarrow> snd (createExpense env user expenseData db) = db))
   \<and> ((expenses (edb (snd (createExpense env user expenseData db))) = expenses (edb db)
        \<and> expenseItems (snd (createExpense env user expenseData db)) = expenseItems db
        \<and> expenseAttachedFiles (snd (createExpense env user expenseData db))
            = expenseAttachedFiles db)
       \<or> (\<exists>u row. user = Some u
             \<and> expenses (edb (snd (createExpense env user expenseData db)))
                 = expenses (edb db) @ [row]
             \<and> expenseItems (snd (createExpense env user expenseData db))
                 = expenseItems db
                     @ map (\<lambda>a. \<lparr> itemExpenseId = expenseId row, itemData = a,
                                  itemCreatedBy = remoteUserId u \<rparr>)
                         (orEmpty (dataItems expenseData))
             \<and> expenseAttachedFiles (snd (createExpense env user expenseData db))
                 = expenseAttachedFiles db
                     @ map (\<lambda>f. \<lparr> fileExpenseId = expenseId row, fileData = f,
                                  fileCreatedBy = remoteUserId u \<rparr>)
                         (orEmpty (dataAttachedFiles expenseData))))"
proof (rule conjI, rule impI)
  assume f: "(\<exists>i \<in> set (orEmpty (dataItems expenseData)). itemCreateError env i \<noteq> None)
      \<or> (\<exists>f \<in> set (orEmpty (dataAttachedFiles expenseData)). fileCreateError env f \<noteq> None)"
  show "(\<exists>err. fst (createExpense env user expenseData db) = Inl err)
         \<and> edb (snd (createExpense env user expenseData db)) = edb db
         \<and> expenseItems (snd (createExpense env user expenseData db)) = expenseItems db
         \<and> expenseAttachedFiles (snd (createExpense env user expenseData db))
             = expenseAttachedFiles db
         \<and> ((\<forall>u c. snd (preparePayee env u expenseData c (payeeTables db)) = payeeTables db)
              \<longrightarrow> snd (createExpense env user expenseData db) = db)"
  proof (cases rule: createExpense_cases [of env user expenseData db])
    case (checks err)
    then show ?thesis by simp
  next
    case (payee u c cur err p1)
    then have "snd (preparePayee env u expenseData c (payeeTables db)) = p1" by simp
    with payee(3) show ?thesis by auto
  next
    case (rolled_back u c cur payee p1 err)
    then have "snd (preparePayee env u expenseData c (payeeTables db)) = p1" by simp
    with rolled_back(4) show ?thesis by auto
  next
    case (no_activity u c cur payee p1 e db1 err)
    from createExpenseRows_fails [OF f, of u c cur payee "orEmpty (dataTax expenseData)"
                                    "db \<lparr> payeeTables := p1 \<rparr>"]
    show ?thesis using no_activity(3) by simp
  next
    case (created u c cur payee p1 e db1)
    from createExpenseRows_fails [OF f, of u c cur payee "orEmpty (dataTax expenseData)"
                                    "db \<lparr> payeeTables := p1 \<rparr>"]
    show ?thesis using created(3) by simp
  qed
next
  show "(expenses (edb (snd (createExpense env user expenseData db))) = expenses (edb db)
        \<and> expenseItems (snd (createExpense env user expenseData db)) = expenseItems db
        \<and> expenseAttachedFiles (snd (createExpense env user expenseData db))
            = expenseAttachedFiles db)
       \<or> (\<exists>u row. user = Some u
             \<and> expenses (edb (snd (createExpense env user expenseData db)))
                 = expenses (edb db) @ [row]
             \<and> expenseItems (snd (createExpense env user expenseData db))
                 = expenseItems db
                     @ map (\<lambda>a. \<lparr> itemExpenseId = expenseId row, itemData = a,
                                  itemCreatedBy = remoteUserId u \<rparr>)
                         (orEmpty (dataItems expenseData))
             \<and> expenseAttachedFiles (snd (createExpense env user expenseData db))
                 = expenseAttachedFiles db
                     @ map (\<lambda>f. \<lparr> fileExpenseId = expenseId row, fileData = f,
                                  fileCreatedBy = remoteUserId u \<rparr>)
                         (orEmpty (dataAttachedFiles expenseData)))"
  proof (cases rule: createExpense_cases [of env user expenseData db])
    case (checks err)
    then show ?thesis by simp
  next
    case (payee u c cur err p1)
    then show ?thesis by simp
  next
    case (rolled_back u c cur payee p1 err)
    then show ?thesis by simp
  next
    case (no_activity u c cur payee p1 e db1 err)
    note r = createExpenseRows_success [OF no_activity(3)]
    have uu: "user = Some u" using createExpenseChecks_pass [OF no_activity(1)] by simp
    have s: "snd (createExpense env user expenseData db) = db1" by (simp add: no_activity(5))
    show ?thesis unfolding s using r uu by (intro disjI2 exI [of _ u] exI [of _ e]) simp
  next
    case (created u c cur payee p1 e db1)
    note r = createExpenseRows_success [OF created(3)]
    have uu: "user = Some u" using createExpenseChecks_pass [OF created(1)] by simp
    have s: "expenses (edb (snd (createExpense env user expenseData db))) = expenses (edb db1)"
      "expenseItems (snd (createExpense env user expenseData db)) = expenseItems db1"
      "expenseAttachedFiles (snd (createExpense env user expenseData db))
         = expenseAttachedFiles db1"
      by (simp_all add: created(5) createActivity_def Let_def)
    show ?thesis unfolding s using r uu by (intro disjI2 exI [of _ u] exI [of _ e]) simp
  qed
qed

text \<open>
  The total of an invoice at 21% of VAT, step by step: the rate is the binary64 value of
  \<open>0.21\<close>; one item of 3.50 gives \<open>350 + 73.5 = 423.5\<close>, rounded to 424, while items of 0.01
  and 3.49 give \<open>1.21 + 422.29 = 423.49999999999994\<close>, rounded to 423.
\<close>

lemma fl_021: "fl (21 / 100) = Num (7566047373982433 / 36028797018963968)"
  using fl_eqI [of "- 3" "21 / 100" 7566047373982433]
  by (simp add: pow2_def)

lemma fl_021_exact: "fl (7566047373982433 / 36028797018963968) = Num (7566047373982433 / 36028797018963968)"
  using fl_eqI [of "- 3" "7566047373982433 / 36028797018963968" 7566047373982433]
  by (simp add: pow2_def)

lemma fl_1_plus_tax: "fl (43594844392946401 / 36028797018963968) = Num (1362338887279575 / 1125899906842624)"
  using fl_eqI [of 0 "43594844392946401 / 36028797018963968" 5449355549118300]
  by (simp add: pow2_def)

lemma fl_349_tax: "fl (2640550533519869117 / 36028797018963968) = Num (2578662630390497 / 35184372088832)"
  using fl_eqI [of 6 "2640550533519869117 / 36028797018963968" 5157325260780994]
  by (simp add: pow2_def)

lemma fl_349_plus_tax: "fl (14858008489392865 / 35184372088832) = Num (464312765293527 / 1099511627776)"
  using fl_eqI [of 8 "14858008489392865 / 35184372088832" 7429004244696432]
  by (simp add: pow2_def)

lemma fl_sum_1_349: "fl (476818610547851223 / 1125899906842624) = Num (7450290789810175 / 17592186044416)"
  using fl_eqI [of 8 "476818610547851223 / 1125899906842624" 7450290789810175]
  by (simp add: pow2_def)

lemma round_sum_1_349: "Math_round (Num (7450290789810175 / 17592186044416)) = Num 423"
  using Math_round_eqI [of 423 "7450290789810175 / 17592186044416"]
  by simp

lemma fl_350_tax: "fl (1324058290446925775 / 18014398509481984) = Num (147 / 2)"
  using fl_eqI [of 6 "1324058290446925775 / 18014398509481984" 5172102697058304]
  by (simp add: pow2_def)

lemma fl_350_plus_tax: "fl (847 / 2) = Num (847 / 2)"
  using fl_eqI [of 8 "847 / 2" 7450290789810176]
  by (simp add: pow2_def)

lemma round_sum_350: "Math_round (Num (847 / 2)) = Num 424"
  using Math_round_eqI [of 424 "847 / 2"]
  by simp

lemmas number_ops = mulNumber_def addNumber_def divNumber_def isZero_def isInfinite_def
  valueOf_def signBit_def signedZero_def

lemma total_1_349:
  "computeTotalAmountForExpense [exItem 1, exItem 349]
     [\<lparr> taxType = VAT, taxRate = fl (21 / 100), idNumber = ''FR123'' \<rparr>] = Num 423"
  by (simp add: computeTotalAmountForExpense_def exItem_def numberOfInt_exact number_ops
                fl_021 fl_021_exact fl_1_plus_tax fl_349_tax fl_349_plus_tax fl_sum_1_349
                round_sum_1_349)

lemma total_350:
  "computeTotalAmountForExpense [exItem 350]
     [\<lparr> taxType = VAT, taxRate = fl (21 / 100), idNumber = ''FR123'' \<rparr>] = Num 424"
  by (simp add: computeTotalAmountForExpense_def exItem_def numberOfInt_exact number_ops
                fl_021 fl_350_tax fl_350_plus_tax round_sum_350)

lemma total_0:
  "computeTotalAmountForExpense [exItem 0]
     [\<lparr> taxType = VAT, taxRate = fl (21 / 100), idNumber = ''FR123'' \<rparr>] = Num 0"
  using Math_round_eqI [of 0 0]
  by (simp add: computeTotalAmountForExpense_def exItem_def numberOfInt_exact number_ops
                fl_021 fl_zero)

text \<open>
  A user submits an invoice with 21% of VAT and two files. With the items 0.01 and 3.49
  the expense is created PENDING with amount 423, with the single item 3.50 it is created
  with amount 424. The same request with no item, with 301 items, with one item of 0,
  or with 16 files is refused.
\<close>

theorem createExpense_validation_witness:
  "createExpense (exCreateEnv (\<lambda>i. None) False) (Some (exUser False)) (exData (Some []) 0) exCreateDb
     = (Inl (ValidationFailed ''Your expense needs to have at least one item''), exCreateDb)
   \<and> createExpense (exCreateEnv (\<lambda>i. None) False) (Some (exUser False))
        (exData (Some (replicate 301 (exItem 100))) 0) exCreateDb
     = (Inl (ValidationFailed ''Expenses cannot have more than 300 items''), exCreateDb)
   \<and> createExpense (exCreateEnv (\<lambda>i. None) False) (Some (exUser False))
        (exData (Some [exItem 0]) 0) exCreateDb
     = (Inl (ValidationFailed ''The sum of all items must be above 0''), exCreateDb)
   \<and> createExpense (exCreateEnv (\<lambda>i. None) False) (Some (exUser False))
        (exData (Some [exItem 350]) 16) exCreateDb
     = (Inl (ValidationFailed ''The number of files that you can attach to an expense is limited to 15''), exCreateDb)
   \<and> (\<exists>e. fst (createExpense (exCreateEnv (\<lambda>i. None) False) (Some (exUser False))
                 (exData (Some [exItem 1, exItem 349]) 2) exCreateDb) = Inr e
          \<and> status e = PENDING \<and> amount e = 423)
   \<and> (\<exists>e. fst (createExpense (exCreateEnv (\<lambda>i. None) False) (Some (exUser False))
                 (exData (Some [exItem 350]) 2) exCreateDb) = Inr e
          \<and> status e = PENDING \<and> amount e = 424)"
proof -
  let ?env = "exCreateEnv (\<lambda>i. None) False"
  let ?tax = "[\<lparr> taxType = VAT, taxRate = fl (21 / 100), idNumber = ''FR123'' \<rparr>]"
  note tot = total_1_349 total_350 total_0
  have taxes: "checkTaxes True False (Some INVOICE) ?tax = None"
    by (simp add: checkTaxes_def fl_021 lessNumber_def valueOf_def)
  have reach: "canUseFeature ?env (exUser False)"
    "dataCollectiveId (exData its n) = Some 3" "(3::nat) \<noteq> 0"
    "findCollective ?env 3 = Some exCollective"
    "\<not> disablePublicExpenseSubmission (exData its n)"
    "checkTaxes (accountHasVAT ?env exCollective)
       (accountHasGST ?env (collectiveHost ?env exCollective))
       (dataType (exData its n)) (orEmpty (dataTax (exData its n))) = None"
    "checkTaxes (accountHasVAT ?env exCollective)
       (accountHasGST ?env (collectiveHost ?env exCollective))
       (dataType (exData its n)) ?tax = None"
    "dataItems (exData its n) = its"
    "orEmpty (dataTax (exData its n)) = ?tax"
    "length (orEmpty (dataAttachedFiles (exData its n))) = n" for its n
    by (simp_all add: exCreateEnv_def exData_def orEmpty_def taxes)
  have items_ok: "checkExpenseItems (exData (Some its) n) (Some its) ?tax = None"
    if "its = [exItem 1, exItem 349] \<or> its = [exItem 350]" for its n
    using that by (auto simp: checkExpenseItems_def tot truthy_def exData_def)
  have checks: "createExpenseChecks ?env (Some (exUser False)) (exData (Some its) 2)
                  = Inr (exUser False, exCollective, ''USD'')"
    if "its = [exItem 1, exItem 349] \<or> its = [exItem 350]" for its
    using items_ok [OF that, of 2]
    by (simp add: createExpenseChecks_def Let_def reach)
       (simp add: exCreateEnv_def exData_def exCollective_def orEmpty_def)
  have "\<exists>e. fst (createExpense ?env (Some (exUser False))
                 (exData (Some [exItem 1, exItem 349]) 2) exCreateDb) = Inr e"
    by (simp add: createExpense_def checks)
       (simp add: sequelize_transaction_def createExpenseRows_def createActivity_def
                  exCreateEnv_def exData_def orEmpty_def exItem_def numeral_2_eq_2 Let_def
                  tot [unfolded exItem_def] integerColumn_def)
  then obtain e1 where e1: "fst (createExpense ?env (Some (exUser False))
                 (exData (Some [exItem 1, exItem 349]) 2) exCreateDb) = Inr e1" by blast
  have "\<exists>e. fst (createExpense ?env (Some (exUser False))
                 (exData (Some [exItem 350]) 2) exCreateDb) = Inr e"
    by (simp add: createExpense_def checks)
       (simp add: sequelize_transaction_def createExpenseRows_def createActivity_def
                  exCreateEnv_def exData_def orEmpty_def exItem_def numeral_2_eq_2 Let_def
                  tot [unfolded exItem_def] integerColumn_def)
  then obtain e2 where e2: "fst (createExpense ?env (Some (exUser False))
                 (exData (Some [exItem 350]) 2) exCreateDb) = Inr e2" by blast
  have s1: "status e1 = PENDING \<and> amount e1 = 423"
    using createExpense_validation [where env = ?env and user = "Some (exUser False)"
            and expenseData = "exData (Some [exItem 1, exItem 349]) 2" and db = exCreateDb
            and e = e1] e1
    by (simp add: reach tot)
  have s2: "status e2 = PENDING \<and> amount e2 = 424"
    using createExpense_validation [where env = ?env and user = "Some (exUser False)"
            and expenseData = "exData (Some [exItem 350]) 2" and db = exCreateDb
            and e = e2] e2
    by (simp add: reach tot)
  have h1: "createExpense ?env (Some (exUser False)) (exData (Some []) 0) exCreateDb
     = (Inl (ValidationFailed ''Your expense needs to have at least one item''), exCreateDb)"
    using createExpense_validation [where env = ?env and user = "Some (exUser False)"
            and u = "exUser False" and cid = 3 and c = exCollective and its = "[]"
            and expenseData = "exData (Some []) 0" and db = exCreateDb]
    by (simp add: reach)
  have h2: "createExpense ?env (Some (exUser False))
        (exData (Some (replicate 301 (exItem 100))) 0) exCreateDb
     = (Inl (ValidationFailed ''Expenses cannot have more than 300 items''), exCreateDb)"
    using createExpense_validation [where env = ?env and user = "Some (exUser False)"
            and u = "exUser False" and cid = 3 and c = exCollective
            and its = "replicate 301 (exItem 100)"
            and expenseData = "exData (Some (replicate 301 (exItem 100))) 0" and db = exCreateDb]
    by (simp add: reach)
  have h3: "createExpense ?env (Some (exUser False))
        (exData (Some [exItem 0]) 0) exCreateDb
     = (Inl (ValidationFailed ''The sum of all items must be above 0''), exCreateDb)"
    using createExpense_validation [where env = ?env and user = "Some (exUser False)"
            and u = "exUser False" and cid = 3 and c = exCollective
            and its = "[exItem 0]"
            and expenseData = "exData (Some [exItem 0]) 0" and db = exCreateDb]
    by (simp add: reach tot)
  have h4: "createExpense ?env (Some (exUser False))
        (exData (Some [exItem 350]) 16) exCreateDb
     = (Inl (ValidationFailed ''The number of files that you can attach to an expense is limited to 15''), exCreateDb)"
    using createExpense_validation [where env = ?env and user = "Some (exUser False)"
            and u = "exUser False" and cid = 3 and c = exCollective
            and its = "[exItem 350]"
            and expenseData = "exData (Some [exItem 350]) 16" and db = exCreateDb]
    by (simp add: reach tot items_ok)
  show ?thesis using h1 h2 h3 h4 e1 s1 e2 s2 by blast
qed

text \<open>
  The database refuses the second item of an expense. Inside the transaction the
  expense row and the first item have been written; \<open>createExpense\<close> throws and leaves
  no row at all, and the state is the one from before the call. When instead the
  activity is refused after the commit, \<open>createExpense\<close> throws as well, and the expense
  row is stored whole, with its two items and its two files.
\<close>

theorem createExpense_atomic_witness:
  "(\<exists>err. fst (createExpense (exCreateEnv (\<lambda>i. if itemAmount i = 349 then Some (Error ''refused'') else None) False)
                 (Some (exUser False)) (exData (Some [exItem 1, exItem 349]) 2) exCreateDb)
            = Inl err)
   \<and> snd (createExpense (exCreateEnv (\<lambda>i. if itemAmount i = 349 then Some (Error ''refused'') else None) False)
                 (Some (exUser False)) (exData (Some [exItem 1, exItem 349]) 2) exCreateDb)
       = exCreateDb
   \<and> length (expenses (edb (snd (createExpenseRows
        (exCreateEnv (\<lambda>i. if itemAmount i = 349 then Some (Error ''refused'') else None) False)
        (exUser False) (exData (Some [exItem 1, exItem 349]) 2) exCollective ''USD''
        \<lparr> fromCollectiveId = 8, payoutMethodId = None, legacyPayoutMethodType = ''other'' \<rparr>
        [exItem 1, exItem 349]
        [\<lparr> taxType = VAT, taxRate = fl (21 / 100), idNumber = ''FR123'' \<rparr>] exCreateDb)))) = 1
   \<and> length (expenseItems (snd (createExpenseRows
        (exCreateEnv (\<lambda>i. if itemAmount i = 349 then Some (Error ''refused'') else None) False)
        (exUser False) (exData (Some [exItem 1, exItem 349]) 2) exCollective ''USD''
        \<lparr> fromCollectiveId = 8, payoutMethodId = None, legacyPayoutMethodType = ''other'' \<rparr>
        [exItem 1, exItem 349]
        [\<lparr> taxType = VAT, taxRate = fl (21 / 100), idNumber = ''FR123'' \<rparr>] exCreateDb))) = 1
   \<and> fst (createExpense (exCreateEnv (\<lambda>i. None) True) (Some (exUser False))
            (exData (Some [exItem 1, exItem 349]) 2) exCreateDb)
       = Inl (Error ''activity not created'')
   \<and> length (expenses (edb (snd (createExpense (exCreateEnv (\<lambda>i. None) True) (Some (exUser False))
            (exData (Some [exItem 1, exItem 349]) 2) exCreateDb)))) = 1
   \<and> length (expenseItems (snd (createExpense (exCreateEnv (\<lambda>i. None) True) (Some (exUser False))
            (exData (Some [exItem 1, exItem 349]) 2) exCreateDb))) = 2
   \<and> length (expenseAttachedFiles (snd (createExpense (exCreateEnv (\<lambda>i. None) True)
            (Some (exUser False)) (exData (Some [exItem 1, exItem 349]) 2) exCreateDb))) = 2"
proof -
  let ?env = "exCreateEnv (\<lambda>i. if itemAmount i = 349 then Some (Error ''refused'') else None) False"
  let ?env2 = "exCreateEnv (\<lambda>i. None) True"
  let ?data = "exData (Some [exItem 1, exItem 349]) 2"
  let ?tax = "[\<lparr> taxType = VAT, taxRate = fl (21 / 100), idNumber = ''FR123'' \<rparr>]"
  let ?r = "createExpense ?env (Some (exUser False)) ?data exCreateDb"
  let ?r2 = "createExpense ?env2 (Some (exUser False)) ?data exCreateDb"
  have bad: "\<exists>i \<in> set (orEmpty (dataItems ?data)). itemCreateError ?env i \<noteq> None"
    by (simp add: exData_def orEmpty_def exCreateEnv_def exItem_def)
  have quiet: "\<forall>u c. snd (preparePayee ?env u ?data c (payeeTables exCreateDb))
                        = payeeTables exCreateDb"
    by (simp add: exCreateEnv_def)
  have A: "(\<exists>err. fst ?r = Inl err) \<and> snd ?r = exCreateDb"
    using createExpense_atomic [where env = ?env and user = "Some (exUser False)"
            and expenseData = ?data and db = exCreateDb] bad quiet
    by blast
  have C: "length (expenses (edb (snd (createExpenseRows ?env (exUser False) ?data exCollective ''USD''
        \<lparr> fromCollectiveId = 8, payoutMethodId = None, legacyPayoutMethodType = ''other'' \<rparr>
        [exItem 1, exItem 349] ?tax exCreateDb)))) = 1
     \<and> length (expenseItems (snd (createExpenseRows ?env (exUser False) ?data exCollective ''USD''
        \<lparr> fromCollectiveId = 8, payoutMethodId = None, legacyPayoutMethodType = ''other'' \<rparr>
        [exItem 1, exItem 349] ?tax exCreateDb))) = 1"
    by (simp add: createExpenseRows_def total_1_349 integerColumn_def)
       (simp add: exCreateEnv_def exCreateDb_def exItem_def Let_def)
  have taxes: "checkTaxes True False (Some INVOICE) ?tax = None"
    by (simp add: checkTaxes_def fl_021 lessNumber_def valueOf_def)
  have checks: "createExpenseChecks ?env2 (Some (exUser False)) ?data
                  = Inr (exUser False, exCollective, ''USD'')"
    by (simp add: createExpenseChecks_def Let_def exCreateEnv_def exData_def orEmpty_def
                  taxes checkExpenseItems_def total_1_349 truthy_def)
       (simp add: exCollective_def exItem_def)
  have D: "fst ?r2 = Inl (Error ''activity not created'')"
    by (simp add: createExpense_def checks)
       (simp add: sequelize_transaction_def createExpenseRows_def exCreateEnv_def exData_def
                  orEmpty_def exItem_def Let_def total_1_349 [unfolded exItem_def]
                  integerColumn_def numeral_2_eq_2)
  have E: "expenses (edb (snd ?r2)) \<noteq> expenses (edb exCreateDb)"
    by (simp add: createExpense_def checks)
       (simp add: sequelize_transaction_def createExpenseRows_def exCreateEnv_def exData_def
                  orEmpty_def exItem_def exCreateDb_def Let_def total_1_349 [unfolded exItem_def]
                  integerColumn_def numeral_2_eq_2)
  have F: "length (expenses (edb (snd ?r2))) = 1 \<and> length (expenseItems (snd ?r2)) = 2
           \<and> length (expenseAttachedFiles (snd ?r2)) = 2"
    using createExpense_atomic [where env = ?env2 and user = "Some (exUser False)"
            and expenseData = ?data and db = exCreateDb] E
    by (auto simp: exCreateDb_def exData_def orEmpty_def)
  show ?thesis using A C D F by blast
qed

section \<open>Estimating the fees of an expense\<close>

lemma orZero_default: "orZero (if falsy x then Some (Num 0) else x) = orZero x"
  by (cases x) (auto simp: orZero_def falsy_def truthy_def)

lemma estimatePaymentProcessorFee_result:
  assumes "estimatePaymentProcessorFee env e c h r fees pm forceManual useExisting = Inr rf"
  shows "\<exists>ppf. rf = fees \<lparr> paymentProcessorFeeInCollectiveCurrency := ppf \<rparr>
           \<and> (payoutMethodTypeOf env e pm = BANK_ACCOUNT
                 \<and> \<not> forceManual \<longrightarrow>
                hasTransferwiseAccount env h
                \<and> (\<exists>feeTotal. wisePaymentOptionFeeTotal env e useExisting = Inr (Some feeTotal)
                      \<and> ppf = Some (floatAmountToCents env (divNumber feeTotal r))))
           \<and> (payoutMethodTypeOf env e pm = PAYPAL
                 \<and> \<not> forceManual \<longrightarrow>
                paypalAdaptiveFees env (amount e) (collectiveCurrency c) h = Inr ppf)
           \<and> (forceManual
                \<or> (payoutMethodTypeOf env e pm \<noteq> BANK_ACCOUNT
                   \<and> payoutMethodTypeOf env e pm \<noteq> PAYPAL)
                \<longrightarrow> ppf = paymentProcessorFeeInCollectiveCurrency fees)"
proof -
  let ?t = "payoutMethodTypeOf env e pm"
  consider (wise) "?t = BANK_ACCOUNT" "\<not> forceManual"
    | (paypal) "?t = PAYPAL" "\<not> forceManual"
    | (other) "forceManual \<or> (?t \<noteq> BANK_ACCOUNT \<and> ?t \<noteq> PAYPAL)"
    by blast
  then show ?thesis
  proof cases
    case wise
    with assms show ?thesis
      by (auto simp: estimatePaymentProcessorFee_def Let_def split: if_splits sum.splits option.splits)
  next
    case paypal
    with assms show ?thesis
      by (auto simp: estimatePaymentProcessorFee_def Let_def split: sum.splits)
  next
    case other
    with assms have "rf = fees"
      by (auto simp: estimatePaymentProcessorFee_def Let_def)
    with other show ?thesis
      by (intro exI [of _ "paymentProcessorFeeInCollectiveCurrency fees"]) auto
  qed
qed

lemma estimatePaymentProcessorFee_returns:
  assumes "payoutMethodTypeOf env e pm = BANK_ACCOUNT
             \<and> \<not> forceManual \<longrightarrow>
           hasTransferwiseAccount env h
           \<and> (\<exists>feeTotal. wisePaymentOptionFeeTotal env e useExisting = Inr (Some feeTotal))"
    and "payoutMethodTypeOf env e pm = PAYPAL
             \<and> \<not> forceManual \<longrightarrow>
           (\<exists>fee. paypalAdaptiveFees env (amount e) (collectiveCurrency c) h = Inr fee)"
  shows "\<exists>rf. estimatePaymentProcessorFee env e c h r fees pm forceManual useExisting = Inr rf"
  using assms by (auto simp: estimatePaymentProcessorFee_def Let_def)

lemma getExpenseFees_unfold:
  assumes "collectiveOf env e = Some c"
    and "getFxRate env (collectiveCurrency c) (hostCur h) = Inr r"
    and "estimatePaymentProcessorFee env e c h r fees pm forceManual useExisting
           = Inr (fees \<lparr> paymentProcessorFeeInCollectiveCurrency := ppf \<rparr>)"
  shows "getExpenseFees env e h fees pm forceManual useExisting =
     (let resultFees = fees \<lparr> paymentProcessorFeeInCollectiveCurrency :=
                                 (if falsy ppf then Some (Num 0) else ppf) \<rparr>;
          inHost = \<lparr> paymentProcessorFeeInHostCurrency = Math_round (mulNumber r (orZero ppf)),
                     hostFeeInHostCurrency =
                       Math_round (mulNumber r (orZero (hostFeeInCollectiveCurrency fees))),
                     platformFeeInHostCurrency =
                       Math_round (mulNumber r (orZero (platformFeeInCollectiveCurrency fees))) \<rparr>
      in if currency e = collectiveCurrency c then
           Inr \<lparr> feesInCollectiveCurrency = resultFees, feesInHostCurrency = inHost,
                 feesInExpenseCurrency =
                   \<lparr> paymentProcessorFee = paymentProcessorFeeInCollectiveCurrency resultFees,
                     hostFee = hostFeeInCollectiveCurrency fees,
                     platformFee = platformFeeInCollectiveCurrency fees \<rparr> \<rparr>
         else
           (case getFxRate env (collectiveCurrency c) (currency e) of
              Inl err \<Rightarrow> Inl err
            | Inr r2 \<Rightarrow>
                Inr \<lparr> feesInCollectiveCurrency = resultFees, feesInHostCurrency = inHost,
                      feesInExpenseCurrency =
                        \<lparr> paymentProcessorFee = Some (Math_round (mulNumber
                              (orZero (paymentProcessorFeeInCollectiveCurrency resultFees)) r2)),
                          hostFee = Some (Math_round (mulNumber
                              (orZero (hostFeeInCollectiveCurrency fees)) r2)),
                          platformFee = Some (Math_round (mulNumber
                              (orZero (platformFeeInCollectiveCurrency fees)) r2)) \<rparr> \<rparr>))"
  using assms by (simp add: getExpenseFees_def Let_def split: sum.splits)

text \<open>
  C4. For every expense and host, whenever \<open>getExpenseFees\<close> returns, each fee in host
  currency is \<open>Math.round(rate * fee)\<close> for the collective-to-host rate and the fee in
  collective currency, a missing fee counting as 0:
  \<open>paymentProcessorFeeInHostCurrency = round(rate * paymentProcessorFeeInCollectiveCurrency)\<close>,
  and likewise for the host fee and the platform fee. The product is the binary64
  product of the rate and the fee, and the result is an integer whenever it is finite.
  The host fee and the platform fee are the ones given; the payment processor fee is
  \<open>floatAmountToCents(total / rate)\<close> for a Wise payout and the PayPal estimate for a PayPal
  payout, unless the payout is manual, and the one given otherwise, set to 0 when it is
  missing or falsy. When the expense currency equals the collective currency,
  \<open>feesInExpenseCurrency\<close> holds the fees of \<open>feesInCollectiveCurrency\<close> with no further
  conversion; otherwise each is \<open>Math.round((fee || 0) * rate)\<close> for the
  collective-to-expense rate. The function returns whenever the collective and the
  rates are found and the estimate of the payment processor fee does not fail.
\<close>

theorem getExpenseFees_host_currency:
  "(getExpenseFees env e h fees pm forceManual useExisting = Inr res \<longrightarrow>
      (\<exists>c r ppf.
         collectiveOf env e = Some c
         \<and> getFxRate env (collectiveCurrency c) (hostCur h) = Inr r
         \<and> (payoutMethodTypeOf env e pm = BANK_ACCOUNT \<and> \<not> forceManual \<longrightarrow>
               hasTransferwiseAccount env h
               \<and> (\<exists>feeTotal. wisePaymentOptionFeeTotal env e useExisting = Inr (Some feeTotal)
                     \<and> ppf = Some (floatAmountToCents env (divNumber feeTotal r))))
         \<and> (payoutMethodTypeOf env e pm = PAYPAL \<and> \<not> forceManual \<longrightarrow>
               paypalAdaptiveFees env (amount e) (collectiveCurrency c) h = Inr ppf)
         \<and> (forceManual \<or> (payoutMethodTypeOf env e pm \<noteq> BANK_ACCOUNT
                              \<and> payoutMethodTypeOf env e pm \<noteq> PAYPAL) \<longrightarrow>
               ppf = paymentProcessorFeeInCollectiveCurrency fees)
         \<and> feesInCollectiveCurrency res
             = fees \<lparr> paymentProcessorFeeInCollectiveCurrency :=
                        (if falsy ppf then Some (Num 0) else ppf) \<rparr>
         \<and> paymentProcessorFeeInHostCurrency (feesInHostCurrency res)
             = Math_round (mulNumber r (orZero ppf))
         \<and> hostFeeInHostCurrency (feesInHostCurrency res)
             = Math_round (mulNumber r (orZero (hostFeeInCollectiveCurrency fees)))
         \<and> platformFeeInHostCurrency (feesInHostCurrency res)
             = Math_round (mulNumber r (orZero (platformFeeInCollectiveCurrency fees)))
         \<and> paymentProcessorFeeInHostCurrency (feesInHostCurrency res)
             = Math_round (mulNumber r
                 (orZero (paymentProcessorFeeInCollectiveCurrency (feesInCollectiveCurrency res))))
         \<and> hostFeeInHostCurrency (feesInHostCurrency res)
             = Math_round (mulNumber r
                 (orZero (hostFeeInCollectiveCurrency (feesInCollectiveCurrency res))))
         \<and> platformFeeInHostCurrency (feesInHostCurrency res)
             = Math_round (mulNumber r
                 (orZero (platformFeeInCollectiveCurrency (feesInCollectiveCurrency res))))
         \<and> (currency e = collectiveCurrency c \<longrightarrow>
               paymentProcessorFee (feesInExpenseCurrency res)
                 = paymentProcessorFeeInCollectiveCurrency (feesInCollectiveCurrency res)
               \<and> hostFee (feesInExpenseCurrency res)
                 = hostFeeInCollectiveCurrency (feesInCollectiveCurrency res)
               \<and> platformFee (feesInExpenseCurrency res)
                 = platformFeeInCollectiveCurrency (feesInCollectiveCurrency res))
         \<and> (currency e \<noteq> collectiveCurrency c \<longrightarrow>
               (\<exists>r2. getFxRate env (collectiveCurrency c) (currency e) = Inr r2
                  \<and> paymentProcessorFee (feesInExpenseCurrency res)
                      = Some (Math_round (mulNumber (orZero
                          (paymentProcessorFeeInCollectiveCurrency (feesInCollectiveCurrency res))) r2))
                  \<and> hostFee (feesInExpenseCurrency res)
                      = Some (Math_round (mulNumber (orZero
                          (hostFeeInCollectiveCurrency (feesInCollectiveCurrency res))) r2))
                  \<and> platformFee (feesInExpenseCurrency res)
                      = Some (Math_round (mulNumber (orZero
                          (platformFeeInCollectiveCurrency (feesInCollectiveCurrency res))) r2))))))
   \<and> (collectiveOf env e = Some col
        \<and> getFxRate env (collectiveCurrency col) (hostCur h) = Inr fx
        \<and> (payoutMethodTypeOf env e pm = BANK_ACCOUNT \<and> \<not> forceManual \<longrightarrow>
              hasTransferwiseAccount env h
              \<and> (\<exists>feeTotal. wisePaymentOptionFeeTotal env e useExisting = Inr (Some feeTotal)))
        \<and> (payoutMethodTypeOf env e pm = PAYPAL \<and> \<not> forceManual \<longrightarrow>
              (\<exists>fee. paypalAdaptiveFees env (amount e) (collectiveCurrency col) h = Inr fee))
        \<and> (currency e \<noteq> collectiveCurrency col \<longrightarrow>
              (\<exists>r2. getFxRate env (collectiveCurrency col) (currency e) = Inr r2))
      \<longrightarrow> (\<exists>res'. getExpenseFees env e h fees pm forceManual useExisting = Inr res'))"
proof (rule conjI; rule impI)
  assume a: "getExpenseFees env e h fees pm forceManual useExisting = Inr res"
  from a obtain c where c: "collectiveOf env e = Some c"
    by (cases "collectiveOf env e") (auto simp: getExpenseFees_def)
  from a c obtain r where r: "getFxRate env (collectiveCurrency c) (hostCur h) = Inr r"
    by (cases "getFxRate env (collectiveCurrency c) (hostCur h)") (auto simp: getExpenseFees_def)
  from a c r obtain rf where rf:
    "estimatePaymentProcessorFee env e c h r fees pm forceManual useExisting = Inr rf"
    by (cases "estimatePaymentProcessorFee env e c h r fees pm forceManual useExisting")
       (auto simp: getExpenseFees_def)
  from estimatePaymentProcessorFee_result [OF rf]
  obtain ppf where rfe: "rf = fees \<lparr> paymentProcessorFeeInCollectiveCurrency := ppf \<rparr>"
    and wise: "payoutMethodTypeOf env e pm = BANK_ACCOUNT \<and> \<not> forceManual \<longrightarrow>
               hasTransferwiseAccount env h
               \<and> (\<exists>feeTotal. wisePaymentOptionFeeTotal env e useExisting = Inr (Some feeTotal)
                     \<and> ppf = Some (floatAmountToCents env (divNumber feeTotal r)))"
    and paypal: "payoutMethodTypeOf env e pm = PAYPAL \<and> \<not> forceManual \<longrightarrow>
               paypalAdaptiveFees env (amount e) (collectiveCurrency c) h = Inr ppf"
    and other: "forceManual \<or> (payoutMethodTypeOf env e pm \<noteq> BANK_ACCOUNT
                              \<and> payoutMethodTypeOf env e pm \<noteq> PAYPAL) \<longrightarrow>
               ppf = paymentProcessorFeeInCollectiveCurrency fees"
    by blast
  note u = getExpenseFees_unfold [OF c r rf [unfolded rfe]]
  have vals: "feesInCollectiveCurrency res
             = fees \<lparr> paymentProcessorFeeInCollectiveCurrency :=
                        (if falsy ppf then Some (Num 0) else ppf) \<rparr>
         \<and> paymentProcessorFeeInHostCurrency (feesInHostCurrency res)
             = Math_round (mulNumber r (orZero ppf))
         \<and> hostFeeInHostCurrency (feesInHostCurrency res)
             = Math_round (mulNumber r (orZero (hostFeeInCollectiveCurrency fees)))
         \<and> platformFeeInHostCurrency (feesInHostCurrency res)
             = Math_round (mulNumber r (orZero (platformFeeInCollectiveCurrency fees)))
         \<and> (currency e = collectiveCurrency c \<longrightarrow>
               paymentProcessorFee (feesInExpenseCurrency res)
                 = (if falsy ppf then Some (Num 0) else ppf)
               \<and> hostFee (feesInExpenseCurrency res) = hostFeeInCollectiveCurrency fees
               \<and> platformFee (feesInExpenseCurrency res) = platformFeeInCollectiveCurrency fees)
         \<and> (currency e \<noteq> collectiveCurrency c \<longrightarrow>
               (\<exists>r2. getFxRate env (collectiveCurrency c) (currency e) = Inr r2
                  \<and> paymentProcessorFee (feesInExpenseCurrency res)
                      = Some (Math_round (mulNumber (orZero
                          (if falsy ppf then Some (Num 0) else ppf)) r2))
                  \<and> hostFee (feesInExpenseCurrency res)
                      = Some (Math_round (mulNumber (orZero (hostFeeInCollectiveCurrency fees)) r2))
                  \<and> platformFee (feesInExpenseCurrency res)
                      = Some (Math_round (mulNumber (orZero
                          (platformFeeInCollectiveCurrency fees)) r2))))"
  proof (cases "currency e = collectiveCurrency c")
    case True
    with a u show ?thesis by (auto simp: Let_def)
  next
    case False
    with a u show ?thesis
      by (cases "getFxRate env (collectiveCurrency c) (currency e)") (auto simp: Let_def)
  qed
  show "\<exists>c r ppf.
         collectiveOf env e = Some c
         \<and> getFxRate env (collectiveCurrency c) (hostCur h) = Inr r
         \<and> (payoutMethodTypeOf env e pm = BANK_ACCOUNT \<and> \<not> forceManual \<longrightarrow>
               hasTransferwiseAccount env h
               \<and> (\<exists>feeTotal. wisePaymentOptionFeeTotal env e useExisting = Inr (Some feeTotal)
                     \<and> ppf = Some (floatAmountToCents env (divNumber feeTotal r))))
         \<and> (payoutMethodTypeOf env e pm = PAYPAL \<and> \<not> forceManual \<longrightarrow>
               paypalAdaptiveFees env (amount e) (collectiveCurrency c) h = Inr ppf)
         \<and> (forceManual \<or> (payoutMethodTypeOf env e pm \<noteq> BANK_ACCOUNT
                              \<and> payoutMethodTypeOf env e pm \<noteq> PAYPAL) \<longrightarrow>
               ppf = paymentProcessorFeeInCollectiveCurrency fees)
         \<and> feesInCollectiveCurrency res
             = fees \<lparr> paymentProcessorFeeInCollectiveCurrency :=
                        (if falsy ppf then Some (Num 0) else ppf) \<rparr>
         \<and> paymentProcessorFeeInHostCurrency (feesInHostCurrency res)
             = Math_round (mulNumber r (orZero ppf))
         \<and> hostFeeInHostCurrency (feesInHostCurrency res)
             = Math_round (mulNumber r (orZero (hostFeeInCollectiveCurrency fees)))
         \<and> platformFeeInHostCurrency (feesInHostCurrency res)
             = Math_round (mulNumber r (orZero (platformFeeInCollectiveCurrency fees)))
         \<and> paymentProcessorFeeInHostCurrency (feesInHostCurrency res)
             = Math_round (mulNumber r
                 (orZero (paymentProcessorFeeInCollectiveCurrency (feesInCollectiveCurrency res))))
         \<and> hostFeeInHostCurrency (feesInHostCurrency res)
             = Math_round (mulNumber r
                 (orZero (hostFeeInCollectiveCurrency (feesInCollectiveCurrency res))))
         \<and> platformFeeInHostCurrency (feesInHostCurrency res)
             = Math_round (mulNumber r
                 (orZero (platformFeeInCollectiveCurrency (feesInCollectiveCurrency res))))
         \<and> (currency e = collectiveCurrency c \<longrightarrow>
               paymentProcessorFee (feesInExpenseCurrency res)
                 = paymentProcessorFeeInCollectiveCurrency (feesInCollectiveCurrency res)
               \<and> hostFee (feesInExpenseCurrency res)
                 = hostFeeInCollectiveCurrency (feesInCollectiveCurrency res)
               \<and> platformFee (feesInExpenseCurrency res)
                 = platformFeeInCollectiveCurrency (feesInCollectiveCurrency res))
         \<and> (currency e \<noteq> collectiveCurrency c \<longrightarrow>
               (\<exists>r2. getFxRate env (collectiveCurrency c) (currency e) = Inr r2
                  \<and> paymentProcessorFee (feesInExpenseCurrency res)
                      = Some (Math_round (mulNumber (orZero
                          (paymentProcessorFeeInCollectiveCurrency (feesInCollectiveCurrency res))) r2))
                  \<and> hostFee (feesInExpenseCurrency res)
                      = Some (Math_round (mulNumber (orZero
                          (hostFeeInCollectiveCurrency (feesInCollectiveCurrency res))) r2))
                  \<and> platformFee (feesInExpenseCurrency res)
                      = Some (Math_round (mulNumber (orZero
                          (platformFeeInCollectiveCurrency (feesInCollectiveCurrency res))) r2))))"
    apply (rule exI [of _ c], rule exI [of _ r], rule exI [of _ ppf])
    using c r wise paypal other vals by (simp add: orZero_default)
next
  assume p: "collectiveOf env e = Some col
        \<and> getFxRate env (collectiveCurrency col) (hostCur h) = Inr fx
        \<and> (payoutMethodTypeOf env e pm = BANK_ACCOUNT \<and> \<not> forceManual \<longrightarrow>
              hasTransferwiseAccount env h
              \<and> (\<exists>feeTotal. wisePaymentOptionFeeTotal env e useExisting = Inr (Some feeTotal)))
        \<and> (payoutMethodTypeOf env e pm = PAYPAL \<and> \<not> forceManual \<longrightarrow>
              (\<exists>fee. paypalAdaptiveFees env (amount e) (collectiveCurrency col) h = Inr fee))
        \<and> (currency e \<noteq> collectiveCurrency col \<longrightarrow>
              (\<exists>r2. getFxRate env (collectiveCurrency col) (currency e) = Inr r2))"
  then have c: "collectiveOf env e = Some col"
    and r: "getFxRate env (collectiveCurrency col) (hostCur h) = Inr fx"
    and cur: "currency e \<noteq> collectiveCurrency col \<longrightarrow>
              (\<exists>r2. getFxRate env (collectiveCurrency col) (currency e) = Inr r2)"
    by simp_all
  from p estimatePaymentProcessorFee_returns [of env e pm forceManual h useExisting col fx fees]
  obtain rf where rf:
    "estimatePaymentProcessorFee env e col h fx fees pm forceManual useExisting = Inr rf"
    by blast
  from estimatePaymentProcessorFee_result [OF rf]
  obtain ppf where rfe: "rf = fees \<lparr> paymentProcessorFeeInCollectiveCurrency := ppf \<rparr>"
    by blast
  note u = getExpenseFees_unfold [OF c r rf [unfolded rfe]]
  show "\<exists>res'. getExpenseFees env e h fees pm forceManual useExisting = Inr res'"
  proof (cases "currency e = collectiveCurrency col")
    case True
    then show ?thesis by (simp add: u Let_def)
  next
    case False
    with cur obtain r2 where "getFxRate env (collectiveCurrency col) (currency e) = Inr r2"
      by blast
    with False show ?thesis by (simp add: u Let_def)
  qed
qed

text \<open>
  At a rate of 1.15, whose binary64 value lies just below 1.15: the product with a fee of
  10 is the binary64 value 11.5 and rounds to 12, the product with a fee of 50 is
  57.49999999999999 and rounds to 57. A Wise fee of 5.75 is 5.00 in the collective's
  currency, 500 cents, and 575 cents in host currency.
\<close>

lemma fl_115: "fl (23 / 20) = Num (2589569785738035 / 2251799813685248)"
  using fl_eqI [of 0 "23 / 20" 5179139571476070]
  by (simp add: pow2_def)

lemma fl_115_times_10: "fl (12947848928690175 / 1125899906842624) = Num (23 / 2)"
  using fl_eqI [of 3 "12947848928690175 / 1125899906842624" 6473924464345088]
  by (simp add: pow2_def)

lemma round_115_times_10: "Math_round (Num (23 / 2)) = Num 12"
  using Math_round_eqI [of 12 "23 / 2"]
  by simp

lemma fl_115_times_50: "fl (64739244643450875 / 1125899906842624) = Num (8092405580431359 / 140737488355328)"
  using fl_eqI [of 5 "64739244643450875 / 1125899906842624" 8092405580431359]
  by (simp add: pow2_def)

lemma round_115_times_50: "Math_round (Num (8092405580431359 / 140737488355328)) = Num 57"
  using Math_round_eqI [of 57 "8092405580431359 / 140737488355328"]
  by simp

lemma fl_wise_div: "fl (12947848928690176 / 2589569785738035) = Num (5)"
  using fl_eqI [of 2 "12947848928690176 / 2589569785738035" 5629499534213120]
  by (simp add: pow2_def)

lemma fl_wise_cents: "fl (500) = Num (500)"
  using fl_eqI [of 8 "500" 8796093022208000]
  by (simp add: pow2_def)

lemma round_wise_cents: "Math_round (Num (500)) = Num 500"
  using Math_round_eqI [of 500 "500"]
  by simp

lemma fl_wise_host: "fl (323696223217254375 / 562949953421312) = Num (575)"
  using fl_eqI [of 9 "323696223217254375 / 562949953421312" 5057753487769600]
  by (simp add: pow2_def)

lemma round_wise_host: "Math_round (Num (575)) = Num 575"
  using Math_round_eqI [of 575 "575"]
  by simp

theorem getExpenseFees_host_currency_witness:
  "(\<exists>res. getExpenseFees exFeesEnv
            ((exExpense APPROVED) \<lparr> currency := ''EUR'',
               collective := Some (exCollective \<lparr> collectiveCurrency := ''EUR'' \<rparr>) \<rparr>)
            \<lparr> hostCollectiveId = 9, hostCur = ''USD'' \<rparr> exFees None True False = Inr res
      \<and> paymentProcessorFeeInHostCurrency (feesInHostCurrency res) = Num 0
      \<and> hostFeeInHostCurrency (feesInHostCurrency res) = Num 12
      \<and> platformFeeInHostCurrency (feesInHostCurrency res) = Num 57
      \<and> paymentProcessorFee (feesInExpenseCurrency res) = Some (Num 0)
      \<and> hostFee (feesInExpenseCurrency res) = Some (Num 10)
      \<and> platformFee (feesInExpenseCurrency res) = Some (Num 50))
   \<and> (\<exists>res. getExpenseFees exFeesEnv
            ((exExpense APPROVED) \<lparr> currency := ''EUR'',
               collective := Some (exCollective \<lparr> collectiveCurrency := ''EUR'' \<rparr>) \<rparr>)
            \<lparr> hostCollectiveId = 9, hostCur = ''USD'' \<rparr> exFees (Some BANK_ACCOUNT) False False
          = Inr res
      \<and> paymentProcessorFeeInCollectiveCurrency (feesInCollectiveCurrency res) = Some (Num 500)
      \<and> paymentProcessorFeeInHostCurrency (feesInHostCurrency res) = Num 575
      \<and> hostFeeInHostCurrency (feesInHostCurrency res) = Num 12
      \<and> paymentProcessorFee (feesInExpenseCurrency res) = Some (Num 500))"
proof -
  let ?c = "exCollective \<lparr> collectiveCurrency := ''EUR'' \<rparr>"
  let ?e = "(exExpense APPROVED) \<lparr> currency := ''EUR'', collective := Some ?c \<rparr>"
  let ?h = "\<lparr> hostCollectiveId = 9, hostCur = ''USD'' \<rparr>"
  let ?Q = "Num (2589569785738035 / 2251799813685248)"
  have pre: "collectiveOf exFeesEnv ?e = Some ?c"
            "getFxRate exFeesEnv (collectiveCurrency ?c) (hostCur ?h) = Inr ?Q"
            "currency ?e = collectiveCurrency ?c"
            "hasTransferwiseAccount exFeesEnv ?h"
            "wisePaymentOptionFeeTotal exFeesEnv ?e False = Inr (Some (Num (23 / 4)))"
            "payoutMethodTypeOf exFeesEnv ?e None = OTHER"
            "payoutMethodTypeOf exFeesEnv ?e (Some BANK_ACCOUNT) = BANK_ACCOUNT"
    by (simp_all add: exFeesEnv_def exExpense_def exCollective_def collectiveOf_def
                      payoutMethodTypeOf_def fl_115)
  have given: "paymentProcessorFeeInCollectiveCurrency exFees = None"
              "hostFeeInCollectiveCurrency exFees = Some (Num 10)"
              "platformFeeInCollectiveCurrency exFees = Some (Num 50)"
    by (simp_all add: exFees_def)
  have ops: "Math_round (mulNumber ?Q (Num 0)) = Num 0"
            "Math_round (mulNumber ?Q (Num 10)) = Num 12"
            "Math_round (mulNumber ?Q (Num 50)) = Num 57"
            "floatAmountToCents exFeesEnv (divNumber (Num (23 / 4)) ?Q) = Num 500"
            "Math_round (mulNumber ?Q (Num 500)) = Num 575"
    using Math_round_eqI [of 0 0]
    by (simp_all add: number_ops exFeesEnv_def fl_115_times_10 round_115_times_10
                      fl_115_times_50 round_115_times_50 fl_wise_div fl_wise_cents
                      round_wise_cents fl_wise_host round_wise_host)
  from getExpenseFees_host_currency [where env = exFeesEnv and e = ?e and h = ?h
         and fees = exFees and pm = None and forceManual = True and useExisting = False
         and col = ?c and fx = ?Q] pre
  obtain res1 where res1: "getExpenseFees exFeesEnv ?e ?h exFees None True False = Inr res1"
    by blast
  from getExpenseFees_host_currency [where env = exFeesEnv and e = ?e and h = ?h
         and fees = exFees and pm = None and forceManual = True and useExisting = False
         and res = res1] res1
  obtain c1 r1 ppf1 where
        c1: "collectiveOf exFeesEnv ?e = Some c1"
    and r1: "getFxRate exFeesEnv (collectiveCurrency c1) (hostCur ?h) = Inr r1"
    and p1: "True \<or> (payoutMethodTypeOf exFeesEnv ?e None \<noteq> BANK_ACCOUNT
                       \<and> payoutMethodTypeOf exFeesEnv ?e None \<noteq> PAYPAL) \<longrightarrow>
               ppf1 = paymentProcessorFeeInCollectiveCurrency exFees"
    and f1: "feesInCollectiveCurrency res1
               = exFees \<lparr> paymentProcessorFeeInCollectiveCurrency :=
                            (if falsy ppf1 then Some (Num 0) else ppf1) \<rparr>"
    and h1: "paymentProcessorFeeInHostCurrency (feesInHostCurrency res1)
               = Math_round (mulNumber r1 (orZero ppf1))"
            "hostFeeInHostCurrency (feesInHostCurrency res1)
               = Math_round (mulNumber r1 (orZero (hostFeeInCollectiveCurrency exFees)))"
            "platformFeeInHostCurrency (feesInHostCurrency res1)
               = Math_round (mulNumber r1 (orZero (platformFeeInCollectiveCurrency exFees)))"
    and s1: "currency ?e = collectiveCurrency c1 \<longrightarrow>
               paymentProcessorFee (feesInExpenseCurrency res1)
                 = paymentProcessorFeeInCollectiveCurrency (feesInCollectiveCurrency res1)
               \<and> hostFee (feesInExpenseCurrency res1)
                 = hostFeeInCollectiveCurrency (feesInCollectiveCurrency res1)
               \<and> platformFee (feesInExpenseCurrency res1)
                 = platformFeeInCollectiveCurrency (feesInCollectiveCurrency res1)"
    by blast
  have c1eq: "c1 = ?c" using c1 pre(1) by simp
  have r1eq: "r1 = ?Q" using r1 pre(2) by (simp add: c1eq)
  have ppf1: "ppf1 = None" using p1 given by simp
  have v1: "paymentProcessorFeeInHostCurrency (feesInHostCurrency res1) = Num 0
      \<and> hostFeeInHostCurrency (feesInHostCurrency res1) = Num 12
      \<and> platformFeeInHostCurrency (feesInHostCurrency res1) = Num 57
      \<and> paymentProcessorFee (feesInExpenseCurrency res1) = Some (Num 0)
      \<and> hostFee (feesInExpenseCurrency res1) = Some (Num 10)
      \<and> platformFee (feesInExpenseCurrency res1) = Some (Num 50)"
    using h1 s1 pre(3)
    by (simp add: c1eq r1eq ppf1 f1 given ops orZero_def falsy_def truthy_def)
  from getExpenseFees_host_currency [where env = exFeesEnv and e = ?e and h = ?h
         and fees = exFees and pm = "Some BANK_ACCOUNT" and forceManual = False
         and useExisting = False and col = ?c and fx = ?Q] pre
  obtain res2 where res2:
    "getExpenseFees exFeesEnv ?e ?h exFees (Some BANK_ACCOUNT) False False = Inr res2"
    by auto
  from getExpenseFees_host_currency [where env = exFeesEnv and e = ?e and h = ?h
         and fees = exFees and pm = "Some BANK_ACCOUNT" and forceManual = False
         and useExisting = False and res = res2, THEN conjunct1, rule_format, OF res2]
  obtain c2 r2 ppf2 where
        c2: "collectiveOf exFeesEnv ?e = Some c2"
    and r2: "getFxRate exFeesEnv (collectiveCurrency c2) (hostCur ?h) = Inr r2"
    and p2: "payoutMethodTypeOf exFeesEnv ?e (Some BANK_ACCOUNT) = BANK_ACCOUNT \<and> \<not> False \<longrightarrow>
               hasTransferwiseAccount exFeesEnv ?h
               \<and> (\<exists>feeTotal. wisePaymentOptionFeeTotal exFeesEnv ?e False = Inr (Some feeTotal)
                     \<and> ppf2 = Some (floatAmountToCents exFeesEnv (divNumber feeTotal r2)))"
    and f2: "feesInCollectiveCurrency res2
               = exFees \<lparr> paymentProcessorFeeInCollectiveCurrency :=
                            (if falsy ppf2 then Some (Num 0) else ppf2) \<rparr>"
    and h2: "paymentProcessorFeeInHostCurrency (feesInHostCurrency res2)
               = Math_round (mulNumber r2 (orZero ppf2))"
            "hostFeeInHostCurrency (feesInHostCurrency res2)
               = Math_round (mulNumber r2 (orZero (hostFeeInCollectiveCurrency exFees)))"
    and s2: "currency ?e = collectiveCurrency c2 \<longrightarrow>
               paymentProcessorFee (feesInExpenseCurrency res2)
                 = paymentProcessorFeeInCollectiveCurrency (feesInCollectiveCurrency res2)
               \<and> hostFee (feesInExpenseCurrency res2)
                 = hostFeeInCollectiveCurrency (feesInCollectiveCurrency res2)
               \<and> platformFee (feesInExpenseCurrency res2)
                 = platformFeeInCollectiveCurrency (feesInCollectiveCurrency res2)"
    by (elim exE conjE) (rule that, assumption+)
  have c2eq: "c2 = ?c" using c2 pre(1) by simp
  have r2eq: "r2 = ?Q" using r2 pre(2) by (simp add: c2eq)
  have ppf2: "ppf2 = Some (Num 500)" using p2 pre(5,7) ops(4) by (auto simp: r2eq)
  have v2: "paymentProcessorFeeInCollectiveCurrency (feesInCollectiveCurrency res2)
              = Some (Num 500)
      \<and> paymentProcessorFeeInHostCurrency (feesInHostCurrency res2) = Num 575
      \<and> hostFeeInHostCurrency (feesInHostCurrency res2) = Num 12
      \<and> paymentProcessorFee (feesInExpenseCurrency res2) = Some (Num 500)"
    using h2 s2 pre(3)
    by (simp add: c2eq r2eq ppf2 f2 given ops orZero_def falsy_def truthy_def)
  show ?thesis using res1 v1 res2 v2 by blast
qed

section \<open>Account holder name and legal name\<close>

lemma remove501_undefined: "remove501 ''undefined'' = ''undefined''"
  by simp

lemma remove501_Acme: "remove501 ''Acme'' = ''Acme''"
  by simp

lemma names_Acme: "splitOnSpace (trim ''Acme'') = [''Acme'']"
  by (simp add: trim_def isWhiteSpace_def)

text \<open>
  C10, at an input where the code departs from it. The legal name \<open>Acme\<close> has one
  word, so only the direct comparison should apply; but the reversed name is then
  \<open>undefined\<close>, which \<open>localeCompare\<close> reads as the string \<open>undefined\<close>: the account
  holder name \<open>undefined\<close> matches, whatever the collation, although the two names differ.
\<close>

theorem isAccountHolderNameAndLegalNameMatch_undefined:
  "(\<forall>collationKey :: string \<Rightarrow> nat list.
      isAccountHolderNameAndLegalNameMatch collationKey ''undefined'' ''Acme'')
   \<and> asciiBaseKey ''undefined'' \<noteq> asciiBaseKey ''Acme''
   \<and> \<not> isAccountHolderNameAndLegalNameMatch asciiBaseKey ''undefine'' ''Acme''"
proof (intro conjI allI)
  fix collationKey :: "string \<Rightarrow> nat list"
  show "isAccountHolderNameAndLegalNameMatch collationKey ''undefined'' ''Acme''"
    unfolding isAccountHolderNameAndLegalNameMatch_def Let_def
              remove501_undefined remove501_Acme names_Acme
    by (simp add: localeCompare_def)
  show "asciiBaseKey ''undefined'' \<noteq> asciiBaseKey ''Acme''"
    by (simp add: asciiBaseKey_def)
  have r: "remove501 ''undefine'' = ''undefine''" by simp
  show "\<not> isAccountHolderNameAndLegalNameMatch asciiBaseKey ''undefine'' ''Acme''"
    unfolding isAccountHolderNameAndLegalNameMatch_def Let_def r remove501_Acme names_Acme
    by (simp add: localeCompare_def asciiBaseKey_def)
qed

text \<open>
  What does hold: a legal name of two words is also accepted in the reversed order, and
  a name always matches itself.
\<close>

lemma isAccountHolderNameAndLegalNameMatch_reversed:
  assumes "splitOnSpace (trim (remove501 legalName)) = [firstName, lastName]"
      and "collationKey (remove501 accountHolderName) = collationKey (lastName @ '' '' @ firstName)"
  shows "isAccountHolderNameAndLegalNameMatch collationKey accountHolderName legalName"
  using assms by (simp add: isAccountHolderNameAndLegalNameMatch_def Let_def localeCompare_def)

lemma isAccountHolderNameAndLegalNameMatch_direct:
  assumes "collationKey (remove501 accountHolderName) = collationKey (remove501 legalName)"
  shows "isAccountHolderNameAndLegalNameMatch collationKey accountHolderName legalName"
  using assms by (simp add: isAccountHolderNameAndLegalNameMatch_def Let_def localeCompare_def)

lemma isAccountHolderNameAndLegalNameMatch_example:
  "isAccountHolderNameAndLegalNameMatch asciiBaseKey ''Piouffle Benjamin'' ''Benjamin Piouffle''
   \<and> isAccountHolderNameAndLegalNameMatch asciiBaseKey ''Evil Corp, Inc'' ''Evil Corp, Inc.''
   \<and> isAccountHolderNameAndLegalNameMatch asciiBaseKey ''ACME 501(c)(3)'' ''Acme''"
  by (simp add: isAccountHolderNameAndLegalNameMatch_def Let_def localeCompare_def
                asciiBaseKey_def trim_def isWhiteSpace_def)

end
